theory Spec2Isabelle
  imports Complex_Main
begin

section \<open>Python values, errors and sequencing\<close>

text \<open>
  The generators of \<^verbatim>\<open>perlin2d.py\<close> and \<^verbatim>\<open>perlin3d.py\<close> are embedded as HOL functions.
  Python integers are \<open>int\<close>, tuples are lists, and every exception the interpreter or
  numpy can raise on the modelled paths is a value \<open>Inl e\<close> of the result type
  \<open>py_error + 'a\<close>.

  Python floats are doubles, and a double is the \<open>real\<close> it stands for. Where the rounding of
  a double decides an integer or the cell of a sample, the operation is rounded as the
  interpreter and numpy round it: in the quotient \<open>res / shape\<close>, in the number of samples
  and the sample coordinates of \<^verbatim>\<open>np.mgrid\<close>, and in \<^verbatim>\<open>% 1\<close>. The arithmetic on the
  sample values after that (ramps, interpolant, blending, scaling, sums of octaves) is taken
  in the real numbers, where rounding would only perturb a value in its last digits.
\<close>

datatype py_error = IndexError | ZeroDivisionError | ValueError

text \<open>One statement after another: the first exception ends the function.\<close>

definition pbind :: "py_error + 'a \<Rightarrow> ('a \<Rightarrow> py_error + 'b) \<Rightarrow> py_error + 'b" where
  "pbind m f = (case m of Inl e \<Rightarrow> Inl e | Inr v \<Rightarrow> f v)"

text \<open>\<^verbatim>\<open>t[i]\<close> on a tuple, for a constant index \<open>i \<ge> 0\<close>.\<close>

definition tuple_get :: "'a list \<Rightarrow> nat \<Rightarrow> py_error + 'a" where
  "tuple_get xs i = (if i < length xs then Inr (xs ! i) else Inl IndexError)"

text \<open>
  Rounding to binary64: \<open>binary64 x\<close> is the double nearest to \<open>x\<close>, ties to the even
  significand. With \<open>e = \<lfloor>log\<^sub>2 |x|\<rfloor>\<close> the doubles around \<open>x\<close> are the integer multiples of
  \<open>2\<^sup>e\<^sup>-\<^sup>5\<^sup>2\<close>. The exponent is not bounded: overflow and subnormal numbers, which need
  integers of more than a thousand bits, are left out.
\<close>

definition round_half_even :: "real \<Rightarrow> int" where
  "round_half_even y =
     (let n = \<lfloor>y\<rfloor>; r = y - of_int n
      in if r < 1 / 2 then n else if 1 / 2 < r then n + 1 else if even n then n else n + 1)"

definition binary64 :: "real \<Rightarrow> real" where
  "binary64 x =
     (if x = 0 then 0
      else let e = \<lfloor>log 2 \<bar>x\<bar>\<rfloor>
           in of_int (round_half_even (x * 2 powr (52 - of_int e))) * 2 powr (of_int e - 52))"

text \<open>
  \<^verbatim>\<open>a / b\<close> and \<^verbatim>\<open>a // b\<close> on Python integers. The true quotient of two integers is the
  double nearest to the exact quotient.
\<close>

definition int_truediv :: "int \<Rightarrow> int \<Rightarrow> real" where
  "int_truediv a b = binary64 (real_of_int a / real_of_int b)"

definition py_truediv :: "int \<Rightarrow> int \<Rightarrow> py_error + real" where
  "py_truediv a b = (if b = 0 then Inl ZeroDivisionError else Inr (int_truediv a b))"

definition py_floordiv :: "int \<Rightarrow> int \<Rightarrow> py_error + int" where
  "py_floordiv a b = (if b = 0 then Inl ZeroDivisionError else Inr (a div b))"

section \<open>Dense arrays\<close>

text \<open>
  A numpy array is its shape and its entries. The entries are a function of the index
  tuple that is \<open>0\<close> outside the shape, so that two arrays are equal exactly when their
  shapes and their entries inside the shape agree; \<open>tabulate\<close> builds such an array.
\<close>

datatype ndarray = NDArray (shape: "nat list") (item: "nat list \<Rightarrow> real")

definition in_bounds :: "nat list \<Rightarrow> nat list \<Rightarrow> bool" where
  "in_bounds s idx = list_all2 (<) idx s"

definition tabulate :: "nat list \<Rightarrow> (nat list \<Rightarrow> real) \<Rightarrow> ndarray" where
  "tabulate s f = NDArray s (\<lambda>idx. if in_bounds s idx then f idx else 0)"

text \<open>\<^verbatim>\<open>np.zeros(shape)\<close>: a negative dimension is a \<^verbatim>\<open>ValueError\<close>.\<close>

definition np_zeros :: "int list \<Rightarrow> py_error + ndarray" where
  "np_zeros dims =
     (if list_ex (\<lambda>n. n < 0) dims then Inl ValueError
      else Inr (tabulate (map nat dims) (\<lambda>idx. 0)))"

text \<open>An elementwise function of one array: scalar arithmetic, \<^verbatim>\<open>np.cos\<close>, \<^verbatim>\<open>% 1\<close>.\<close>

definition np_map :: "(real \<Rightarrow> real) \<Rightarrow> ndarray \<Rightarrow> ndarray" where
  "np_map f a = tabulate (shape a) (\<lambda>idx. f (item a idx))"

text \<open>
  numpy's broadcasting of two shapes, aligned at their last axes: two sizes are compatible
  when they are equal or one of them is \<open>1\<close>, and a size \<open>1\<close> is stretched to the other
  size (also to size \<open>0\<close>).
\<close>

fun broadcast_rev :: "nat list \<Rightarrow> nat list \<Rightarrow> nat list option" where
  "broadcast_rev [] ys = Some ys"
| "broadcast_rev (x # xs) [] = Some (x # xs)"
| "broadcast_rev (x # xs) (y # ys) =
     (if x = y \<or> y = 1 then map_option ((#) x) (broadcast_rev xs ys)
      else if x = 1 then map_option ((#) y) (broadcast_rev xs ys)
      else None)"

definition broadcast_shapes :: "nat list \<Rightarrow> nat list \<Rightarrow> nat list option" where
  "broadcast_shapes s1 s2 = map_option rev (broadcast_rev (rev s1) (rev s2))"

text \<open>The entry of an operand of shape \<open>s\<close> that is read for the entry \<open>idx\<close> of the result.\<close>

definition broadcast_index :: "nat list \<Rightarrow> nat list \<Rightarrow> nat list" where
  "broadcast_index s idx =
     map2 (\<lambda>n i. if n = 1 then 0 else i) s (drop (length idx - length s) idx)"

definition np_binop :: "(real \<Rightarrow> real \<Rightarrow> real) \<Rightarrow> ndarray \<Rightarrow> ndarray \<Rightarrow> py_error + ndarray" where
  "np_binop f a b =
     (case broadcast_shapes (shape a) (shape b) of
        None \<Rightarrow> Inl ValueError
      | Some s \<Rightarrow>
          Inr (tabulate s (\<lambda>idx. f (item a (broadcast_index (shape a) idx))
                                   (item b (broadcast_index (shape b) idx)))))"

definition np_mul :: "ndarray \<Rightarrow> ndarray \<Rightarrow> py_error + ndarray" where
  "np_mul = np_binop (*)"

definition np_add :: "ndarray \<Rightarrow> ndarray \<Rightarrow> py_error + ndarray" where
  "np_add = np_binop (+)"

text \<open>\<^verbatim>\<open>a += b\<close>: the broadcast result has to fit the array that is updated.\<close>

definition np_iadd :: "ndarray \<Rightarrow> ndarray \<Rightarrow> py_error + ndarray" where
  "np_iadd a b =
     (case np_add a b of
        Inl e \<Rightarrow> Inl e
      | Inr c \<Rightarrow> if shape c = shape a then Inr c else Inl ValueError)"

text \<open>
  \<^verbatim>\<open>np.mgrid[0:stop:step, ...]\<close> with an integer \<open>stop\<close> and a float \<open>step\<close>. numpy sizes
  axis \<open>k\<close> as \<^verbatim>\<open>int(math.ceil((stop - start) / (step * 1.0)))\<close>: the integer \<open>stop\<close> is
  converted to a double and divided by the step in double precision. The samples are
  \<^verbatim>\<open>nn[k] * step + start\<close> for the float array \<open>nn[k] = 0.0, 1.0, 2.0, ...\<close> of indices: one
  double product each. The result has one leading axis that selects the coordinate.
\<close>

definition mgrid_count :: "int \<Rightarrow> real \<Rightarrow> int" where
  "mgrid_count stop step = \<lceil>binary64 (binary64 (real_of_int stop) / step)\<rceil>"

definition mgrid_coord :: "real \<Rightarrow> nat \<Rightarrow> real" where
  "mgrid_coord step i = binary64 (binary64 (real i) * step)"

definition np_mgrid :: "(int \<times> real) list \<Rightarrow> py_error + ndarray" where
  "np_mgrid slices =
     (if list_ex (\<lambda>(stop, step). step = 0) slices then Inl ZeroDivisionError
      else
        let size = map (\<lambda>(stop, step). mgrid_count stop step) slices in
        if list_ex (\<lambda>n. n < 0) size then Inl ValueError
        else Inr (tabulate (length slices # map nat size)
                    (\<lambda>idx. mgrid_coord (snd (slices ! hd idx)) (idx ! Suc (hd idx)))))"

text \<open>
  \<^verbatim>\<open>x % 1\<close> on a double. For \<open>x \<ge> 0\<close> the remainder \<^verbatim>\<open>fmod(x, 1)\<close> is exact. For \<open>x < 0\<close>
  numpy adds \<open>1\<close> to the remainder, which is rounded.
\<close>

definition py_mod1 :: "real \<Rightarrow> real" where
  "py_mod1 x = (if 0 \<le> x then frac x else binary64 (frac x))"

text \<open>\<^verbatim>\<open>a.transpose(axes)\<close> for a permutation \<open>axes\<close>: axis \<open>i\<close> of the result is axis \<open>axes[i]\<close> of \<open>a\<close>.\<close>

fun index_of :: "nat list \<Rightarrow> nat \<Rightarrow> nat" where
  "index_of [] k = 0"
| "index_of (x # xs) k = (if x = k then 0 else Suc (index_of xs k))"

definition np_transpose :: "ndarray \<Rightarrow> nat list \<Rightarrow> ndarray" where
  "np_transpose a axes =
     tabulate (map (\<lambda>k. shape a ! k) axes)
       (\<lambda>idx. item a (map (\<lambda>k. idx ! index_of axes k) [0..<length axes]))"

text \<open>
  The generator state of \<^verbatim>\<open>np.random\<close>: the sequence of uniform draws fixed by the seed
  and the number of draws already consumed. \<^verbatim>\<open>np.random.rand(d0, d1, ...)\<close> fills an array
  of that shape with the next draws in row-major order.
\<close>

record rng =
  draws :: "nat \<Rightarrow> real"
  pos :: nat

definition flat_index :: "nat list \<Rightarrow> nat list \<Rightarrow> nat" where
  "flat_index s idx = foldl (\<lambda>acc (n, i). acc * n + i) 0 (zip s idx)"

definition np_random_rand :: "int list \<Rightarrow> rng \<Rightarrow> py_error + ndarray \<times> rng" where
  "np_random_rand dims g =
     (if list_ex (\<lambda>n. n < 0) dims then Inl ValueError
      else
        let s = map nat dims in
        Inr (tabulate s (\<lambda>idx. draws g (pos g + flat_index s idx)),
             g\<lparr>pos := pos g + prod_list s\<rparr>))"

text \<open>
  Arrays of one shape joined along a new last axis: \<^verbatim>\<open>np.dstack\<close> on two-dimensional
  operands and \<^verbatim>\<open>np.stack(..., axis=3)\<close> on three-dimensional ones.
\<close>

definition np_stack_last :: "ndarray list \<Rightarrow> py_error + ndarray" where
  "np_stack_last as =
     (if as = [] \<or> list_ex (\<lambda>a. shape a \<noteq> shape (hd as)) as then Inl ValueError
      else Inr (tabulate (shape (hd as) @ [length as])
                  (\<lambda>idx. item (as ! last idx) (butlast idx))))"

text \<open>
  \<^verbatim>\<open>a[..., -1, ...] = a[..., 0, ...]\<close> along axis \<open>k\<close>: the last slice is overwritten with
  the first one. Both indices are out of range on an axis of size \<open>0\<close>.
\<close>

definition assign_last_from_first :: "ndarray \<Rightarrow> nat \<Rightarrow> py_error + ndarray" where
  "assign_last_from_first a k =
     (if shape a ! k = 0 then Inl IndexError
      else Inr (tabulate (shape a)
                  (\<lambda>idx. if idx ! k = shape a ! k - 1 then item a (idx[k := 0]) else item a idx)))"

text \<open>
  \<^verbatim>\<open>a.repeat(n, k)\<close>: every slice along axis \<open>k\<close> is repeated \<open>n\<close> times in place. numpy
  sizes the result axis as \<open>n\<close> times the old size and rejects a negative size.
\<close>

definition np_repeat :: "ndarray \<Rightarrow> int \<Rightarrow> nat \<Rightarrow> py_error + ndarray" where
  "np_repeat a n k =
     (if n < 0 \<and> 0 < shape a ! k then Inl ValueError
      else Inr (tabulate ((shape a)[k := shape a ! k * nat n])
                  (\<lambda>idx. item a (idx[k := idx ! k div nat n]))))"

text \<open>
  Basic slicing \<^verbatim>\<open>a[b0:e0, b1:e1, ...]\<close> with step \<open>1\<close> on the leading axes. A bound may
  be absent; a negative bound counts from the end; every bound is clamped to the axis, so
  slicing never raises.
\<close>

definition slice_bound :: "int \<Rightarrow> nat \<Rightarrow> nat" where
  "slice_bound i n = (if i < 0 then nat (max 0 (int n + i)) else min (nat i) n)"

definition slice_range :: "int option \<times> int option \<Rightarrow> nat \<Rightarrow> nat \<times> nat" where
  "slice_range be n =
     (let lo = (case fst be of None \<Rightarrow> 0 | Some i \<Rightarrow> slice_bound i n);
          hi = (case snd be of None \<Rightarrow> n | Some i \<Rightarrow> slice_bound i n)
      in (lo, hi - lo))"

definition np_slice :: "ndarray \<Rightarrow> (int option \<times> int option) list \<Rightarrow> ndarray" where
  "np_slice a sl =
     (let rs = map2 slice_range sl (shape a) in
      tabulate (map snd rs @ drop (length sl) (shape a))
        (\<lambda>idx. item a (map2 (+) (map fst rs @ replicate (length (shape a) - length sl) 0) idx)))"

text \<open>\<^verbatim>\<open>a[..., c]\<close>: component \<open>c\<close> of the last axis.\<close>

definition np_select_last :: "ndarray \<Rightarrow> nat \<Rightarrow> py_error + ndarray" where
  "np_select_last a c =
     (if shape a = [] \<or> \<not> c < last (shape a) then Inl IndexError
      else Inr (tabulate (butlast (shape a)) (\<lambda>idx. item a (idx @ [c]))))"

text \<open>\<^verbatim>\<open>np.sum(a, k)\<close> for the last axis \<open>k\<close>.\<close>

definition np_sum_last :: "ndarray \<Rightarrow> ndarray" where
  "np_sum_last a =
     tabulate (butlast (shape a))
       (\<lambda>idx. sum_list (map (\<lambda>c. item a (idx @ [c])) [0..<last (shape a)]))"

section \<open>The two-dimensional generator\<close>

text \<open>\<^verbatim>\<open>interpolant(t)\<close>, the default smoothing kernel.\<close>

definition interpolant :: "real \<Rightarrow> real" where
  "interpolant t = t*t*t*(t*(t*6 - 15) + 10)"

text \<open>
  Lines 93-98 of \<^verbatim>\<open>generate_perlin_noise_2d\<close>: one angle per lattice corner, its unit
  vector, and the seam overwrite for every tileable axis.
\<close>

definition gradient_lattice_2d :: "int \<Rightarrow> int \<Rightarrow> bool list \<Rightarrow> rng \<Rightarrow> py_error + ndarray \<times> rng" where
  "gradient_lattice_2d res0 res1 tileable g =
     pbind (np_random_rand [res0 + 1, res1 + 1] g) (\<lambda>(r, g').
     let angles = np_map (\<lambda>u. 2 * pi * u) r in
     pbind (np_stack_last [np_map cos angles, np_map sin angles]) (\<lambda>gradients.
     pbind (tuple_get tileable 0) (\<lambda>t0.
     pbind (if t0 then assign_last_from_first gradients 0 else Inr gradients) (\<lambda>gradients.
     pbind (tuple_get tileable 1) (\<lambda>t1.
     pbind (if t1 then assign_last_from_first gradients 1 else Inr gradients) (\<lambda>gradients.
     Inr (gradients, g')))))))"

text \<open>
  Lines 99-103: the lattice is repeated \<open>d\<close> times along each axis and cut into the four
  arrays that hold, for every sample, the gradient of one corner of its cell.
\<close>

definition corner_gradients_2d ::
  "ndarray \<Rightarrow> int \<Rightarrow> int \<Rightarrow> py_error + ndarray \<times> ndarray \<times> ndarray \<times> ndarray" where
  "corner_gradients_2d gradients d0 d1 =
     pbind (np_repeat gradients d0 0) (\<lambda>rep0.
     pbind (np_repeat rep0 d1 1) (\<lambda>gradients.
     Inr (np_slice gradients [(None, Some (- d0)), (None, Some (- d1))],
          np_slice gradients [(Some d0, None), (None, Some (- d1))],
          np_slice gradients [(None, Some (- d0)), (Some d1, None)],
          np_slice gradients [(Some d0, None), (Some d1, None)])))"

text \<open>
  Lines 105-108, one ramp: \<^verbatim>\<open>np.sum(np.dstack((grid[:,:,0] - a, grid[:,:,1] - b)) * g, 2)\<close>,
  where \<open>fx\<close> and \<open>fy\<close> are the identity or the subtraction of \<open>1\<close>.
\<close>

definition ramp_2d ::
  "ndarray \<Rightarrow> (real \<Rightarrow> real) \<Rightarrow> (real \<Rightarrow> real) \<Rightarrow> ndarray \<Rightarrow> py_error + ndarray" where
  "ramp_2d grid fx fy gc =
     pbind (np_select_last grid 0) (\<lambda>x.
     pbind (np_select_last grid 1) (\<lambda>y.
     pbind (np_stack_last [np_map fx x, np_map fy y]) (\<lambda>offset.
     pbind (np_mul offset gc) (\<lambda>prod.
     Inr (np_sum_last prod)))))"

text \<open>\<^verbatim>\<open>a*(1-t) + t*b\<close> (lines 111-112) and \<^verbatim>\<open>(1-t)*a + t*b\<close> (line 113).\<close>

definition blend_first :: "ndarray \<Rightarrow> ndarray \<Rightarrow> ndarray \<Rightarrow> py_error + ndarray" where
  "blend_first a t b =
     pbind (np_mul a (np_map (\<lambda>v. 1 - v) t)) (\<lambda>l.
     pbind (np_mul t b) (\<lambda>r.
     np_add l r))"

definition blend_rest :: "ndarray \<Rightarrow> ndarray \<Rightarrow> ndarray \<Rightarrow> py_error + ndarray" where
  "blend_rest t a b =
     pbind (np_mul (np_map (\<lambda>v. 1 - v) t) a) (\<lambda>l.
     pbind (np_mul t b) (\<lambda>r.
     np_add l r))"

text \<open>
  \<^verbatim>\<open>generate_perlin_noise_2d(shape, res, tileable, interpolant)\<close>. The interpolant is a
  function of one float that numpy applies elementwise.
\<close>

definition generate_perlin_noise_2d ::
  "int list \<Rightarrow> int list \<Rightarrow> bool list \<Rightarrow> (real \<Rightarrow> real) \<Rightarrow> rng \<Rightarrow> py_error + ndarray \<times> rng" where
  "generate_perlin_noise_2d shp res tileable interp g =
     pbind (tuple_get res 0) (\<lambda>res0.
     pbind (tuple_get shp 0) (\<lambda>shape0.
     pbind (py_truediv res0 shape0) (\<lambda>delta0.
     pbind (tuple_get res 1) (\<lambda>res1.
     pbind (tuple_get shp 1) (\<lambda>shape1.
     pbind (py_truediv res1 shape1) (\<lambda>delta1.
     pbind (py_floordiv shape0 res0) (\<lambda>d0.
     pbind (py_floordiv shape1 res1) (\<lambda>d1.
     pbind (np_mgrid [(res0, delta0), (res1, delta1)]) (\<lambda>m.
     let grid = np_map py_mod1 (np_transpose m [1, 2, 0]) in
     pbind (gradient_lattice_2d res0 res1 tileable g) (\<lambda>(gradients, g').
     pbind (corner_gradients_2d gradients d0 d1) (\<lambda>(g00, g10, g01, g11).
     pbind (ramp_2d grid (\<lambda>v. v) (\<lambda>v. v) g00) (\<lambda>n00.
     pbind (ramp_2d grid (\<lambda>v. v - 1) (\<lambda>v. v) g10) (\<lambda>n10.
     pbind (ramp_2d grid (\<lambda>v. v) (\<lambda>v. v - 1) g01) (\<lambda>n01.
     pbind (ramp_2d grid (\<lambda>v. v - 1) (\<lambda>v. v - 1) g11) (\<lambda>n11.
     let t = np_map interp grid in
     pbind (np_select_last t 0) (\<lambda>t0.
     pbind (np_select_last t 1) (\<lambda>t1.
     pbind (blend_first n00 t0 n10) (\<lambda>n0.
     pbind (blend_first n01 t0 n11) (\<lambda>n1.
     pbind (blend_rest t1 n0 n1) (\<lambda>n.
     Inr (np_map (\<lambda>v. sqrt 2 * v) n, g')))))))))))))))))))))"

text \<open>
  \<^verbatim>\<open>generate_fractal_noise_2d\<close>: the loop over \<^verbatim>\<open>range(octaves)\<close> as a recursion on the
  number of octaves left, with the loop variables \<open>noise\<close>, \<open>frequency\<close>, \<open>amplitude\<close> and
  the generator state passed along. \<open>lacunarity\<close> is a Python integer (the default is
  \<open>2\<close>), so that \<open>frequency\<close> stays an integer. Calls with a float \<open>lacunarity\<close> are not
  covered: there \<open>frequency * res\<close> is a float from the second octave on, which
  \<^verbatim>\<open>np.random.rand\<close> does not take as a dimension.
\<close>

fun fractal_loop_2d ::
  "nat \<Rightarrow> int list \<Rightarrow> int list \<Rightarrow> real \<Rightarrow> int \<Rightarrow> bool list \<Rightarrow> (real \<Rightarrow> real) \<Rightarrow>
   ndarray \<Rightarrow> int \<Rightarrow> real \<Rightarrow> rng \<Rightarrow> py_error + ndarray \<times> rng" where
  "fractal_loop_2d 0 shp res persistence lacunarity tileable interp noise frequency amplitude g =
     Inr (noise, g)"
| "fractal_loop_2d (Suc n) shp res persistence lacunarity tileable interp noise frequency amplitude g =
     pbind (tuple_get res 0) (\<lambda>res0.
     pbind (tuple_get res 1) (\<lambda>res1.
     pbind (generate_perlin_noise_2d shp [frequency * res0, frequency * res1] tileable interp g)
       (\<lambda>(octave, g').
     pbind (np_iadd noise (np_map (\<lambda>v. amplitude * v) octave)) (\<lambda>noise'.
     fractal_loop_2d n shp res persistence lacunarity tileable interp
       noise' (frequency * lacunarity) (amplitude * persistence) g'))))"

definition generate_fractal_noise_2d ::
  "int list \<Rightarrow> int list \<Rightarrow> int \<Rightarrow> real \<Rightarrow> int \<Rightarrow> bool list \<Rightarrow> (real \<Rightarrow> real) \<Rightarrow> rng \<Rightarrow>
   py_error + ndarray \<times> rng" where
  "generate_fractal_noise_2d shp res octaves persistence lacunarity tileable interp g =
     pbind (np_zeros shp) (\<lambda>noise.
     fractal_loop_2d (nat octaves) shp res persistence lacunarity tileable interp noise 1 1 g)"

section \<open>The three-dimensional generator\<close>

text \<open>
  Lines 58-69 of \<^verbatim>\<open>generate_perlin_noise_3d\<close>: two angles per lattice corner, drawn as two
  arrays one after the other, the vector \<open>(sin \<phi> cos \<theta>, sin \<phi> sin \<theta>, cos \<phi>)\<close>, and the seam
  overwrite for every tileable axis.
\<close>

definition gradient_lattice_3d ::
  "int \<Rightarrow> int \<Rightarrow> int \<Rightarrow> bool list \<Rightarrow> rng \<Rightarrow> py_error + ndarray \<times> rng" where
  "gradient_lattice_3d res0 res1 res2 tileable g =
     pbind (np_random_rand [res0 + 1, res1 + 1, res2 + 1] g) (\<lambda>(r, g').
     let theta = np_map (\<lambda>u. 2 * pi * u) r in
     pbind (np_random_rand [res0 + 1, res1 + 1, res2 + 1] g') (\<lambda>(r', g'').
     let phi = np_map (\<lambda>u. 2 * pi * u) r' in
     pbind (np_mul (np_map sin phi) (np_map cos theta)) (\<lambda>gx.
     pbind (np_mul (np_map sin phi) (np_map sin theta)) (\<lambda>gy.
     pbind (np_stack_last [gx, gy, np_map cos phi]) (\<lambda>gradients.
     pbind (tuple_get tileable 0) (\<lambda>t0.
     pbind (if t0 then assign_last_from_first gradients 0 else Inr gradients) (\<lambda>gradients.
     pbind (tuple_get tileable 1) (\<lambda>t1.
     pbind (if t1 then assign_last_from_first gradients 1 else Inr gradients) (\<lambda>gradients.
     pbind (tuple_get tileable 2) (\<lambda>t2.
     pbind (if t2 then assign_last_from_first gradients 2 else Inr gradients) (\<lambda>gradients.
     Inr (gradients, g''))))))))))))"

text \<open>Lines 70-78: the repeated lattice and its eight corner arrays, in the order of the source.\<close>

definition corner_gradients_3d ::
  "ndarray \<Rightarrow> int \<Rightarrow> int \<Rightarrow> int \<Rightarrow> py_error + ndarray list" where
  "corner_gradients_3d gradients d0 d1 d2 =
     pbind (np_repeat gradients d0 0) (\<lambda>rep0.
     pbind (np_repeat rep0 d1 1) (\<lambda>rep1.
     pbind (np_repeat rep1 d2 2) (\<lambda>gradients.
     Inr [np_slice gradients [(None, Some (- d0)), (None, Some (- d1)), (None, Some (- d2))],
          np_slice gradients [(Some d0, None), (None, Some (- d1)), (None, Some (- d2))],
          np_slice gradients [(None, Some (- d0)), (Some d1, None), (None, Some (- d2))],
          np_slice gradients [(Some d0, None), (Some d1, None), (None, Some (- d2))],
          np_slice gradients [(None, Some (- d0)), (None, Some (- d1)), (Some d2, None)],
          np_slice gradients [(Some d0, None), (None, Some (- d1)), (Some d2, None)],
          np_slice gradients [(None, Some (- d0)), (Some d1, None), (Some d2, None)],
          np_slice gradients [(Some d0, None), (Some d1, None), (Some d2, None)]])))"

text \<open>
  Lines 80-87, one ramp:
  \<^verbatim>\<open>np.sum(np.stack((grid[:,:,:,0] - a, grid[:,:,:,1] - b, grid[:,:,:,2] - c), axis=3) * g, 3)\<close>.
\<close>

definition ramp_3d ::
  "ndarray \<Rightarrow> (real \<Rightarrow> real) \<Rightarrow> (real \<Rightarrow> real) \<Rightarrow> (real \<Rightarrow> real) \<Rightarrow> ndarray \<Rightarrow> py_error + ndarray" where
  "ramp_3d grid fx fy fz gc =
     pbind (np_select_last grid 0) (\<lambda>x.
     pbind (np_select_last grid 1) (\<lambda>y.
     pbind (np_select_last grid 2) (\<lambda>z.
     pbind (np_stack_last [np_map fx x, np_map fy y, np_map fz z]) (\<lambda>offset.
     pbind (np_mul offset gc) (\<lambda>prod.
     Inr (np_sum_last prod))))))"

text \<open>
  \<^verbatim>\<open>generate_perlin_noise_3d(shape, res, tileable, interpolant)\<close>. The source builds the
  sample grid twice (lines 54 and 55); the result has no final scaling.
\<close>

definition generate_perlin_noise_3d ::
  "int list \<Rightarrow> int list \<Rightarrow> bool list \<Rightarrow> (real \<Rightarrow> real) \<Rightarrow> rng \<Rightarrow> py_error + ndarray \<times> rng" where
  "generate_perlin_noise_3d shp res tileable interp g =
     pbind (tuple_get res 0) (\<lambda>res0.
     pbind (tuple_get shp 0) (\<lambda>shape0.
     pbind (py_truediv res0 shape0) (\<lambda>delta0.
     pbind (tuple_get res 1) (\<lambda>res1.
     pbind (tuple_get shp 1) (\<lambda>shape1.
     pbind (py_truediv res1 shape1) (\<lambda>delta1.
     pbind (tuple_get res 2) (\<lambda>res2.
     pbind (tuple_get shp 2) (\<lambda>shape2.
     pbind (py_truediv res2 shape2) (\<lambda>delta2.
     pbind (py_floordiv shape0 res0) (\<lambda>d0.
     pbind (py_floordiv shape1 res1) (\<lambda>d1.
     pbind (py_floordiv shape2 res2) (\<lambda>d2.
     pbind (np_mgrid [(res0, delta0), (res1, delta1), (res2, delta2)]) (\<lambda>m'.
     pbind (np_mgrid [(res0, delta0), (res1, delta1), (res2, delta2)]) (\<lambda>m.
     let grid = np_map py_mod1 (np_transpose m [1, 2, 3, 0]) in
     pbind (gradient_lattice_3d res0 res1 res2 tileable g) (\<lambda>(gradients, g').
     pbind (corner_gradients_3d gradients d0 d1 d2) (\<lambda>gs.
     let g000 = gs ! 0; g100 = gs ! 1; g010 = gs ! 2; g110 = gs ! 3;
         g001 = gs ! 4; g101 = gs ! 5; g011 = gs ! 6; g111 = gs ! 7 in
     pbind (ramp_3d grid (\<lambda>v. v) (\<lambda>v. v) (\<lambda>v. v) g000) (\<lambda>n000.
     pbind (ramp_3d grid (\<lambda>v. v - 1) (\<lambda>v. v) (\<lambda>v. v) g100) (\<lambda>n100.
     pbind (ramp_3d grid (\<lambda>v. v) (\<lambda>v. v - 1) (\<lambda>v. v) g010) (\<lambda>n010.
     pbind (ramp_3d grid (\<lambda>v. v - 1) (\<lambda>v. v - 1) (\<lambda>v. v) g110) (\<lambda>n110.
     pbind (ramp_3d grid (\<lambda>v. v) (\<lambda>v. v) (\<lambda>v. v - 1) g001) (\<lambda>n001.
     pbind (ramp_3d grid (\<lambda>v. v - 1) (\<lambda>v. v) (\<lambda>v. v - 1) g101) (\<lambda>n101.
     pbind (ramp_3d grid (\<lambda>v. v) (\<lambda>v. v - 1) (\<lambda>v. v - 1) g011) (\<lambda>n011.
     pbind (ramp_3d grid (\<lambda>v. v - 1) (\<lambda>v. v - 1) (\<lambda>v. v - 1) g111) (\<lambda>n111.
     let t = np_map interp grid in
     pbind (np_select_last t 0) (\<lambda>t0.
     pbind (np_select_last t 1) (\<lambda>t1.
     pbind (np_select_last t 2) (\<lambda>t2.
     pbind (blend_first n000 t0 n100) (\<lambda>n00.
     pbind (blend_first n010 t0 n110) (\<lambda>n10.
     pbind (blend_first n001 t0 n101) (\<lambda>n01.
     pbind (blend_first n011 t0 n111) (\<lambda>n11.
     pbind (blend_rest t1 n00 n10) (\<lambda>n0.
     pbind (blend_rest t1 n01 n11) (\<lambda>n1.
     pbind (blend_rest t2 n0 n1) (\<lambda>n.
     Inr (n, g')))))))))))))))))))))))))))))))))))"

text \<open>\<^verbatim>\<open>generate_fractal_noise_3d\<close>, as in two dimensions.\<close>

fun fractal_loop_3d ::
  "nat \<Rightarrow> int list \<Rightarrow> int list \<Rightarrow> real \<Rightarrow> int \<Rightarrow> bool list \<Rightarrow> (real \<Rightarrow> real) \<Rightarrow>
   ndarray \<Rightarrow> int \<Rightarrow> real \<Rightarrow> rng \<Rightarrow> py_error + ndarray \<times> rng" where
  "fractal_loop_3d 0 shp res persistence lacunarity tileable interp noise frequency amplitude g =
     Inr (noise, g)"
| "fractal_loop_3d (Suc n) shp res persistence lacunarity tileable interp noise frequency amplitude g =
     pbind (tuple_get res 0) (\<lambda>res0.
     pbind (tuple_get res 1) (\<lambda>res1.
     pbind (tuple_get res 2) (\<lambda>res2.
     pbind (generate_perlin_noise_3d shp [frequency * res0, frequency * res1, frequency * res2]
              tileable interp g)
       (\<lambda>(octave, g').
     pbind (np_iadd noise (np_map (\<lambda>v. amplitude * v) octave)) (\<lambda>noise'.
     fractal_loop_3d n shp res persistence lacunarity tileable interp
       noise' (frequency * lacunarity) (amplitude * persistence) g')))))"

definition generate_fractal_noise_3d ::
  "int list \<Rightarrow> int list \<Rightarrow> int \<Rightarrow> real \<Rightarrow> int \<Rightarrow> bool list \<Rightarrow> (real \<Rightarrow> real) \<Rightarrow> rng \<Rightarrow>
   py_error + ndarray \<times> rng" where
  "generate_fractal_noise_3d shp res octaves persistence lacunarity tileable interp g =
     pbind (np_zeros shp) (\<lambda>noise.
     fractal_loop_3d (nat octaves) shp res persistence lacunarity tileable interp noise 1 1 g)"

section \<open>The fields the specification describes\<close>

text \<open>
  Arrays of rank two, three and four given by a function of their coordinates.
\<close>

definition arr2 :: "nat \<Rightarrow> nat \<Rightarrow> (nat \<Rightarrow> nat \<Rightarrow> real) \<Rightarrow> ndarray" where
  "arr2 n m F = tabulate [n, m] (\<lambda>idx. F (idx ! 0) (idx ! 1))"

definition arr3 :: "nat \<Rightarrow> nat \<Rightarrow> nat \<Rightarrow> (nat \<Rightarrow> nat \<Rightarrow> nat \<Rightarrow> real) \<Rightarrow> ndarray" where
  "arr3 n m k F = tabulate [n, m, k] (\<lambda>idx. F (idx ! 0) (idx ! 1) (idx ! 2))"

definition arr4 :: "nat \<Rightarrow> nat \<Rightarrow> nat \<Rightarrow> nat \<Rightarrow> (nat \<Rightarrow> nat \<Rightarrow> nat \<Rightarrow> nat \<Rightarrow> real) \<Rightarrow> ndarray" where
  "arr4 n m k l F = tabulate [n, m, k, l] (\<lambda>idx. F (idx ! 0) (idx ! 1) (idx ! 2) (idx ! 3))"

text \<open>
  The gradient lattice of the Gradient Field Builder in two dimensions: corner \<open>(a, b)\<close> of
  a lattice with \<open>r0 + 1\<close> by \<open>r1 + 1\<close> corners takes its angle from the draw at its
  row-major position, where the last corner of a tileable axis stands for the first one.
\<close>

definition lattice_angle_2d :: "rng \<Rightarrow> nat \<Rightarrow> nat \<Rightarrow> bool list \<Rightarrow> nat \<Rightarrow> nat \<Rightarrow> real" where
  "lattice_angle_2d g r0 r1 tileable a b =
     2 * pi * draws g (pos g + ((if tileable ! 0 \<and> a = r0 then 0 else a) * (r1 + 1)
                               + (if tileable ! 1 \<and> b = r1 then 0 else b)))"

definition lattice_2d :: "rng \<Rightarrow> nat \<Rightarrow> nat \<Rightarrow> bool list \<Rightarrow> nat \<Rightarrow> nat \<Rightarrow> nat \<Rightarrow> real" where
  "lattice_2d g r0 r1 tileable a b c =
     (if c = 0 then cos (lattice_angle_2d g r0 r1 tileable a b)
      else sin (lattice_angle_2d g r0 r1 tileable a b))"

text \<open>
  In three dimensions every corner has two angles: \<open>\<theta>\<close> from the first block of draws and
  \<open>\<phi>\<close> from the block after it.
\<close>

definition corner_index_3d :: "nat \<Rightarrow> nat \<Rightarrow> nat \<Rightarrow> bool list \<Rightarrow> nat \<Rightarrow> nat \<Rightarrow> nat \<Rightarrow> nat" where
  "corner_index_3d r0 r1 r2 tileable a b c =
     ((if tileable ! 0 \<and> a = r0 then 0 else a) * (r1 + 1)
       + (if tileable ! 1 \<and> b = r1 then 0 else b)) * (r2 + 1)
       + (if tileable ! 2 \<and> c = r2 then 0 else c)"

definition lattice_theta_3d :: "rng \<Rightarrow> nat \<Rightarrow> nat \<Rightarrow> nat \<Rightarrow> bool list \<Rightarrow> nat \<Rightarrow> nat \<Rightarrow> nat \<Rightarrow> real" where
  "lattice_theta_3d g r0 r1 r2 tileable a b c =
     2 * pi * draws g (pos g + corner_index_3d r0 r1 r2 tileable a b c)"

definition lattice_phi_3d :: "rng \<Rightarrow> nat \<Rightarrow> nat \<Rightarrow> nat \<Rightarrow> bool list \<Rightarrow> nat \<Rightarrow> nat \<Rightarrow> nat \<Rightarrow> real" where
  "lattice_phi_3d g r0 r1 r2 tileable a b c =
     2 * pi * draws g (pos g + (r0 + 1) * ((r1 + 1) * (r2 + 1)) + corner_index_3d r0 r1 r2 tileable a b c)"

definition lattice_3d :: "rng \<Rightarrow> nat \<Rightarrow> nat \<Rightarrow> nat \<Rightarrow> bool list \<Rightarrow> nat \<Rightarrow> nat \<Rightarrow> nat \<Rightarrow> nat \<Rightarrow> real" where
  "lattice_3d g r0 r1 r2 tileable a b c k =
     (let theta = lattice_theta_3d g r0 r1 r2 tileable a b c;
          phi = lattice_phi_3d g r0 r1 r2 tileable a b c
      in if k = 0 then sin phi * cos theta else if k = 1 then sin phi * sin theta else cos phi)"

text \<open>
  The sample grid of an axis with \<open>r\<close> cells and \<open>s\<close> samples, as the evaluator builds it:
  the number of samples \<^verbatim>\<open>np.mgrid\<close> generates for the step \<open>r / s\<close>, the coordinate of
  sample \<open>i\<close>, and its local coordinate \<^verbatim>\<open>% 1\<close>. In exact arithmetic there are \<open>s\<close> samples,
  and sample \<open>i\<close> has the local coordinate \<open>ideal_local_coord r s i\<close>.
\<close>

definition sample_count :: "int \<Rightarrow> int \<Rightarrow> int" where
  "sample_count res shp = mgrid_count res (int_truediv res shp)"

definition local_coord :: "nat \<Rightarrow> nat \<Rightarrow> nat \<Rightarrow> real" where
  "local_coord r s i = py_mod1 (mgrid_coord (int_truediv (int r) (int s)) i)"

definition ideal_local_coord :: "nat \<Rightarrow> nat \<Rightarrow> nat \<Rightarrow> real" where
  "ideal_local_coord r s i = frac (real i * (real r / real s))"

text \<open>The sample grid has the size of the shape on every axis.\<close>

definition exact_grid :: "int list \<Rightarrow> int list \<Rightarrow> bool" where
  "exact_grid shp res \<longleftrightarrow> list_all2 (\<lambda>s r. sample_count r s = s) shp res"

text \<open>
  The Noise Evaluator: the ramp of a corner (offset times gradient), the blend of two
  values with weight \<open>w\<close>, and the blended value of a sample before any final scaling.
  Sample \<open>i\<close> of an axis with \<open>d\<close> samples per cell takes the corner gradients of cell
  \<open>i div d\<close>.
\<close>

definition ramp2 :: "real \<Rightarrow> real \<Rightarrow> (nat \<Rightarrow> real) \<Rightarrow> real" where
  "ramp2 x y gr = x * gr 0 + y * gr 1"

definition lerp :: "real \<Rightarrow> real \<Rightarrow> real \<Rightarrow> real" where
  "lerp w a b = a * (1 - w) + w * b"

definition bilinear_2d ::
  "(nat \<Rightarrow> nat \<Rightarrow> nat \<Rightarrow> real) \<Rightarrow> (real \<Rightarrow> real) \<Rightarrow> nat \<Rightarrow> nat \<Rightarrow> nat \<Rightarrow> nat \<Rightarrow> nat \<Rightarrow> nat \<Rightarrow> real" where
  "bilinear_2d G f r0 r1 d0 d1 i j =
     (let x = local_coord r0 (r0 * d0) i; y = local_coord r1 (r1 * d1) j;
          a = i div d0; b = j div d1;
          n00 = ramp2 x y (G a b);
          n10 = ramp2 (x - 1) y (G (a + 1) b);
          n01 = ramp2 x (y - 1) (G a (b + 1));
          n11 = ramp2 (x - 1) (y - 1) (G (a + 1) (b + 1))
      in lerp (f y) (lerp (f x) n00 n10) (lerp (f x) n01 n11))"

definition ramp3 :: "real \<Rightarrow> real \<Rightarrow> real \<Rightarrow> (nat \<Rightarrow> real) \<Rightarrow> real" where
  "ramp3 x y z gr = x * gr 0 + y * gr 1 + z * gr 2"

definition trilinear_3d ::
  "(nat \<Rightarrow> nat \<Rightarrow> nat \<Rightarrow> nat \<Rightarrow> real) \<Rightarrow> (real \<Rightarrow> real) \<Rightarrow> nat \<Rightarrow> nat \<Rightarrow> nat \<Rightarrow> nat \<Rightarrow> nat \<Rightarrow> nat \<Rightarrow>
   nat \<Rightarrow> nat \<Rightarrow> nat \<Rightarrow> real" where
  "trilinear_3d G f r0 r1 r2 d0 d1 d2 i j l =
     (let x = local_coord r0 (r0 * d0) i; y = local_coord r1 (r1 * d1) j;
          z = local_coord r2 (r2 * d2) l;
          a = i div d0; b = j div d1; c = l div d2;
          n000 = ramp3 x y z (G a b c);
          n100 = ramp3 (x - 1) y z (G (a + 1) b c);
          n010 = ramp3 x (y - 1) z (G a (b + 1) c);
          n110 = ramp3 (x - 1) (y - 1) z (G (a + 1) (b + 1) c);
          n001 = ramp3 x y (z - 1) (G a b (c + 1));
          n101 = ramp3 (x - 1) y (z - 1) (G (a + 1) b (c + 1));
          n011 = ramp3 x (y - 1) (z - 1) (G a (b + 1) (c + 1));
          n111 = ramp3 (x - 1) (y - 1) (z - 1) (G (a + 1) (b + 1) (c + 1));
          n00 = lerp (f x) n000 n100; n10 = lerp (f x) n010 n110;
          n01 = lerp (f x) n001 n101; n11 = lerp (f x) n011 n111;
          n0 = lerp (f y) n00 n10; n1 = lerp (f y) n01 n11
      in lerp (f z) n0 n1)"

text \<open>
  Valid input of the two-dimensional evaluator: shape, resolution and tileable flags have
  two entries, the integers are positive, and every shape entry is an exact multiple of
  its resolution entry.
\<close>

definition valid_2d :: "int list \<Rightarrow> int list \<Rightarrow> bool list \<Rightarrow> bool" where
  "valid_2d shp res tileable \<longleftrightarrow>
     length shp = 2 \<and> length res = 2 \<and> length tileable = 2 \<and>
     list_all2 (\<lambda>s r. 0 < s \<and> 0 < r \<and> r dvd s) shp res"

text \<open>The number of draws one call of the evaluator consumes.\<close>

definition draw_count_2d :: "int list \<Rightarrow> nat" where
  "draw_count_2d res = nat (res ! 0 + 1) * nat (res ! 1 + 1)"

text \<open>
  The field the specification describes for the two-dimensional evaluator: the blended
  value of every sample, scaled by \<open>sqrt 2\<close>.
\<close>

definition noise_field_2d :: "int list \<Rightarrow> int list \<Rightarrow> bool list \<Rightarrow> (real \<Rightarrow> real) \<Rightarrow> rng \<Rightarrow> ndarray" where
  "noise_field_2d shp res tileable f g =
     (let r0 = nat (res ! 0); r1 = nat (res ! 1);
          d0 = nat (shp ! 0 div res ! 0); d1 = nat (shp ! 1 div res ! 1)
      in arr2 (nat (shp ! 0)) (nat (shp ! 1))
           (\<lambda>i j. sqrt 2 * bilinear_2d (lattice_2d g r0 r1 tileable) f r0 r1 d0 d1 i j))"

text \<open>
  The Fractal Combinator: the generator state before octave \<open>k\<close>, the call of the evaluator
  for octave \<open>k\<close> (resolution \<open>lacunarity ^ k * res\<close>), and the valid input: the shape is a
  multiple of the resolution of the last octave, and \<open>lacunarity\<close> is a positive integer.
\<close>

fun octave_rng_2d :: "int list \<Rightarrow> int \<Rightarrow> rng \<Rightarrow> nat \<Rightarrow> rng" where
  "octave_rng_2d res lacunarity g 0 = g"
| "octave_rng_2d res lacunarity g (Suc k) =
     (let h = octave_rng_2d res lacunarity g k
      in h\<lparr>pos := pos h + draw_count_2d (map (\<lambda>r. lacunarity ^ k * r) res)\<rparr>)"

definition octave_2d ::
  "int list \<Rightarrow> int list \<Rightarrow> int \<Rightarrow> bool list \<Rightarrow> (real \<Rightarrow> real) \<Rightarrow> rng \<Rightarrow> nat \<Rightarrow> py_error + ndarray \<times> rng" where
  "octave_2d shp res lacunarity tileable f g k =
     generate_perlin_noise_2d shp (map (\<lambda>r. lacunarity ^ k * r) res) tileable f
       (octave_rng_2d res lacunarity g k)"

definition valid_fractal_2d :: "int list \<Rightarrow> int list \<Rightarrow> int \<Rightarrow> int \<Rightarrow> bool list \<Rightarrow> bool" where
  "valid_fractal_2d shp res octaves lacunarity tileable \<longleftrightarrow>
     1 \<le> lacunarity \<and> length shp = 2 \<and> length res = 2 \<and> length tileable = 2 \<and>
     list_all2 (\<lambda>s r. 0 < s \<and> 0 < r \<and> r * lacunarity ^ (nat octaves - 1) dvd s) shp res"

text \<open>The same notions in three dimensions; the field has no final scaling.\<close>

definition valid_3d :: "int list \<Rightarrow> int list \<Rightarrow> bool list \<Rightarrow> bool" where
  "valid_3d shp res tileable \<longleftrightarrow>
     length shp = 3 \<and> length res = 3 \<and> length tileable = 3 \<and>
     list_all2 (\<lambda>s r. 0 < s \<and> 0 < r \<and> r dvd s) shp res"

definition draw_count_3d :: "int list \<Rightarrow> nat" where
  "draw_count_3d res = 2 * (nat (res ! 0 + 1) * (nat (res ! 1 + 1) * nat (res ! 2 + 1)))"

definition noise_field_3d :: "int list \<Rightarrow> int list \<Rightarrow> bool list \<Rightarrow> (real \<Rightarrow> real) \<Rightarrow> rng \<Rightarrow> ndarray" where
  "noise_field_3d shp res tileable f g =
     (let r0 = nat (res ! 0); r1 = nat (res ! 1); r2 = nat (res ! 2);
          d0 = nat (shp ! 0 div res ! 0); d1 = nat (shp ! 1 div res ! 1);
          d2 = nat (shp ! 2 div res ! 2)
      in arr3 (nat (shp ! 0)) (nat (shp ! 1)) (nat (shp ! 2))
           (\<lambda>i j l. trilinear_3d (lattice_3d g r0 r1 r2 tileable) f r0 r1 r2 d0 d1 d2 i j l))"

fun octave_rng_3d :: "int list \<Rightarrow> int \<Rightarrow> rng \<Rightarrow> nat \<Rightarrow> rng" where
  "octave_rng_3d res lacunarity g 0 = g"
| "octave_rng_3d res lacunarity g (Suc k) =
     (let h = octave_rng_3d res lacunarity g k
      in h\<lparr>pos := pos h + draw_count_3d (map (\<lambda>r. lacunarity ^ k * r) res)\<rparr>)"

definition octave_3d ::
  "int list \<Rightarrow> int list \<Rightarrow> int \<Rightarrow> bool list \<Rightarrow> (real \<Rightarrow> real) \<Rightarrow> rng \<Rightarrow> nat \<Rightarrow> py_error + ndarray \<times> rng" where
  "octave_3d shp res lacunarity tileable f g k =
     generate_perlin_noise_3d shp (map (\<lambda>r. lacunarity ^ k * r) res) tileable f
       (octave_rng_3d res lacunarity g k)"

definition valid_fractal_3d :: "int list \<Rightarrow> int list \<Rightarrow> int \<Rightarrow> int \<Rightarrow> bool list \<Rightarrow> bool" where
  "valid_fractal_3d shp res octaves lacunarity tileable \<longleftrightarrow>
     1 \<le> lacunarity \<and> length shp = 3 \<and> length res = 3 \<and> length tileable = 3 \<and>
     list_all2 (\<lambda>s r. 0 < s \<and> 0 < r \<and> r * lacunarity ^ (nat octaves - 1) dvd s) shp res"

text \<open>
  Two generator states give the same next \<open>n\<close> draws: they stand at the same position
  and their sequences agree on the \<open>n\<close> draws from there. \<open>with_rng h r\<close> is the result \<open>r\<close>
  with the generator state replaced by \<open>h\<close> advanced to the position \<open>r\<close> ends at.
\<close>

definition same_draws :: "rng \<Rightarrow> rng \<Rightarrow> nat \<Rightarrow> bool" where
  "same_draws g h n \<longleftrightarrow> pos g = pos h \<and> (\<forall>k<n. draws g (pos g + k) = draws h (pos h + k))"

definition with_rng :: "rng \<Rightarrow> py_error + ndarray \<times> rng \<Rightarrow> py_error + ndarray \<times> rng" where
  "with_rng h r = map_sum id (\<lambda>(a, g'). (a, h\<lparr>pos := pos g'\<rparr>)) r"

text \<open>
  The number of draws the octave loop can consume in \<open>n\<close> iterations that start at the
  given frequency.
\<close>

fun fractal_draw_count_2d :: "nat \<Rightarrow> int list \<Rightarrow> int \<Rightarrow> int \<Rightarrow> nat" where
  "fractal_draw_count_2d 0 res lacunarity frequency = 0"
| "fractal_draw_count_2d (Suc n) res lacunarity frequency =
     draw_count_2d [frequency * res ! 0, frequency * res ! 1]
       + fractal_draw_count_2d n res lacunarity (frequency * lacunarity)"

fun fractal_draw_count_3d :: "nat \<Rightarrow> int list \<Rightarrow> int \<Rightarrow> int \<Rightarrow> nat" where
  "fractal_draw_count_3d 0 res lacunarity frequency = 0"
| "fractal_draw_count_3d (Suc n) res lacunarity frequency =
     draw_count_3d [frequency * res ! 0, frequency * res ! 1, frequency * res ! 2]
       + fractal_draw_count_3d n res lacunarity (frequency * lacunarity)"

section \<open>Properties of the array operations\<close>

lemma pbind_Inr [simp]: "pbind (Inr v) f = f v"
  by (simp add: pbind_def)

lemma pbind_Inl [simp]: "pbind (Inl e) f = Inl e"
  by (simp add: pbind_def)

lemma shape_tabulate [simp]: "shape (tabulate s f) = s"
  by (simp add: tabulate_def)

lemma item_tabulate: "item (tabulate s f) idx = (if in_bounds s idx then f idx else 0)"
  by (simp add: tabulate_def)

lemma tabulate_eqI: "(\<And>idx. in_bounds s idx \<Longrightarrow> f idx = g idx) \<Longrightarrow> tabulate s f = tabulate s g"
  by (auto simp: tabulate_def)

lemma in_bounds2: "in_bounds [n, m] idx \<longleftrightarrow> (\<exists>i j. idx = [i, j] \<and> i < n \<and> j < m)"
  by (auto simp: in_bounds_def list_all2_Cons2)

lemma in_bounds3: "in_bounds [n, m, k] idx \<longleftrightarrow> (\<exists>i j c. idx = [i, j, c] \<and> i < n \<and> j < m \<and> c < k)"
  by (auto simp: in_bounds_def list_all2_Cons2)

lemma in_bounds4: "in_bounds [n, m, k, l] idx \<longleftrightarrow>
   (\<exists>i j c e. idx = [i, j, c, e] \<and> i < n \<and> j < m \<and> c < k \<and> e < l)"
  by (auto simp: in_bounds_def list_all2_Cons2)

lemma shape_arr2 [simp]: "shape (arr2 n m F) = [n, m]" by (simp add: arr2_def)

lemma shape_arr3 [simp]: "shape (arr3 n m k F) = [n, m, k]" by (simp add: arr3_def)

lemma item_arr2 [simp]: "item (arr2 n m F) [i, j] = (if i < n \<and> j < m then F i j else 0)"
  by (simp add: arr2_def item_tabulate in_bounds2)

lemma item_arr3 [simp]: "item (arr3 n m k F) [i, j, c] = (if i < n \<and> j < m \<and> c < k then F i j c else 0)"
  by (simp add: arr3_def item_tabulate in_bounds3)

lemma arr2_cong [cong]:
  "\<lbrakk>n = n'; m = m'; \<And>i j. i < n' \<Longrightarrow> j < m' \<Longrightarrow> F i j = G i j\<rbrakk> \<Longrightarrow> arr2 n m F = arr2 n' m' G"
  unfolding arr2_def by (auto intro!: tabulate_eqI simp: in_bounds2)

lemma arr3_cong [cong]:
  "\<lbrakk>n = n'; m = m'; k = k'; \<And>i j c. i < n' \<Longrightarrow> j < m' \<Longrightarrow> c < k' \<Longrightarrow> F i j c = G i j c\<rbrakk>
   \<Longrightarrow> arr3 n m k F = arr3 n' m' k' G"
  unfolding arr3_def by (auto intro!: tabulate_eqI simp: in_bounds3)

lemma tabulate2_arr: "tabulate [n, m] f = arr2 n m (\<lambda>i j. f [i, j])"
  unfolding arr2_def by (auto intro!: tabulate_eqI simp: in_bounds2)

lemma tabulate3_arr: "tabulate [n, m, k] f = arr3 n m k (\<lambda>i j c. f [i, j, c])"
  unfolding arr3_def by (auto intro!: tabulate_eqI simp: in_bounds3)

lemma np_map_arr2 [simp]: "np_map f (arr2 n m F) = arr2 n m (\<lambda>i j. f (F i j))"
  by (simp add: np_map_def tabulate2_arr)

lemma np_map_arr3 [simp]: "np_map f (arr3 n m k F) = arr3 n m k (\<lambda>i j c. f (F i j c))"
  by (simp add: np_map_def tabulate3_arr)

lemma broadcast_rev_same: "broadcast_rev s s = Some s"
  by (induction s) auto

lemma broadcast_shapes_same [simp]: "broadcast_shapes s s = Some s"
  by (simp add: broadcast_shapes_def broadcast_rev_same)

lemma np_binop_arr2 [simp]:
  "np_binop f (arr2 n m F) (arr2 n m G) = Inr (arr2 n m (\<lambda>i j. f (F i j) (G i j)))"
  by (simp add: np_binop_def tabulate2_arr broadcast_index_def) (rule arr2_cong; auto)

lemma np_binop_arr3 [simp]:
  "np_binop f (arr3 n m k F) (arr3 n m k G) = Inr (arr3 n m k (\<lambda>i j c. f (F i j c) (G i j c)))"
  by (simp add: np_binop_def tabulate3_arr broadcast_index_def) (rule arr3_cong; auto)

lemma np_mul_arr2 [simp]: "np_mul (arr2 n m F) (arr2 n m G) = Inr (arr2 n m (\<lambda>i j. F i j * G i j))"
  by (simp add: np_mul_def)

lemma np_add_arr2 [simp]: "np_add (arr2 n m F) (arr2 n m G) = Inr (arr2 n m (\<lambda>i j. F i j + G i j))"
  by (simp add: np_add_def)

lemma np_mul_arr3 [simp]:
  "np_mul (arr3 n m k F) (arr3 n m k G) = Inr (arr3 n m k (\<lambda>i j c. F i j c * G i j c))"
  by (simp add: np_mul_def)

lemma np_iadd_arr2 [simp]: "np_iadd (arr2 n m F) (arr2 n m G) = Inr (arr2 n m (\<lambda>i j. F i j + G i j))"
  by (simp add: np_iadd_def)

lemma np_zeros_2 [simp]:
  "0 \<le> a \<Longrightarrow> 0 \<le> b \<Longrightarrow> np_zeros [a, b] = Inr (arr2 (nat a) (nat b) (\<lambda>i j. 0))"
  by (simp add: np_zeros_def tabulate2_arr)

lemma np_mgrid_2:
  assumes "x \<noteq> 0" "y \<noteq> 0" "0 \<le> mgrid_count a x" "0 \<le> mgrid_count b y"
  shows "np_mgrid [(a, x), (b, y)] =
    Inr (arr3 2 (nat (mgrid_count a x)) (nat (mgrid_count b y))
          (\<lambda>k i j. if k = 0 then mgrid_coord x i else mgrid_coord y j))"
  using assms
  by (simp add: np_mgrid_def tabulate3_arr) (rule arr3_cong; auto simp: less_Suc_eq numeral_2_eq_2)

lemma np_transpose_arr3 [simp]:
  "np_transpose (arr3 a b c F) [Suc 0, 2, 0] = arr3 b c a (\<lambda>i j k. F k i j)"
  by (simp add: np_transpose_def tabulate3_arr upt_rec numeral_3_eq_3) 

lemma np_random_rand_2:
  "0 \<le> a \<Longrightarrow> 0 \<le> b \<Longrightarrow> np_random_rand [a, b] g =
     Inr (arr2 (nat a) (nat b) (\<lambda>i j. draws g (pos g + (i * nat b + j))),
          g\<lparr>pos := pos g + nat a * nat b\<rparr>)"
  by (simp add: np_random_rand_def tabulate2_arr flat_index_def)

lemma np_stack_last_2 [simp]:
  "np_stack_last [arr2 n m F, arr2 n m G] = Inr (arr3 n m 2 (\<lambda>i j c. if c = 0 then F i j else G i j))"
  by (simp add: np_stack_last_def tabulate3_arr) (rule arr3_cong; auto simp: less_Suc_eq numeral_2_eq_2)

lemma assign_last_from_first_arr3_0 [simp]:
  "0 < n \<Longrightarrow> assign_last_from_first (arr3 n m k F) 0 =
     Inr (arr3 n m k (\<lambda>i j c. if i = n - 1 then F 0 j c else F i j c))"
  by (simp add: assign_last_from_first_def tabulate3_arr) (rule arr3_cong; auto)

lemma assign_last_from_first_arr3_1 [simp]:
  "0 < m \<Longrightarrow> assign_last_from_first (arr3 n m k F) (Suc 0) =
     Inr (arr3 n m k (\<lambda>i j c. if j = m - 1 then F i 0 c else F i j c))"
  by (simp add: assign_last_from_first_def tabulate3_arr) (rule arr3_cong; auto)

lemma np_repeat_arr3_0 [simp]:
  "0 \<le> d \<Longrightarrow> np_repeat (arr3 n m k F) d 0 = Inr (arr3 (n * nat d) m k (\<lambda>i j c. F (i div nat d) j c))"
  by (simp add: np_repeat_def tabulate3_arr) (rule arr3_cong; auto simp: less_mult_imp_div_less)

lemma np_repeat_arr3_1 [simp]:
  "0 \<le> d \<Longrightarrow> np_repeat (arr3 n m k F) d (Suc 0) = Inr (arr3 n (m * nat d) k (\<lambda>i j c. F i (j div nat d) c))"
  by (simp add: np_repeat_def tabulate3_arr) (rule arr3_cong; auto simp: less_mult_imp_div_less)

lemma slice_range_le: "i < snd (slice_range be n) \<Longrightarrow> fst (slice_range be n) + i < n"
  by (auto simp: slice_range_def slice_bound_def Let_def split: option.splits if_splits)

lemma np_slice_arr3:
  "np_slice (arr3 n m k F) [be0, be1] =
     arr3 (snd (slice_range be0 n)) (snd (slice_range be1 m)) k
       (\<lambda>i j c. F (fst (slice_range be0 n) + i) (fst (slice_range be1 m) + j) c)"
  by (simp add: np_slice_def tabulate3_arr Let_def) (rule arr3_cong; auto simp: slice_range_le)

lemma np_select_last_arr3:
  "c < k \<Longrightarrow> np_select_last (arr3 n m k F) c = Inr (arr2 n m (\<lambda>i j. F i j c))"
  by (simp add: np_select_last_def tabulate2_arr)

lemma np_sum_last_arr3_2: "np_sum_last (arr3 n m 2 F) = arr2 n m (\<lambda>i j. F i j 0 + F i j 1)"
  by (simp add: np_sum_last_def tabulate2_arr upt_rec numeral_2_eq_2)

lemma shape_arr4 [simp]: "shape (arr4 n m k l F) = [n, m, k, l]" by (simp add: arr4_def)

lemma item_arr4 [simp]:
  "item (arr4 n m k l F) [i, j, c, e] = (if i < n \<and> j < m \<and> c < k \<and> e < l then F i j c e else 0)"
  by (simp add: arr4_def item_tabulate in_bounds4)

lemma arr4_cong [cong]:
  "\<lbrakk>n = n'; m = m'; k = k'; l = l';
    \<And>i j c e. i < n' \<Longrightarrow> j < m' \<Longrightarrow> c < k' \<Longrightarrow> e < l' \<Longrightarrow> F i j c e = G i j c e\<rbrakk>
   \<Longrightarrow> arr4 n m k l F = arr4 n' m' k' l' G"
  unfolding arr4_def by (auto intro!: tabulate_eqI simp: in_bounds4)

lemma tabulate4_arr: "tabulate [n, m, k, l] f = arr4 n m k l (\<lambda>i j c e. f [i, j, c, e])"
  unfolding arr4_def by (auto intro!: tabulate_eqI simp: in_bounds4)

lemma np_map_arr4 [simp]: "np_map f (arr4 n m k l F) = arr4 n m k l (\<lambda>i j c e. f (F i j c e))"
  by (simp add: np_map_def tabulate4_arr)

lemma np_binop_arr4 [simp]:
  "np_binop f (arr4 n m k l F) (arr4 n m k l G) =
     Inr (arr4 n m k l (\<lambda>i j c e. f (F i j c e) (G i j c e)))"
  by (simp add: np_binop_def tabulate4_arr broadcast_index_def) (rule arr4_cong; auto)

lemma np_mul_arr4 [simp]:
  "np_mul (arr4 n m k l F) (arr4 n m k l G) = Inr (arr4 n m k l (\<lambda>i j c e. F i j c e * G i j c e))"
  by (simp add: np_mul_def)

lemma np_add_arr3 [simp]:
  "np_add (arr3 n m k F) (arr3 n m k G) = Inr (arr3 n m k (\<lambda>i j c. F i j c + G i j c))"
  by (simp add: np_add_def)

lemma np_iadd_arr3 [simp]:
  "np_iadd (arr3 n m k F) (arr3 n m k G) = Inr (arr3 n m k (\<lambda>i j c. F i j c + G i j c))"
  by (simp add: np_iadd_def)

lemma np_zeros_3 [simp]:
  "0 \<le> a \<Longrightarrow> 0 \<le> b \<Longrightarrow> 0 \<le> c \<Longrightarrow>
   np_zeros [a, b, c] = Inr (arr3 (nat a) (nat b) (nat c) (\<lambda>i j l. 0))"
  by (simp add: np_zeros_def tabulate3_arr)

lemma np_mgrid_3:
  assumes "x \<noteq> 0" "y \<noteq> 0" "z \<noteq> 0"
    "0 \<le> mgrid_count a x" "0 \<le> mgrid_count b y" "0 \<le> mgrid_count c z"
  shows "np_mgrid [(a, x), (b, y), (c, z)] =
    Inr (arr4 3 (nat (mgrid_count a x)) (nat (mgrid_count b y)) (nat (mgrid_count c z))
          (\<lambda>k i j l. if k = 0 then mgrid_coord x i else if k = 1 then mgrid_coord y j
                      else mgrid_coord z l))"
  using assms
  by (simp add: np_mgrid_def tabulate4_arr)
     (rule arr4_cong; auto simp: less_Suc_eq numeral_3_eq_3)

lemma np_transpose_arr4 [simp]:
  "np_transpose (arr4 a b c d F) [Suc 0, 2, 3, 0] = arr4 b c d a (\<lambda>i j l k. F k i j l)"
  by (simp add: np_transpose_def tabulate4_arr upt_rec numeral_3_eq_3 numeral_2_eq_2)

lemma np_random_rand_3:
  "0 \<le> a \<Longrightarrow> 0 \<le> b \<Longrightarrow> 0 \<le> c \<Longrightarrow> np_random_rand [a, b, c] g =
     Inr (arr3 (nat a) (nat b) (nat c) (\<lambda>i j l. draws g (pos g + ((i * nat b + j) * nat c + l))),
          g\<lparr>pos := pos g + nat a * (nat b * nat c)\<rparr>)"
  by (simp add: np_random_rand_def tabulate3_arr flat_index_def)

lemma np_stack_last_3 [simp]:
  "np_stack_last [arr3 n m k F, arr3 n m k G, arr3 n m k H] =
     Inr (arr4 n m k 3 (\<lambda>i j l c. if c = 0 then F i j l else if c = 1 then G i j l else H i j l))"
  by (simp add: np_stack_last_def tabulate4_arr)
     (rule arr4_cong; auto simp: less_Suc_eq numeral_3_eq_3)

lemma assign_last_from_first_arr4_0 [simp]:
  "0 < n \<Longrightarrow> assign_last_from_first (arr4 n m k l F) 0 =
     Inr (arr4 n m k l (\<lambda>i j c e. if i = n - 1 then F 0 j c e else F i j c e))"
  by (simp add: assign_last_from_first_def tabulate4_arr) (rule arr4_cong; auto)

lemma assign_last_from_first_arr4_1 [simp]:
  "0 < m \<Longrightarrow> assign_last_from_first (arr4 n m k l F) (Suc 0) =
     Inr (arr4 n m k l (\<lambda>i j c e. if j = m - 1 then F i 0 c e else F i j c e))"
  by (simp add: assign_last_from_first_def tabulate4_arr) (rule arr4_cong; auto)

lemma assign_last_from_first_arr4_2 [simp]:
  "0 < k \<Longrightarrow> assign_last_from_first (arr4 n m k l F) 2 =
     Inr (arr4 n m k l (\<lambda>i j c e. if c = k - 1 then F i j 0 e else F i j c e))"
  by (simp add: assign_last_from_first_def tabulate4_arr numeral_2_eq_2) (rule arr4_cong; auto)

lemma np_repeat_arr4_0 [simp]:
  "0 \<le> d \<Longrightarrow> np_repeat (arr4 n m k l F) d 0 =
     Inr (arr4 (n * nat d) m k l (\<lambda>i j c e. F (i div nat d) j c e))"
  by (simp add: np_repeat_def tabulate4_arr) (rule arr4_cong; auto simp: less_mult_imp_div_less)

lemma np_repeat_arr4_1 [simp]:
  "0 \<le> d \<Longrightarrow> np_repeat (arr4 n m k l F) d (Suc 0) =
     Inr (arr4 n (m * nat d) k l (\<lambda>i j c e. F i (j div nat d) c e))"
  by (simp add: np_repeat_def tabulate4_arr) (rule arr4_cong; auto simp: less_mult_imp_div_less)

lemma np_repeat_arr4_2 [simp]:
  "0 \<le> d \<Longrightarrow> np_repeat (arr4 n m k l F) d 2 =
     Inr (arr4 n m (k * nat d) l (\<lambda>i j c e. F i j (c div nat d) e))"
  by (simp add: np_repeat_def tabulate4_arr numeral_2_eq_2)
     (rule arr4_cong; auto simp: less_mult_imp_div_less)

lemma np_slice_arr4:
  "np_slice (arr4 n m k l F) [be0, be1, be2] =
     arr4 (snd (slice_range be0 n)) (snd (slice_range be1 m)) (snd (slice_range be2 k)) l
       (\<lambda>i j c e. F (fst (slice_range be0 n) + i) (fst (slice_range be1 m) + j)
                    (fst (slice_range be2 k) + c) e)"
  by (simp add: np_slice_def tabulate4_arr Let_def) (rule arr4_cong; auto simp: slice_range_le)

lemma np_select_last_arr4:
  "c < l \<Longrightarrow> np_select_last (arr4 n m k l F) c = Inr (arr3 n m k (\<lambda>i j e. F i j e c))"
  by (simp add: np_select_last_def tabulate3_arr)

lemma np_sum_last_arr4_3:
  "np_sum_last (arr4 n m k 3 F) = arr3 n m k (\<lambda>i j l. F i j l 0 + F i j l 1 + F i j l 2)"
  by (simp add: np_sum_last_def tabulate3_arr upt_rec numeral_3_eq_3)
     (rule arr3_cong; simp add: numeral_2_eq_2)

section \<open>Properties of the rounding\<close>

lemma round_half_even_of_int [simp]: "round_half_even (of_int k) = k"
  by (simp add: round_half_even_def)

lemma round_half_even_ge: "\<lfloor>y\<rfloor> \<le> round_half_even y"
  by (simp add: round_half_even_def Let_def)

lemma round_half_even_le: "round_half_even y \<le> \<lfloor>y\<rfloor> + 1"
  by (simp add: round_half_even_def Let_def)

lemma pos_of_ge_pow2: "2 powr a \<le> x \<Longrightarrow> 0 < x" for x :: real
proof -
  assume "2 powr a \<le> x"
  moreover have "0 < (2 :: real) powr a" by simp
  ultimately show ?thesis by linarith
qed

lemma floor_log2: "2 powr of_int e \<le> x \<Longrightarrow> x < 2 powr (of_int e + 1) \<Longrightarrow> \<lfloor>log 2 x\<rfloor> = e"
proof -
  assume a: "2 powr of_int e \<le> x" "x < 2 powr (of_int e + 1)"
  have "0 < x" using a(1) by (rule pos_of_ge_pow2)
  then show ?thesis
    using a by (intro floor_unique) (simp_all add: le_log_iff log_less_iff)
qed

lemma log2_bounds:
  assumes "0 < x"
  shows "2 powr of_int \<lfloor>log 2 x\<rfloor> \<le> x" "x < 2 powr (of_int \<lfloor>log 2 x\<rfloor> + 1)"
proof -
  have "of_int \<lfloor>log 2 x\<rfloor> \<le> log 2 x" by simp
  then show "2 powr of_int \<lfloor>log 2 x\<rfloor> \<le> x"
    using assms by (simp add: powr_le_iff)
  have "log 2 x < of_int \<lfloor>log 2 x\<rfloor> + 1" by linarith
  then show "x < 2 powr (of_int \<lfloor>log 2 x\<rfloor> + 1)"
    using assms by (simp add: less_powr_iff)
qed

lemma binary64_eqI:
  assumes "2 powr of_int e \<le> \<bar>x\<bar>" "\<bar>x\<bar> < 2 powr (of_int e + 1)"
    and "round_half_even (x * 2 powr (52 - of_int e)) = m"
  shows "binary64 x = of_int m * 2 powr (of_int e - 52)"
proof -
  have "0 < \<bar>x\<bar>" using assms(1) by (rule pos_of_ge_pow2)
  then have nz: "x \<noteq> 0" by simp
  have "\<lfloor>log 2 \<bar>x\<bar>\<rfloor> = e" using assms(1,2) by (rule floor_log2)
  then show ?thesis
    using nz assms(3) by (simp add: binary64_def Let_def)
qed

lemma binary64_0 [simp]: "binary64 0 = 0"
  by (simp add: binary64_def)

lemma binary64_scale: "binary64 (x * 2 powr of_int k) = binary64 x * 2 powr of_int k"
proof (cases "x = 0")
  case True
  then show ?thesis by simp
next
  case False
  then have pos: "0 < \<bar>x\<bar>" by simp
  let ?e = "\<lfloor>log 2 \<bar>x\<bar>\<rfloor>"
  have b: "2 powr of_int ?e \<le> \<bar>x\<bar>" "\<bar>x\<bar> < 2 powr (of_int ?e + 1)"
    using log2_bounds [OF pos] by simp_all
  have ab: "\<bar>x * 2 powr of_int k\<bar> = \<bar>x\<bar> * 2 powr of_int k"
    by (simp add: abs_mult)
  have 1: "2 powr of_int (?e + k) \<le> \<bar>x * 2 powr of_int k\<bar>"
    unfolding ab using b(1) by (simp add: powr_add)
  have 2: "\<bar>x * 2 powr of_int k\<bar> < 2 powr (of_int (?e + k) + 1)"
  proof -
    have "\<bar>x\<bar> * 2 powr of_int k < 2 powr (of_int ?e + 1) * 2 powr of_int k"
      using b(2) by simp
    also have "\<dots> = 2 powr (of_int (?e + k) + 1)"
      by (simp add: powr_add [symmetric] algebra_simps)
    finally show ?thesis unfolding ab .
  qed
  have 3: "x * 2 powr of_int k * 2 powr (52 - of_int (?e + k)) = x * 2 powr (52 - of_int ?e)"
    by (simp add: mult.assoc powr_add [symmetric])
  have "binary64 (x * 2 powr of_int k) =
        of_int (round_half_even (x * 2 powr (52 - of_int ?e))) * 2 powr (of_int (?e + k) - 52)"
    by (rule binary64_eqI [OF 1 2]) (simp only: 3)
  also have "\<dots> = binary64 x * 2 powr of_int k"
    using False by (simp add: binary64_def Let_def powr_add [symmetric] algebra_simps)
  finally show ?thesis .
qed

lemma binary64_of_int_small:
  assumes "\<bar>m\<bar> < 2 ^ 53"
  shows "binary64 (of_int m) = of_int m"
proof (cases "m = 0")
  case True
  then show ?thesis by simp
next
  case False
  let ?x = "of_int m :: real"
  have pos: "0 < \<bar>?x\<bar>" using False by simp
  let ?e = "\<lfloor>log 2 \<bar>?x\<bar>\<rfloor>"
  have b: "2 powr of_int ?e \<le> \<bar>?x\<bar>" "\<bar>?x\<bar> < 2 powr (of_int ?e + 1)"
    using log2_bounds [OF pos] by simp_all
  have "1 \<le> \<bar>?x\<bar>" using False by (simp flip: of_int_abs)
  then have "0 \<le> log 2 \<bar>?x\<bar>" by simp
  then have e0: "0 \<le> ?e" by simp
  have "\<bar>?x\<bar> < 2 powr 53"
    using assms by (simp flip: of_int_abs add: of_int_less_numeral_power_cancel_iff)
  moreover have "log 2 \<bar>?x\<bar> < 53 \<longleftrightarrow> \<bar>?x\<bar> < 2 powr 53"
    by (rule log_less_iff) (use pos in simp_all)
  ultimately have "log 2 \<bar>?x\<bar> < 53" by (simp only:)
  then have "?e < 53" by (simp add: floor_less_iff)
  then have e52: "?e \<le> 52" by simp
  define n where "n = nat (52 - ?e)"
  have n: "52 - of_int ?e = real n" using e52 by (simp add: n_def)
  have p: "(2 :: real) powr (52 - of_int ?e) = 2 ^ n"
    unfolding n by (simp add: powr_realpow)
  have q: "(2 :: real) powr (of_int ?e - 52) = 1 / 2 ^ n"
  proof -
    have "of_int ?e - 52 = - real n" using n by simp
    then show ?thesis by (simp add: powr_minus powr_realpow divide_simps)
  qed
  have r: "round_half_even (?x * 2 powr (52 - of_int ?e)) = m * 2 ^ n"
  proof -
    have "?x * 2 powr (52 - of_int ?e) = of_int (m * 2 ^ n)" by (simp add: p)
    then show ?thesis by (simp only: round_half_even_of_int)
  qed
  have "binary64 ?x = of_int (m * 2 ^ n) * 2 powr (of_int ?e - 52)"
    by (rule binary64_eqI [OF b r])
  then show ?thesis by (simp add: q)
qed

lemma binary64_1 [simp]: "binary64 1 = 1"
  using binary64_of_int_small [of 1] by simp

lemma binary64_pow2: "binary64 (2 powr of_int k) = 2 powr of_int k"
  using binary64_scale [of 1 k] by simp

lemma binary64_of_nat:
  assumes "n \<le> 2 ^ 53"
  shows "binary64 (real n) = real n"
proof (cases "n = 2 ^ 53")
  case True
  have "binary64 (2 powr of_int 53) = 2 powr of_int 53" by (rule binary64_pow2)
  then show ?thesis by (simp add: True)
next
  case False
  with assms have "n < 2 ^ 53" by simp
  then have "\<bar>int n\<bar> < 2 ^ 53" by simp
  from binary64_of_int_small [OF this] show ?thesis by simp
qed

lemma binary64_ge_pow2:
  assumes "2 powr of_int k \<le> x"
  shows "2 powr of_int k \<le> binary64 x"
proof -
  have pos: "0 < x" using assms by (rule pos_of_ge_pow2)
  let ?e = "\<lfloor>log 2 x\<rfloor>"
  have b: "2 powr of_int ?e \<le> x" "x < 2 powr (of_int ?e + 1)"
    using log2_bounds [OF pos] by simp_all
  have "of_int k \<le> log 2 x" using assms pos by (simp add: le_log_iff)
  then have ke: "k \<le> ?e" by (simp add: le_floor_iff)
  have "2 powr of_int ?e * 2 powr (52 - of_int ?e) \<le> x * 2 powr (52 - of_int ?e)"
    using b(1) by simp
  then have "(2 :: real) ^ 52 \<le> x * 2 powr (52 - of_int ?e)"
    by (simp add: powr_add [symmetric])
  then have "(2 :: int) ^ 52 \<le> \<lfloor>x * 2 powr (52 - of_int ?e)\<rfloor>"
    by (simp add: le_floor_iff)
  with round_half_even_ge [of "x * 2 powr (52 - of_int ?e)"]
  have "(2 :: int) ^ 52 \<le> round_half_even (x * 2 powr (52 - of_int ?e))" by linarith
  then have "(2 :: real) ^ 52 \<le> of_int (round_half_even (x * 2 powr (52 - of_int ?e)))"
    by (metis of_int_le_iff of_int_numeral of_int_power)
  then have "(2 :: real) ^ 52 * 2 powr (of_int ?e - 52)
      \<le> of_int (round_half_even (x * 2 powr (52 - of_int ?e))) * 2 powr (of_int ?e - 52)"
    by simp
  moreover have "(2 :: real) ^ 52 * 2 powr (of_int ?e - 52) = 2 powr of_int ?e"
  proof -
    have "(2 :: real) ^ 52 = 2 powr 52" by simp
    then show ?thesis by (simp only: powr_add [symmetric]) simp
  qed
  moreover have "binary64 x =
      of_int (round_half_even (x * 2 powr (52 - of_int ?e))) * 2 powr (of_int ?e - 52)"
    using pos by (simp add: binary64_def Let_def)
  moreover have "(2 :: real) powr of_int k \<le> 2 powr of_int ?e" using ke by simp
  ultimately show ?thesis by linarith
qed

lemma binary64_pos: "0 < x \<Longrightarrow> 0 < binary64 x"
proof -
  assume pos: "0 < x"
  have "2 powr of_int \<lfloor>log 2 x\<rfloor> \<le> binary64 x"
    by (rule binary64_ge_pow2) (rule log2_bounds(1) [OF pos])
  then show ?thesis by (rule pos_of_ge_pow2)
qed

lemma binary64_le_pow2:
  assumes "0 < x" "x \<le> 2 powr of_int k"
  shows "binary64 x \<le> 2 powr of_int k"
proof (cases "x = 2 powr of_int k")
  case True
  then show ?thesis by (simp add: binary64_pow2)
next
  case False
  with assms have lt: "x < 2 powr of_int k" by simp
  let ?e = "\<lfloor>log 2 x\<rfloor>"
  have b: "2 powr of_int ?e \<le> x" "x < 2 powr (of_int ?e + 1)"
    using log2_bounds [OF assms(1)] by simp_all
  have "log 2 x < of_int k" using lt assms(1) by (simp add: log_less_iff)
  then have "?e < k" by (simp add: floor_less_iff)
  then have ek: "?e + 1 \<le> k" by simp
  have "x * 2 powr (52 - of_int ?e) < 2 powr (of_int ?e + 1) * 2 powr (52 - of_int ?e)"
    using b(2) by simp
  also have "\<dots> = 2 ^ 53"
    by (simp add: powr_add [symmetric])
  finally have "x * 2 powr (52 - of_int ?e) < 2 ^ 53" .
  then have "\<lfloor>x * 2 powr (52 - of_int ?e)\<rfloor> < 2 ^ 53"
    by (simp add: floor_less_iff)
  with round_half_even_le [of "x * 2 powr (52 - of_int ?e)"]
  have "round_half_even (x * 2 powr (52 - of_int ?e)) \<le> 2 ^ 53" by linarith
  then have "of_int (round_half_even (x * 2 powr (52 - of_int ?e))) \<le> (2 :: real) ^ 53"
    by (metis of_int_le_iff of_int_numeral of_int_power)
  then have "of_int (round_half_even (x * 2 powr (52 - of_int ?e))) * 2 powr (of_int ?e - 52)
      \<le> (2 :: real) ^ 53 * 2 powr (of_int ?e - 52)"
    by simp
  moreover have "(2 :: real) ^ 53 * 2 powr (of_int ?e - 52) = 2 powr (of_int ?e + 1)"
  proof -
    have "(2 :: real) ^ 53 = 2 powr 53" by simp
    then show ?thesis by (simp only: powr_add [symmetric]) (simp add: add.commute)
  qed
  moreover have "binary64 x =
      of_int (round_half_even (x * 2 powr (52 - of_int ?e))) * 2 powr (of_int ?e - 52)"
    using assms(1) by (simp add: binary64_def Let_def)
  moreover have "(2 :: real) powr (of_int ?e + 1) \<le> 2 powr of_int k"
    using ek by (metis of_int_1 of_int_add of_int_le_iff powr_mono one_le_numeral)
  ultimately show ?thesis by linarith
qed


lemma binary64_eq_neg:
  assumes "1 \<le> \<bar>x\<bar> * 2 ^ n" "\<bar>x\<bar> * 2 ^ n < 2"
    and "round_half_even (x * 2 ^ (52 + n)) = m"
  shows "binary64 x = of_int m / 2 ^ (52 + n)"
proof -
  have p: "(2 :: real) powr of_int (- int n) = 1 / 2 ^ n"
    by (simp add: powr_minus powr_realpow divide_simps)
  have 1: "2 powr of_int (- int n) \<le> \<bar>x\<bar>"
    unfolding p using assms(1) by (simp add: divide_simps)
  have h: "(2 :: real) powr (of_int (- int n) + 1) = 2 / 2 ^ n"
    by (simp only: powr_add p) simp
  have 2: "\<bar>x\<bar> < 2 powr (of_int (- int n) + 1)"
    unfolding h using assms(2) by (simp add: pos_less_divide_eq)
  have "52 - of_int (- int n) = real (52 + n)" by simp
  then have q: "(2 :: real) powr (52 - of_int (- int n)) = 2 ^ (52 + n)"
    by (simp only: powr_realpow zero_less_numeral)
  have 3: "round_half_even (x * 2 powr (52 - of_int (- int n))) = m"
    unfolding q by (rule assms(3))
  have "- real n - 52 = - real (52 + n)" by simp
  then have r: "(2 :: real) powr (- real n - 52) = 1 / 2 ^ (52 + n)"
    by (simp only: powr_minus powr_realpow zero_less_numeral) (simp add: divide_simps)
  show ?thesis
    using binary64_eqI [OF 1 2 3] by (simp add: r)
qed

lemma binary64_eq_pos:
  assumes "2 ^ n \<le> \<bar>x\<bar>" "\<bar>x\<bar> < 2 * 2 ^ n" "n \<le> 52"
    and "round_half_even (x * 2 ^ (52 - n)) = m"
  shows "binary64 x = of_int m / 2 ^ (52 - n)"
proof -
  have 1: "2 powr of_int (int n) \<le> \<bar>x\<bar>"
    using assms(1) by (simp add: powr_realpow)
  have "(2 :: real) powr (of_int (int n) + 1) = 2 * 2 ^ n"
    by (simp add: powr_add powr_realpow)
  then have 2: "\<bar>x\<bar> < 2 powr (of_int (int n) + 1)"
    using assms(2) by simp
  have "52 - of_int (int n) = real (52 - n)" using assms(3) by simp
  then have q: "(2 :: real) powr (52 - of_int (int n)) = 2 ^ (52 - n)"
    by (simp only: powr_realpow zero_less_numeral)
  have 3: "round_half_even (x * 2 powr (52 - of_int (int n))) = m"
    unfolding q by (rule assms(4))
  have "real n - 52 = - real (52 - n)" using assms(3) by simp
  then have r: "(2 :: real) powr (real n - 52) = 1 / 2 ^ (52 - n)"
    by (simp only: powr_minus powr_realpow zero_less_numeral) (simp add: divide_simps)
  show ?thesis
    using binary64_eqI [OF 1 2 3] by (simp add: r)
qed

lemma binary64_49th: "binary64 (1 / 49) = 5882252574524729 / 288230376151711744"
  using binary64_eq_neg [of "1 / 49" 6 5882252574524729]
  by (simp add: round_half_even_def Let_def)

lemma binary64_49th_inv:
  "binary64 (288230376151711744 / 5882252574524729) = 6896136929411073 / 140737488355328"
  using binary64_eq_pos [of 5 "288230376151711744 / 5882252574524729" 6896136929411073]
  by (simp add: round_half_even_def Let_def)

lemma binary64_49th_inv3:
  "binary64 (864691128455135232 / 5882252574524729) = 147"
  using binary64_eq_pos [of 7 "864691128455135232 / 5882252574524729" "147 * 2 ^ 45"]
  by (simp add: round_half_even_def Let_def)

lemma binary64_49th_49:
  "binary64 (288230376151711721 / 288230376151711744) = 9007199254740991 / 9007199254740992"
  using binary64_eq_neg [of "288230376151711721 / 288230376151711744" 1 9007199254740991]
  by (simp add: round_half_even_def Let_def)

lemma binary64_3_10th: "binary64 (3 / 10) = 5404319552844595 / 18014398509481984"
  using binary64_eq_neg [of "3 / 10" 2 5404319552844595]
  by (simp add: round_half_even_def Let_def)

lemma binary64_3_10th_inv:
  "binary64 (54043195528445952 / 5404319552844595) = 10"
  using binary64_eq_pos [of 3 "54043195528445952 / 5404319552844595" "10 * 2 ^ 49"]
  by (simp add: round_half_even_def Let_def)

lemma binary64_numeral_small: "numeral w \<le> (2 :: nat) ^ 53 \<Longrightarrow> binary64 (numeral w) = numeral w"
  using binary64_of_nat [of "numeral w"] by simp

lemma int_truediv_1_49: "int_truediv 1 49 = 5882252574524729 / 288230376151711744"
  by (simp add: int_truediv_def binary64_49th)

lemma int_truediv_3_147: "int_truediv 3 147 = 5882252574524729 / 288230376151711744"
  by (simp add: int_truediv_def binary64_49th)

lemma int_truediv_3_10: "int_truediv 3 10 = 5404319552844595 / 18014398509481984"
  by (simp add: int_truediv_def binary64_3_10th)

lemma mgrid_count_1_49: "mgrid_count 1 (int_truediv 1 49) = 50"
proof -
  have "\<lceil>6896136929411073 / 140737488355328 :: real\<rceil> = 50"
    by (simp add: ceiling_eq_iff)
  then show ?thesis
    by (simp add: mgrid_count_def int_truediv_1_49 binary64_49th_inv)
qed

lemma mgrid_count_3_147: "mgrid_count 3 (int_truediv 3 147) = 147"
  by (simp add: mgrid_count_def int_truediv_3_147 binary64_numeral_small binary64_49th_inv3)

lemma mgrid_count_3_10: "mgrid_count 3 (int_truediv 3 10) = 10"
  by (simp add: mgrid_count_def int_truediv_3_10 binary64_numeral_small binary64_3_10th_inv)

lemma mgrid_coord_3_147_49:
  "mgrid_coord (int_truediv 3 147) 49 = 9007199254740991 / 9007199254740992"
  by (simp add: mgrid_coord_def int_truediv_3_147 binary64_numeral_small binary64_49th_49)


lemma binary64_half [simp]: "binary64 (1 / 2) = 1 / 2"
  using binary64_pow2 [of "- 1"] by (simp add: powr_minus_divide)

lemma int_truediv_pos: "0 < a \<Longrightarrow> 0 < b \<Longrightarrow> 0 < int_truediv a b"
  by (simp add: int_truediv_def binary64_pos)

lemma int_truediv_nonzero: "0 < a \<Longrightarrow> 0 < b \<Longrightarrow> int_truediv a b \<noteq> 0"
  using int_truediv_pos [of a b] by simp

lemma int_truediv_self: "b \<noteq> 0 \<Longrightarrow> int_truediv b b = 1"
  by (simp add: int_truediv_def)

lemma sample_count_ge_2:
  assumes "0 < r" "0 < d" "2 \<le> r * d"
  shows "2 \<le> sample_count (int r) (int (r * d))"
proof -
  let ?step = "int_truediv (int r) (int (r * d))"
  have "2 powr of_int 0 \<le> real r" using assms by simp
  from binary64_ge_pow2 [OF this] have br: "1 \<le> binary64 (real r)" by simp
  have "2 \<le> binary64 (real r) / ?step"
  proof (cases "d = 1")
    case True
    then have "?step = 1" using assms by (simp add: int_truediv_def)
    moreover have "2 powr of_int 1 \<le> real r" using assms True by simp
    from binary64_ge_pow2 [OF this] have "2 \<le> binary64 (real r)" by simp
    ultimately show ?thesis by simp
  next
    case False
    then have d2: "2 \<le> d" using assms by simp
    have q: "real_of_int (int r) / real_of_int (int (r * d)) = 1 / real d" using assms by simp
    have "0 < 1 / real d" using assms by simp
    moreover have "1 / real d \<le> 2 powr of_int (- 1)"
      using d2 by (simp add: powr_minus_divide divide_simps)
    ultimately have "binary64 (1 / real d) \<le> 2 powr of_int (- 1)" by (rule binary64_le_pow2)
    then have le: "?step \<le> 1 / 2" by (simp add: int_truediv_def q powr_minus_divide)
    have pos: "0 < ?step" using assms by (simp add: int_truediv_pos)
    have "2 \<le> 1 / ?step" using le pos by (simp add: divide_simps)
    also have "\<dots> \<le> binary64 (real r) / ?step" using br pos by (simp add: divide_right_mono)
    finally show ?thesis .
  qed
  then have "2 powr of_int 1 \<le> binary64 (real r) / ?step" by simp
  from binary64_ge_pow2 [OF this] have "2 \<le> binary64 (binary64 (real r) / ?step)" by simp
  then have "2 \<le> \<lceil>binary64 (binary64 (real r) / ?step)\<rceil>" by (simp add: le_ceiling_iff)
  then show ?thesis by (simp add: sample_count_def mgrid_count_def)
qed

lemma sample_count_one: "sample_count 1 1 = 1"
  by (simp add: sample_count_def mgrid_count_def int_truediv_def)

lemma sample_count_self:
  assumes "0 < s" "s \<le> 2 ^ 53"
  shows "sample_count (int s) (int s) = int s"
proof -
  have "binary64 (real s) = real s" using assms by (simp add: binary64_of_nat)
  then show ?thesis
    using assms by (simp add: sample_count_def mgrid_count_def int_truediv_def)
qed

lemma mgrid_coord_one: "i \<le> 2 ^ 53 \<Longrightarrow> mgrid_coord 1 i = real i"
  by (simp add: mgrid_coord_def binary64_of_nat)

lemma local_coord_one_sample: "0 < r \<Longrightarrow> i \<le> 2 ^ 53 \<Longrightarrow> local_coord r r i = 0"
  by (simp add: local_coord_def int_truediv_def mgrid_coord_one py_mod1_def)

lemma sample_count_cases:
  assumes "0 < r" "0 < d"
  obtains "sample_count (int r) (int (r * d)) = int (r * d)"
  | c where "sample_count (int r) (int (r * d)) = int c" "c \<noteq> r * d" "2 \<le> c" "2 \<le> r * d"
proof (cases "r * d = 1")
  case True
  then have "r = 1" "d = 1" by simp_all
  then have "sample_count (int r) (int (r * d)) = int (r * d)" by (simp add: sample_count_one)
  then show ?thesis by (rule that(1))
next
  case False
  moreover have "0 < r * d" using assms by simp
  ultimately have s2: "2 \<le> r * d" by linarith
  from sample_count_ge_2 [OF assms s2] have c2: "2 \<le> sample_count (int r) (int (r * d))" .
  define c where "c = nat (sample_count (int r) (int (r * d)))"
  have c: "sample_count (int r) (int (r * d)) = int c" using c2 by (simp add: c_def)
  show ?thesis
  proof (cases "c = r * d")
    case True
    then show ?thesis using c that(1) by simp
  next
    case False
    moreover have "2 \<le> c" using c2 c by simp
    ultimately show ?thesis using c s2 that(2) by blast
  qed
qed

lemma sample_count_2_4: "sample_count 2 4 = 4"
  by (simp add: sample_count_def mgrid_count_def int_truediv_def binary64_numeral_small)


lemma round_half_even_minus: "round_half_even (- y) = - round_half_even y"
proof (cases "y = of_int \<lfloor>y\<rfloor>")
  case True
  then obtain k where "y = of_int k" ..
  then have "- y = of_int (- k)" by simp
  then show ?thesis unfolding \<open>y = of_int k\<close> by (simp only: round_half_even_of_int)
next
  case False
  define n where "n = \<lfloor>y\<rfloor>"
  have lo: "of_int n < y" using False n_def by (metis of_int_floor_le order_less_le)
  have hi: "y < of_int n + 1" unfolding n_def by linarith
  have f: "\<lfloor>- y\<rfloor> = - n - 1"
    by (rule floor_unique) (use lo hi in simp_all)
  show ?thesis
    unfolding round_half_even_def Let_def f n_def [symmetric]
    using lo hi by (auto simp: algebra_simps)
qed

lemma binary64_minus: "binary64 (- x) = - binary64 x"
  by (simp add: binary64_def Let_def round_half_even_minus)

lemma binary64_neg: "x < 0 \<Longrightarrow> binary64 x < 0"
  using binary64_pos [of "- x"] by (simp add: binary64_minus)

lemma binary64_nonzero: "x \<noteq> 0 \<Longrightarrow> binary64 x \<noteq> 0"
  using binary64_pos [of x] binary64_neg [of x] by (cases "0 < x") auto

lemma int_truediv_nonzero_gen: "a \<noteq> 0 \<Longrightarrow> b \<noteq> 0 \<Longrightarrow> int_truediv a b \<noteq> 0"
  by (simp add: int_truediv_def binary64_nonzero)

lemma mgrid_count_nonneg:
  assumes "r \<noteq> 0" "0 < s"
  shows "0 \<le> mgrid_count r (int_truediv r s)"
proof -
  have "0 < binary64 (real_of_int r) / int_truediv r s"
  proof (cases "0 < r")
    case True
    then have "0 < binary64 (real_of_int r)" "0 < int_truediv r s"
      using assms by (simp_all add: binary64_pos int_truediv_pos)
    then show ?thesis by simp
  next
    case False
    then have "r < 0" using assms by simp
    then have "binary64 (real_of_int r) < 0" by (simp add: binary64_neg)
    moreover have "real_of_int r / real_of_int s < 0"
      using \<open>r < 0\<close> assms by (simp add: divide_neg_pos)
    then have "int_truediv r s < 0" unfolding int_truediv_def by (rule binary64_neg)
    ultimately show ?thesis by (simp add: divide_neg_neg)
  qed
  then have "0 < binary64 (binary64 (real_of_int r) / int_truediv r s)" by (rule binary64_pos)
  then have "0 < \<lceil>binary64 (binary64 (real_of_int r) / int_truediv r s)\<rceil>" by simp
  then show ?thesis by (simp add: mgrid_count_def)
qed


lemma binary64_98th: "binary64 (1 / 98) = 5882252574524729 / 576460752303423488"
  using binary64_eq_neg [of "1 / 98" 7 5882252574524729]
  by (simp add: round_half_even_def Let_def)

lemma binary64_98th_inv:
  "binary64 (576460752303423488 / 5882252574524729) = 6896136929411073 / 70368744177664"
  using binary64_eq_pos [of 6 "576460752303423488 / 5882252574524729" 6896136929411073]
  by (simp add: round_half_even_def Let_def)

lemma sample_count_1_49: "sample_count 1 49 = 50"
  by (simp add: sample_count_def mgrid_count_1_49)

lemma sample_count_3_147: "sample_count 3 147 = 147"
  by (simp add: sample_count_def mgrid_count_3_147)

lemma sample_count_1_2: "sample_count 1 2 = 2"
  by (simp add: sample_count_def mgrid_count_def int_truediv_def binary64_numeral_small)

lemma sample_count_1_98: "sample_count 1 98 = 99"
proof -
  have "\<lceil>6896136929411073 / 70368744177664 :: real\<rceil> = 99"
    by (simp add: ceiling_eq_iff)
  then show ?thesis
    by (simp add: sample_count_def mgrid_count_def int_truediv_def binary64_98th binary64_98th_inv)
qed

lemma mgrid_count_2_1: "mgrid_count 2 (int_truediv 2 1) = 1"
  by (simp add: mgrid_count_def int_truediv_def binary64_numeral_small)

lemma mgrid_count_2_4: "mgrid_count 2 (int_truediv 2 4) = 4"
  by (simp add: mgrid_count_def int_truediv_def binary64_numeral_small)

lemma local_coord_3_147_49: "local_coord 3 147 49 = 1 - 1 / 2 ^ 53"
proof -
  have "local_coord 3 147 49 = py_mod1 (9007199254740991 / 9007199254740992)"
    unfolding local_coord_def by (simp only: of_nat_numeral mgrid_coord_3_147_49)
  also have "\<dots> = 1 - 1 / 2 ^ 53"
    by (simp add: py_mod1_def frac_def)
  finally show ?thesis .
qed

section \<open>The evaluators on valid input\<close>

lemma gradient_lattice_2d_arr:
  assumes "2 \<le> length tileable"
  shows "gradient_lattice_2d (int r0) (int r1) tileable g =
     Inr (arr3 (Suc r0) (Suc r1) 2 (lattice_2d g r0 r1 tileable),
          g\<lparr>pos := pos g + Suc r0 * Suc r1\<rparr>)"
proof -
  have r: "np_random_rand [int r0 + 1, int r1 + 1] g =
     Inr (arr2 (Suc r0) (Suc r1) (\<lambda>i j. draws g (pos g + (i * Suc r1 + j))),
          g\<lparr>pos := pos g + Suc r0 * Suc r1\<rparr>)"
    using np_random_rand_2 [of "int r0 + 1" "int r1 + 1" g] by (simp add: nat_add_distrib)
  have t: "tuple_get tileable 0 = Inr (tileable ! 0)" "tuple_get tileable (Suc 0) = Inr (tileable ! Suc 0)"
    using assms by (auto simp: tuple_get_def)
  show ?thesis
    by (cases "tileable ! 0"; cases "tileable ! Suc 0")
       (simp_all add: gradient_lattice_2d_def r t Let_def,
        (rule arr3_cong; auto simp: lattice_2d_def lattice_angle_2d_def)+)
qed

lemma corner_gradients_2d_arr:
  assumes "0 < d0" "0 < d1"
  shows "corner_gradients_2d (arr3 (Suc r0) (Suc r1) 2 G) (int d0) (int d1) =
     Inr (arr3 (r0 * d0) (r1 * d1) 2 (\<lambda>i j c. G (i div d0) (j div d1) c),
          arr3 (r0 * d0) (r1 * d1) 2 (\<lambda>i j c. G (Suc (i div d0)) (j div d1) c),
          arr3 (r0 * d0) (r1 * d1) 2 (\<lambda>i j c. G (i div d0) (Suc (j div d1)) c),
          arr3 (r0 * d0) (r1 * d1) 2 (\<lambda>i j c. G (Suc (i div d0)) (Suc (j div d1)) c))"
  using assms
  by (simp add: corner_gradients_2d_def np_slice_arr3 slice_range_def slice_bound_def
       Let_def nat_add_distrib nat_diff_distrib nat_mult_distrib)

lemma ramp_2d_arr:
  "ramp_2d (arr3 n m 2 X) fx fy (arr3 n m 2 Gc) =
     Inr (arr2 n m (\<lambda>i j. fx (X i j 0) * Gc i j 0 + fy (X i j 1) * Gc i j 1))"
  by (simp add: ramp_2d_def np_select_last_arr3 np_sum_last_arr3_2)

lemma blend_first_arr2:
  "blend_first (arr2 n m A) (arr2 n m T) (arr2 n m B) =
     Inr (arr2 n m (\<lambda>i j. A i j * (1 - T i j) + T i j * B i j))"
  by (simp add: blend_first_def)

lemma blend_rest_arr2:
  "blend_rest (arr2 n m T) (arr2 n m A) (arr2 n m B) =
     Inr (arr2 n m (\<lambda>i j. (1 - T i j) * A i j + T i j * B i j))"
  by (simp add: blend_rest_def)

lemma sample_grid_2d:
  assumes "dl0 \<noteq> 0" "dl1 \<noteq> 0"
    and "mgrid_count (int r0) dl0 = int n0" "mgrid_count (int r1) dl1 = int n1"
  shows "np_mgrid [(int r0, dl0), (int r1, dl1)] =
     Inr (arr3 2 n0 n1 (\<lambda>k i j. if k = 0 then mgrid_coord dl0 i else mgrid_coord dl1 j))"
proof -
  have ge: "0 \<le> mgrid_count (int r0) dl0" "0 \<le> mgrid_count (int r1) dl1"
    unfolding assms(3,4) by simp_all
  show ?thesis
    using np_mgrid_2 [OF assms(1,2) ge] unfolding assms(3,4) by (simp only: nat_int)
qed

lemma np_mul_arr3_mismatch:
  assumes "(c0 \<noteq> s0 \<and> 2 \<le> c0 \<and> 2 \<le> s0) \<or> (c1 \<noteq> s1 \<and> 2 \<le> c1 \<and> 2 \<le> s1)"
  shows "np_mul (arr3 c0 c1 k X) (arr3 s0 s1 k G) = Inl ValueError"
  using assms by (auto simp: np_mul_def np_binop_def broadcast_shapes_def)

lemma ramp_2d_mismatch:
  assumes "(c0 \<noteq> s0 \<and> 2 \<le> c0 \<and> 2 \<le> s0) \<or> (c1 \<noteq> s1 \<and> 2 \<le> c1 \<and> 2 \<le> s1)"
  shows "ramp_2d (arr3 c0 c1 2 X) fx fy (arr3 s0 s1 2 Gc) = Inl ValueError"
  by (simp add: ramp_2d_def np_select_last_arr3 np_mul_arr3_mismatch [OF assms])

lemma perlin_2d_prefix:
  assumes "0 < r0" "0 < r1" "0 < d0" "0 < d1"
  shows "int_truediv (int r0) (int (r0 * d0)) \<noteq> 0" "int_truediv (int r1) (int (r1 * d1)) \<noteq> 0"
    "py_truediv (int r0) (int (r0 * d0)) = Inr (int_truediv (int r0) (int (r0 * d0)))"
    "py_truediv (int r1) (int (r1 * d1)) = Inr (int_truediv (int r1) (int (r1 * d1)))"
    "py_floordiv (int (r0 * d0)) (int r0) = Inr (int d0)"
    "py_floordiv (int (r1 * d1)) (int r1) = Inr (int d1)"
  using assms int_truediv_nonzero [of "int r0" "int (r0 * d0)"]
    int_truediv_nonzero [of "int r1" "int (r1 * d1)"]
  by (simp_all add: py_truediv_def py_floordiv_def)

lemma generate_perlin_noise_2d_arr:
  assumes "0 < r0" "0 < r1" "0 < d0" "0 < d1" "2 \<le> length tileable"
    and "sample_count (int r0) (int (r0 * d0)) = int (r0 * d0)"
    and "sample_count (int r1) (int (r1 * d1)) = int (r1 * d1)"
  shows "generate_perlin_noise_2d [int (r0 * d0), int (r1 * d1)] [int r0, int r1] tileable f g =
     Inr (arr2 (r0 * d0) (r1 * d1)
            (\<lambda>i j. sqrt 2 * bilinear_2d (lattice_2d g r0 r1 tileable) f r0 r1 d0 d1 i j),
          g\<lparr>pos := pos g + Suc r0 * Suc r1\<rparr>)"
proof -
  define dl0 dl1 where "dl0 = int_truediv (int r0) (int (r0 * d0))"
    and "dl1 = int_truediv (int r1) (int (r1 * d1))"
  note pre = perlin_2d_prefix [OF assms(1-4), folded dl0_def dl1_def]
  have grid: "np_mgrid [(int r0, dl0), (int r1, dl1)] =
     Inr (arr3 2 (r0 * d0) (r1 * d1) (\<lambda>k i j. if k = 0 then mgrid_coord dl0 i else mgrid_coord dl1 j))"
  proof (rule sample_grid_2d)
    show "mgrid_count (int r0) dl0 = int (r0 * d0)" using assms(6) by (simp only: sample_count_def dl0_def)
    show "mgrid_count (int r1) dl1 = int (r1 * d1)" using assms(7) by (simp only: sample_count_def dl1_def)
  qed (rule pre(1) pre(2))+
  have lc: "local_coord r0 (r0 * d0) i = py_mod1 (mgrid_coord dl0 i)"
           "local_coord r1 (r1 * d1) i = py_mod1 (mgrid_coord dl1 i)" for i
    by (simp_all only: local_coord_def dl0_def dl1_def)
  have t: "tuple_get [int r0, int r1] 0 = Inr (int r0)" "tuple_get [int r0, int r1] 1 = Inr (int r1)"
    "tuple_get [int (r0 * d0), int (r1 * d1)] 0 = Inr (int (r0 * d0))"
    "tuple_get [int (r0 * d0), int (r1 * d1)] 1 = Inr (int (r1 * d1))"
    by (simp_all add: tuple_get_def)
  show ?thesis
    unfolding generate_perlin_noise_2d_def t pbind_Inr pre(3-6) grid Let_def
      gradient_lattice_2d_arr [OF assms(5)] corner_gradients_2d_arr [OF assms(3,4)] prod.case
    apply (simp add: ramp_2d_arr np_select_last_arr3 blend_first_arr2 blend_rest_arr2)
    apply (rule arr2_cong; simp add: bilinear_2d_def Let_def lc ramp2_def lerp_def)
    done
qed

lemma generate_perlin_noise_2d_mismatch:
  assumes "0 < r0" "0 < r1" "0 < d0" "0 < d1" "2 \<le> length tileable"
    and "sample_count (int r0) (int (r0 * d0)) = int c0"
    and "sample_count (int r1) (int (r1 * d1)) = int c1"
    and "(c0 \<noteq> r0 * d0 \<and> 2 \<le> c0 \<and> 2 \<le> r0 * d0) \<or> (c1 \<noteq> r1 * d1 \<and> 2 \<le> c1 \<and> 2 \<le> r1 * d1)"
  shows "generate_perlin_noise_2d [int (r0 * d0), int (r1 * d1)] [int r0, int r1] tileable f g =
     Inl ValueError"
proof -
  define dl0 dl1 where "dl0 = int_truediv (int r0) (int (r0 * d0))"
    and "dl1 = int_truediv (int r1) (int (r1 * d1))"
  note pre = perlin_2d_prefix [OF assms(1-4), folded dl0_def dl1_def]
  have grid: "np_mgrid [(int r0, dl0), (int r1, dl1)] =
     Inr (arr3 2 c0 c1 (\<lambda>k i j. if k = 0 then mgrid_coord dl0 i else mgrid_coord dl1 j))"
  proof (rule sample_grid_2d)
    show "mgrid_count (int r0) dl0 = int c0" using assms(6) by (simp only: sample_count_def dl0_def)
    show "mgrid_count (int r1) dl1 = int c1" using assms(7) by (simp only: sample_count_def dl1_def)
  qed (rule pre(1) pre(2))+
  have t: "tuple_get [int r0, int r1] 0 = Inr (int r0)" "tuple_get [int r0, int r1] 1 = Inr (int r1)"
    "tuple_get [int (r0 * d0), int (r1 * d1)] 0 = Inr (int (r0 * d0))"
    "tuple_get [int (r0 * d0), int (r1 * d1)] 1 = Inr (int (r1 * d1))"
    by (simp_all add: tuple_get_def)
  show ?thesis
    unfolding generate_perlin_noise_2d_def t pbind_Inr pre(3-6) grid Let_def
      gradient_lattice_2d_arr [OF assms(5)] corner_gradients_2d_arr [OF assms(3,4)] prod.case
    by (simp add: ramp_2d_mismatch [OF assms(8)])
qed

lemma gradient_lattice_3d_arr:
  assumes "3 \<le> length tileable"
  shows "gradient_lattice_3d (int r0) (int r1) (int r2) tileable g =
     Inr (arr4 (Suc r0) (Suc r1) (Suc r2) 3 (lattice_3d g r0 r1 r2 tileable),
          g\<lparr>pos := pos g + 2 * (Suc r0 * (Suc r1 * Suc r2))\<rparr>)"
proof -
  have r: "np_random_rand [int r0 + 1, int r1 + 1, int r2 + 1] h =
     Inr (arr3 (Suc r0) (Suc r1) (Suc r2) (\<lambda>i j l. draws h (pos h + ((i * Suc r1 + j) * Suc r2 + l))),
          h\<lparr>pos := pos h + Suc r0 * (Suc r1 * Suc r2)\<rparr>)" for h
    using np_random_rand_3 [of "int r0 + 1" "int r1 + 1" "int r2 + 1" h] by (simp add: nat_add_distrib)
  have t: "tuple_get tileable 0 = Inr (tileable ! 0)" "tuple_get tileable (Suc 0) = Inr (tileable ! Suc 0)"
    "tuple_get tileable 2 = Inr (tileable ! 2)"
    using assms by (auto simp: tuple_get_def)
  show ?thesis
    by (cases "tileable ! 0"; cases "tileable ! Suc 0"; cases "tileable ! 2")
       (simp_all add: gradient_lattice_3d_def r t Let_def,
        (rule arr4_cong; auto simp: lattice_3d_def lattice_theta_3d_def lattice_phi_3d_def
           corner_index_3d_def Let_def)+)
qed

lemma lerp_fold: "a * (1 - w) + w * b = lerp w a b" "(1 - w) * a + w * b = lerp w a b"
  by (simp_all add: lerp_def)

lemma corner_gradients_3d_arr:
  assumes "0 < d0" "0 < d1" "0 < d2"
  shows "corner_gradients_3d (arr4 (Suc r0) (Suc r1) (Suc r2) 3 G) (int d0) (int d1) (int d2) =
     Inr [arr4 (r0 * d0) (r1 * d1) (r2 * d2) 3 (\<lambda>i j l. G (i div d0) (j div d1) (l div d2)),
          arr4 (r0 * d0) (r1 * d1) (r2 * d2) 3 (\<lambda>i j l. G (Suc (i div d0)) (j div d1) (l div d2)),
          arr4 (r0 * d0) (r1 * d1) (r2 * d2) 3 (\<lambda>i j l. G (i div d0) (Suc (j div d1)) (l div d2)),
          arr4 (r0 * d0) (r1 * d1) (r2 * d2) 3 (\<lambda>i j l. G (Suc (i div d0)) (Suc (j div d1)) (l div d2)),
          arr4 (r0 * d0) (r1 * d1) (r2 * d2) 3 (\<lambda>i j l. G (i div d0) (j div d1) (Suc (l div d2))),
          arr4 (r0 * d0) (r1 * d1) (r2 * d2) 3 (\<lambda>i j l. G (Suc (i div d0)) (j div d1) (Suc (l div d2))),
          arr4 (r0 * d0) (r1 * d1) (r2 * d2) 3 (\<lambda>i j l. G (i div d0) (Suc (j div d1)) (Suc (l div d2))),
          arr4 (r0 * d0) (r1 * d1) (r2 * d2) 3
            (\<lambda>i j l. G (Suc (i div d0)) (Suc (j div d1)) (Suc (l div d2)))]"
  using assms
  by (simp add: corner_gradients_3d_def np_slice_arr4 slice_range_def slice_bound_def
       Let_def nat_add_distrib nat_diff_distrib nat_mult_distrib)

lemma ramp_3d_arr:
  "ramp_3d (arr4 n m k 3 X) fx fy fz (arr4 n m k 3 Gc) =
     Inr (arr3 n m k (\<lambda>i j l. fx (X i j l 0) * Gc i j l 0 + fy (X i j l 1) * Gc i j l 1
                               + fz (X i j l 2) * Gc i j l 2))"
  by (simp add: ramp_3d_def np_select_last_arr4 np_sum_last_arr4_3)

lemma blend_first_arr3:
  "blend_first (arr3 n m k A) (arr3 n m k T) (arr3 n m k B) =
     Inr (arr3 n m k (\<lambda>i j l. A i j l * (1 - T i j l) + T i j l * B i j l))"
  by (simp add: blend_first_def)

lemma blend_rest_arr3:
  "blend_rest (arr3 n m k T) (arr3 n m k A) (arr3 n m k B) =
     Inr (arr3 n m k (\<lambda>i j l. (1 - T i j l) * A i j l + T i j l * B i j l))"
  by (simp add: blend_rest_def)

lemma sample_grid_3d:
  assumes "dl0 \<noteq> 0" "dl1 \<noteq> 0" "dl2 \<noteq> 0"
    and "mgrid_count (int r0) dl0 = int n0" "mgrid_count (int r1) dl1 = int n1"
      "mgrid_count (int r2) dl2 = int n2"
  shows "np_mgrid [(int r0, dl0), (int r1, dl1), (int r2, dl2)] =
     Inr (arr4 3 n0 n1 n2
           (\<lambda>k i j l. if k = 0 then mgrid_coord dl0 i else if k = 1 then mgrid_coord dl1 j
                       else mgrid_coord dl2 l))"
proof -
  have ge: "0 \<le> mgrid_count (int r0) dl0" "0 \<le> mgrid_count (int r1) dl1"
     "0 \<le> mgrid_count (int r2) dl2"
    unfolding assms(4,5,6) by simp_all
  show ?thesis
    using np_mgrid_3 [OF assms(1,2,3) ge] unfolding assms(4,5,6) by (simp only: nat_int)
qed

lemma np_mul_arr4_mismatch:
  assumes "(c0 \<noteq> s0 \<and> 2 \<le> c0 \<and> 2 \<le> s0) \<or> (c1 \<noteq> s1 \<and> 2 \<le> c1 \<and> 2 \<le> s1) \<or>
           (c2 \<noteq> s2 \<and> 2 \<le> c2 \<and> 2 \<le> s2)"
  shows "np_mul (arr4 c0 c1 c2 k X) (arr4 s0 s1 s2 k G) = Inl ValueError"
  using assms by (auto simp: np_mul_def np_binop_def broadcast_shapes_def)

lemma ramp_3d_mismatch:
  assumes "(c0 \<noteq> s0 \<and> 2 \<le> c0 \<and> 2 \<le> s0) \<or> (c1 \<noteq> s1 \<and> 2 \<le> c1 \<and> 2 \<le> s1) \<or>
           (c2 \<noteq> s2 \<and> 2 \<le> c2 \<and> 2 \<le> s2)"
  shows "ramp_3d (arr4 c0 c1 c2 3 X) fx fy fz (arr4 s0 s1 s2 3 Gc) = Inl ValueError"
  by (simp add: ramp_3d_def np_select_last_arr4 np_mul_arr4_mismatch [OF assms])

lemma perlin_3d_prefix:
  assumes "0 < r0" "0 < r1" "0 < r2" "0 < d0" "0 < d1" "0 < d2"
  shows "int_truediv (int r0) (int (r0 * d0)) \<noteq> 0" "int_truediv (int r1) (int (r1 * d1)) \<noteq> 0"
    "int_truediv (int r2) (int (r2 * d2)) \<noteq> 0"
    "py_truediv (int r0) (int (r0 * d0)) = Inr (int_truediv (int r0) (int (r0 * d0)))"
    "py_truediv (int r1) (int (r1 * d1)) = Inr (int_truediv (int r1) (int (r1 * d1)))"
    "py_truediv (int r2) (int (r2 * d2)) = Inr (int_truediv (int r2) (int (r2 * d2)))"
    "py_floordiv (int (r0 * d0)) (int r0) = Inr (int d0)"
    "py_floordiv (int (r1 * d1)) (int r1) = Inr (int d1)"
    "py_floordiv (int (r2 * d2)) (int r2) = Inr (int d2)"
  using assms int_truediv_nonzero [of "int r0" "int (r0 * d0)"]
    int_truediv_nonzero [of "int r1" "int (r1 * d1)"]
    int_truediv_nonzero [of "int r2" "int (r2 * d2)"]
  by (simp_all add: py_truediv_def py_floordiv_def)

lemma generate_perlin_noise_3d_arr:
  assumes "0 < r0" "0 < r1" "0 < r2" "0 < d0" "0 < d1" "0 < d2" "3 \<le> length tileable"
    and "sample_count (int r0) (int (r0 * d0)) = int (r0 * d0)"
    and "sample_count (int r1) (int (r1 * d1)) = int (r1 * d1)"
    and "sample_count (int r2) (int (r2 * d2)) = int (r2 * d2)"
  shows "generate_perlin_noise_3d [int (r0 * d0), int (r1 * d1), int (r2 * d2)]
           [int r0, int r1, int r2] tileable f g =
     Inr (arr3 (r0 * d0) (r1 * d1) (r2 * d2)
            (\<lambda>i j l. trilinear_3d (lattice_3d g r0 r1 r2 tileable) f r0 r1 r2 d0 d1 d2 i j l),
          g\<lparr>pos := pos g + 2 * (Suc r0 * (Suc r1 * Suc r2))\<rparr>)"
proof -
  define dl0 dl1 dl2 where "dl0 = int_truediv (int r0) (int (r0 * d0))"
    and "dl1 = int_truediv (int r1) (int (r1 * d1))"
    and "dl2 = int_truediv (int r2) (int (r2 * d2))"
  note pre = perlin_3d_prefix [OF assms(1-6), folded dl0_def dl1_def dl2_def]
  have grid: "np_mgrid [(int r0, dl0), (int r1, dl1), (int r2, dl2)] =
     Inr (arr4 3 (r0 * d0) (r1 * d1) (r2 * d2)
       (\<lambda>k i j l. if k = 0 then mgrid_coord dl0 i else if k = 1 then mgrid_coord dl1 j
                   else mgrid_coord dl2 l))"
  proof (rule sample_grid_3d)
    show "mgrid_count (int r0) dl0 = int (r0 * d0)" using assms(8) by (simp only: sample_count_def dl0_def)
    show "mgrid_count (int r1) dl1 = int (r1 * d1)" using assms(9) by (simp only: sample_count_def dl1_def)
    show "mgrid_count (int r2) dl2 = int (r2 * d2)" using assms(10) by (simp only: sample_count_def dl2_def)
  qed (rule pre(1) pre(2) pre(3))+
  have lc: "local_coord r0 (r0 * d0) i = py_mod1 (mgrid_coord dl0 i)"
           "local_coord r1 (r1 * d1) i = py_mod1 (mgrid_coord dl1 i)"
           "local_coord r2 (r2 * d2) i = py_mod1 (mgrid_coord dl2 i)" for i
    by (simp_all only: local_coord_def dl0_def dl1_def dl2_def)
  have t: "tuple_get [int r0, int r1, int r2] 0 = Inr (int r0)"
    "tuple_get [int r0, int r1, int r2] 1 = Inr (int r1)"
    "tuple_get [int r0, int r1, int r2] 2 = Inr (int r2)"
    "tuple_get [int (r0 * d0), int (r1 * d1), int (r2 * d2)] 0 = Inr (int (r0 * d0))"
    "tuple_get [int (r0 * d0), int (r1 * d1), int (r2 * d2)] 1 = Inr (int (r1 * d1))"
    "tuple_get [int (r0 * d0), int (r1 * d1), int (r2 * d2)] 2 = Inr (int (r2 * d2))"
    by (simp_all add: tuple_get_def)
  show ?thesis
    unfolding generate_perlin_noise_3d_def t pbind_Inr pre(4-9) grid Let_def
      gradient_lattice_3d_arr [OF assms(7)] corner_gradients_3d_arr [OF assms(4,5,6)] prod.case
    apply (simp add: ramp_3d_arr np_select_last_arr4 blend_first_arr3 blend_rest_arr3)
    apply (rule arr3_cong; simp add: trilinear_3d_def Let_def lc ramp3_def lerp_fold)
    done
qed

lemma generate_perlin_noise_3d_mismatch:
  assumes "0 < r0" "0 < r1" "0 < r2" "0 < d0" "0 < d1" "0 < d2" "3 \<le> length tileable"
    and "sample_count (int r0) (int (r0 * d0)) = int c0"
    and "sample_count (int r1) (int (r1 * d1)) = int c1"
    and "sample_count (int r2) (int (r2 * d2)) = int c2"
    and "(c0 \<noteq> r0 * d0 \<and> 2 \<le> c0 \<and> 2 \<le> r0 * d0) \<or> (c1 \<noteq> r1 * d1 \<and> 2 \<le> c1 \<and> 2 \<le> r1 * d1) \<or>
         (c2 \<noteq> r2 * d2 \<and> 2 \<le> c2 \<and> 2 \<le> r2 * d2)"
  shows "generate_perlin_noise_3d [int (r0 * d0), int (r1 * d1), int (r2 * d2)]
           [int r0, int r1, int r2] tileable f g = Inl ValueError"
proof -
  define dl0 dl1 dl2 where "dl0 = int_truediv (int r0) (int (r0 * d0))"
    and "dl1 = int_truediv (int r1) (int (r1 * d1))"
    and "dl2 = int_truediv (int r2) (int (r2 * d2))"
  note pre = perlin_3d_prefix [OF assms(1-6), folded dl0_def dl1_def dl2_def]
  have grid: "np_mgrid [(int r0, dl0), (int r1, dl1), (int r2, dl2)] =
     Inr (arr4 3 c0 c1 c2
       (\<lambda>k i j l. if k = 0 then mgrid_coord dl0 i else if k = 1 then mgrid_coord dl1 j
                   else mgrid_coord dl2 l))"
  proof (rule sample_grid_3d)
    show "mgrid_count (int r0) dl0 = int c0" using assms(8) by (simp only: sample_count_def dl0_def)
    show "mgrid_count (int r1) dl1 = int c1" using assms(9) by (simp only: sample_count_def dl1_def)
    show "mgrid_count (int r2) dl2 = int c2" using assms(10) by (simp only: sample_count_def dl2_def)
  qed (rule pre(1) pre(2) pre(3))+
  have t: "tuple_get [int r0, int r1, int r2] 0 = Inr (int r0)"
    "tuple_get [int r0, int r1, int r2] 1 = Inr (int r1)"
    "tuple_get [int r0, int r1, int r2] 2 = Inr (int r2)"
    "tuple_get [int (r0 * d0), int (r1 * d1), int (r2 * d2)] 0 = Inr (int (r0 * d0))"
    "tuple_get [int (r0 * d0), int (r1 * d1), int (r2 * d2)] 1 = Inr (int (r1 * d1))"
    "tuple_get [int (r0 * d0), int (r1 * d1), int (r2 * d2)] 2 = Inr (int (r2 * d2))"
    by (simp_all add: tuple_get_def)
  show ?thesis
    unfolding generate_perlin_noise_3d_def t pbind_Inr pre(4-9) grid Let_def
      gradient_lattice_3d_arr [OF assms(7)] corner_gradients_3d_arr [OF assms(4,5,6)] prod.case
    by (simp add: ramp_3d_mismatch [OF assms(11)])
qed

lemma valid_2dE:
  assumes "valid_2d shp res tileable"
  obtains r0 r1 d0 d1 where "shp = [int (r0 * d0), int (r1 * d1)]" "res = [int r0, int r1]"
    "0 < r0" "0 < r1" "0 < d0" "0 < d1" "length tileable = 2"
proof -
  from assms obtain s0 s1 q0 q1 where sr: "shp = [s0, s1]" "res = [q0, q1]"
    and pos: "0 < s0" "0 < q0" "0 < s1" "0 < q1" and dv: "q0 dvd s0" "q1 dvd s1"
    and tl: "length tileable = 2"
    by (auto simp: valid_2d_def list_all2_Cons1 list_all2_Cons2 length_Suc_conv numeral_2_eq_2)
  from dv obtain e0 e1 where e: "s0 = q0 * e0" "s1 = q1 * e1" by (auto simp: dvd_def)
  with pos have epos: "0 < e0" "0 < e1" by (auto simp: zero_less_mult_iff)
  show ?thesis
  proof (rule that [of "nat q0" "nat e0" "nat q1" "nat e1"])
    show "shp = [int (nat q0 * nat e0), int (nat q1 * nat e1)]"
      using pos epos by (simp add: sr e)
    show "res = [int (nat q0), int (nat q1)]" using pos by (simp add: sr)
  qed (use pos epos tl in simp_all)
qed

lemma perlin_2d_valid:
  assumes "valid_2d shp res tileable" "exact_grid shp res"
  shows "generate_perlin_noise_2d shp res tileable f g =
     Inr (noise_field_2d shp res tileable f g, g\<lparr>pos := pos g + draw_count_2d res\<rparr>)"
proof -
  from assms(1) obtain r0 r1 d0 d1 where *: "shp = [int (r0 * d0), int (r1 * d1)]" "res = [int r0, int r1]"
    "0 < r0" "0 < r1" "0 < d0" "0 < d1" "length tileable = 2"
    by (rule valid_2dE)
  have "2 \<le> length tileable" using * by simp
  moreover have "nat (int (r0 * d0) div int r0) = d0" "nat (int (r1 * d1) div int r1) = d1"
    using *(3,4) by (simp_all add: zdiv_int [symmetric] del: of_nat_mult)
  moreover have "nat (int r0 + 1) * nat (int r1 + 1) = Suc r0 * Suc r1"
    by (simp add: nat_add_distrib)
  moreover have "sample_count (int r0) (int (r0 * d0)) = int (r0 * d0)"
      "sample_count (int r1) (int (r1 * d1)) = int (r1 * d1)"
    using assms(2) unfolding * exact_grid_def by simp_all
  ultimately show ?thesis
    using generate_perlin_noise_2d_arr [OF *(3-6), of tileable f g]
    unfolding * noise_field_2d_def draw_count_2d_def Let_def
    by (simp del: of_nat_mult mult_Suc mult_Suc_right)
qed

lemma perlin_2d_inexact:
  assumes "valid_2d shp res tileable" "\<not> exact_grid shp res"
  shows "generate_perlin_noise_2d shp res tileable f g = Inl ValueError"
proof -
  from assms(1) obtain r0 r1 d0 d1 where *: "shp = [int (r0 * d0), int (r1 * d1)]" "res = [int r0, int r1]"
    "0 < r0" "0 < r1" "0 < d0" "0 < d1" "length tileable = 2"
    by (rule valid_2dE)
  have tl: "2 \<le> length tileable" using * by simp
  from assms(2) have ne: "sample_count (int r0) (int (r0 * d0)) \<noteq> int (r0 * d0) \<or>
      sample_count (int r1) (int (r1 * d1)) \<noteq> int (r1 * d1)"
    unfolding * exact_grid_def by simp
  obtain c0 where c0: "sample_count (int r0) (int (r0 * d0)) = int c0"
      "c0 = r0 * d0 \<or> (c0 \<noteq> r0 * d0 \<and> 2 \<le> c0 \<and> 2 \<le> r0 * d0)"
    using sample_count_cases [OF *(3,5)] by metis
  obtain c1 where c1: "sample_count (int r1) (int (r1 * d1)) = int c1"
      "c1 = r1 * d1 \<or> (c1 \<noteq> r1 * d1 \<and> 2 \<le> c1 \<and> 2 \<le> r1 * d1)"
    using sample_count_cases [OF *(4,6)] by metis
  have "(c0 \<noteq> r0 * d0 \<and> 2 \<le> c0 \<and> 2 \<le> r0 * d0) \<or> (c1 \<noteq> r1 * d1 \<and> 2 \<le> c1 \<and> 2 \<le> r1 * d1)"
    using ne c0 c1 by auto
  from generate_perlin_noise_2d_mismatch [OF *(3-6) tl c0(1) c1(1) this]
  show ?thesis unfolding * .
qed

lemma valid_fractal_octave:
  assumes "valid_fractal_2d shp res octaves lacunarity tileable" "k < nat octaves"
  shows "valid_2d shp (map (\<lambda>r. lacunarity ^ k * r) res) tileable"
proof -
  from assms(1) obtain s0 s1 r0 r1 where sr: "shp = [s0, s1]" "res = [r0, r1]"
    and pos: "0 < s0" "0 < r0" "0 < s1" "0 < r1" "1 \<le> lacunarity"
    and dv: "r0 * lacunarity ^ (nat octaves - 1) dvd s0" "r1 * lacunarity ^ (nat octaves - 1) dvd s1"
    and tl: "length tileable = 2"
    by (auto simp: valid_fractal_2d_def list_all2_Cons1 list_all2_Cons2 length_Suc_conv numeral_2_eq_2)
  from assms(2) have "k \<le> nat octaves - 1" by simp
  then have "lacunarity ^ k dvd lacunarity ^ (nat octaves - 1)" by (rule le_imp_power_dvd)
  then have "lacunarity ^ k * r0 dvd r0 * lacunarity ^ (nat octaves - 1)"
     "lacunarity ^ k * r1 dvd r1 * lacunarity ^ (nat octaves - 1)"
    by (simp_all add: mult.commute mult_dvd_mono)
  with dv have "lacunarity ^ k * r0 dvd s0" "lacunarity ^ k * r1 dvd s1"
    by (blast intro: dvd_trans)+
  moreover have "0 < lacunarity ^ k" using pos by simp
  ultimately show ?thesis
    using pos tl by (simp add: valid_2d_def sr)
qed

lemma fractal_loop_2d_sum:
  assumes "\<And>k. k0 \<le> k \<Longrightarrow> k < k0 + n \<Longrightarrow>
             valid_2d shp (map (\<lambda>r. lacunarity ^ k * r) res) tileable \<and>
             exact_grid shp (map (\<lambda>r. lacunarity ^ k * r) res)"
    and "length res = 2" "length shp = 2" "nat (shp ! 0) = s0" "nat (shp ! 1) = s1"
  shows "fractal_loop_2d n shp res persistence lacunarity tileable f (arr2 s0 s1 N)
           (lacunarity ^ k0) (persistence ^ k0) (octave_rng_2d res lacunarity g k0) =
     Inr (arr2 s0 s1 (\<lambda>i j. N i j + (\<Sum>k<n. persistence ^ (k0 + k) *
              item (fst (projr (octave_2d shp res lacunarity tileable f g (k0 + k)))) [i, j])),
          octave_rng_2d res lacunarity g (k0 + n))"
  using assms(1)
proof (induction n arbitrary: N k0)
  case 0
  show ?case by simp
next
  case (Suc n)
  from assms(2) obtain r0 r1 where res: "res = [r0, r1]"
    by (auto simp: length_Suc_conv numeral_2_eq_2)
  have v: "valid_2d shp (map (\<lambda>r. lacunarity ^ k0 * r) res) tileable"
    "exact_grid shp (map (\<lambda>r. lacunarity ^ k0 * r) res)"
    using Suc.prems [of k0] by simp_all
  have oct: "generate_perlin_noise_2d shp [lacunarity ^ k0 * r0, lacunarity ^ k0 * r1] tileable f
        (octave_rng_2d res lacunarity g k0) = octave_2d shp res lacunarity tileable f g k0"
    by (simp add: octave_2d_def res)
  have val: "octave_2d shp res lacunarity tileable f g k0 =
      Inr (noise_field_2d shp (map (\<lambda>r. lacunarity ^ k0 * r) res) tileable f (octave_rng_2d res lacunarity g k0),
           octave_rng_2d res lacunarity g (Suc k0))"
    unfolding octave_2d_def perlin_2d_valid [OF v] by (simp add: Let_def)
  obtain F where F: "noise_field_2d shp (map (\<lambda>r. lacunarity ^ k0 * r) res) tileable f
       (octave_rng_2d res lacunarity g k0) = arr2 s0 s1 F"
    unfolding noise_field_2d_def Let_def assms(4,5) by blast
  have IH: "fractal_loop_2d n shp res persistence lacunarity tileable f
       (arr2 s0 s1 (\<lambda>i j. N i j + persistence ^ k0 * F i j))
       (lacunarity ^ Suc k0) (persistence ^ Suc k0) (octave_rng_2d res lacunarity g (Suc k0)) =
     Inr (arr2 s0 s1 (\<lambda>i j. (N i j + persistence ^ k0 * F i j) + (\<Sum>k<n. persistence ^ (Suc k0 + k) *
              item (fst (projr (octave_2d shp res lacunarity tileable f g (Suc k0 + k)))) [i, j])),
          octave_rng_2d res lacunarity g (Suc k0 + n))"
    by (rule Suc.IH) (rule Suc.prems; simp)
  have step: "fractal_loop_2d (Suc n) shp res persistence lacunarity tileable f (arr2 s0 s1 N)
           (lacunarity ^ k0) (persistence ^ k0) (octave_rng_2d res lacunarity g k0) =
      fractal_loop_2d n shp res persistence lacunarity tileable f
       (arr2 s0 s1 (\<lambda>i j. N i j + persistence ^ k0 * F i j))
       (lacunarity ^ Suc k0) (persistence ^ Suc k0) (octave_rng_2d res lacunarity g (Suc k0))"
  proof -
    have call: "generate_perlin_noise_2d shp [lacunarity ^ k0 * r0, lacunarity ^ k0 * r1] tileable f
        (octave_rng_2d res lacunarity g k0) = Inr (arr2 s0 s1 F, octave_rng_2d res lacunarity g (Suc k0))"
      unfolding oct val F ..
    have tg: "tuple_get res 0 = Inr r0" "tuple_get res 1 = Inr r1"
      by (simp_all add: res tuple_get_def)
    have pw: "lacunarity ^ k0 * lacunarity = lacunarity ^ Suc k0"
       "persistence ^ k0 * persistence = persistence ^ Suc k0"
      by simp_all
    show ?thesis
      unfolding fractal_loop_2d.simps tg pbind_Inr call prod.case pw
      by (simp del: octave_rng_2d.simps power_Suc)
  qed
  show ?case
    unfolding step IH
    by (simp add: sum.lessThan_Suc_shift val F add.assoc del: octave_rng_2d.simps sum.lessThan_Suc)
qed

lemma fractal_2d_sum:
  assumes "valid_fractal_2d shp res octaves lacunarity tileable"
    and "\<And>k. k < nat octaves \<Longrightarrow> exact_grid shp (map (\<lambda>r. lacunarity ^ k * r) res)"
  shows "generate_fractal_noise_2d shp res octaves persistence lacunarity tileable f g =
     Inr (arr2 (nat (shp ! 0)) (nat (shp ! 1))
            (\<lambda>i j. \<Sum>k<nat octaves. persistence ^ k *
                item (fst (projr (octave_2d shp res lacunarity tileable f g k))) [i, j]),
          octave_rng_2d res lacunarity g (nat octaves))"
proof -
  from assms(1) obtain s0 s1 where shp: "shp = [s0, s1]" and pos: "0 < s0" "0 < s1"
    and len: "length res = 2"
    by (auto simp: valid_fractal_2d_def list_all2_Cons1 length_Suc_conv numeral_2_eq_2)
  have z: "np_zeros shp = Inr (arr2 (nat (shp ! 0)) (nat (shp ! 1)) (\<lambda>i j. 0))"
    using pos by (simp add: shp)
  have "fractal_loop_2d (nat octaves) shp res persistence lacunarity tileable f
          (arr2 (nat (shp ! 0)) (nat (shp ! 1)) (\<lambda>i j. 0))
          (lacunarity ^ 0) (persistence ^ 0) (octave_rng_2d res lacunarity g 0) =
     Inr (arr2 (nat (shp ! 0)) (nat (shp ! 1))
           (\<lambda>i j. 0 + (\<Sum>k<nat octaves. persistence ^ (0 + k) *
              item (fst (projr (octave_2d shp res lacunarity tileable f g (0 + k)))) [i, j])),
          octave_rng_2d res lacunarity g (0 + nat octaves))"
  proof (rule fractal_loop_2d_sum)
    show "valid_2d shp (map (\<lambda>r. lacunarity ^ k * r) res) tileable \<and>
          exact_grid shp (map (\<lambda>r. lacunarity ^ k * r) res)"
      if "0 \<le> k" "k < 0 + nat octaves" for k
      using valid_fractal_octave [OF assms(1), of k] assms(2) [of k] that by simp
  qed (simp_all add: len shp)
  then show ?thesis
    unfolding generate_fractal_noise_2d_def z pbind_Inr by simp
qed

lemma fractal_2d_one_octave:
  assumes "valid_2d shp res tileable"
  shows "generate_fractal_noise_2d shp res 1 persistence lacunarity tileable f g =
         generate_perlin_noise_2d shp res tileable f g"
proof -
  from assms obtain s0 s1 r0 r1 where shp: "shp = [s0, s1]" and res: "res = [r0, r1]"
    and pos: "0 < s0" "0 < s1"
    by (auto simp: valid_2d_def list_all2_Cons1 list_all2_Cons2 length_Suc_conv numeral_2_eq_2)
  have z: "np_zeros shp = Inr (arr2 (nat s0) (nat s1) (\<lambda>i j. 0))"
    using pos by (simp add: shp)
  have tg: "tuple_get res 0 = Inr r0" "tuple_get res 1 = Inr r1"
    by (simp_all add: res tuple_get_def)
  have one: "nat 1 = Suc 0" by simp
  show ?thesis
  proof (cases "exact_grid shp res")
    case True
    have e: "generate_perlin_noise_2d shp [1 * r0, 1 * r1] tileable f g =
         Inr (noise_field_2d shp res tileable f g, g\<lparr>pos := pos g + draw_count_2d res\<rparr>)"
      using perlin_2d_valid [OF assms True] by (simp add: res)
    obtain F where F: "noise_field_2d shp res tileable f g = arr2 (nat s0) (nat s1) F"
      unfolding noise_field_2d_def Let_def shp by simp
    show ?thesis
      unfolding generate_fractal_noise_2d_def z pbind_Inr one fractal_loop_2d.simps tg e prod.case
      unfolding perlin_2d_valid [OF assms True] F
      by simp
  next
    case False
    have e: "generate_perlin_noise_2d shp [1 * r0, 1 * r1] tileable f g = Inl ValueError"
      using perlin_2d_inexact [OF assms False] by (simp add: res)
    show ?thesis
      unfolding generate_fractal_noise_2d_def z pbind_Inr one fractal_loop_2d.simps tg e pbind_Inl
      unfolding perlin_2d_inexact [OF assms False] ..
  qed
qed

lemma fractal_2d_no_octaves:
  assumes "list_all (\<lambda>n. 0 \<le> n) shp" "octaves \<le> 0"
  shows "generate_fractal_noise_2d shp res octaves persistence lacunarity tileable f g =
         Inr (tabulate (map nat shp) (\<lambda>idx. 0), g)"
proof -
  have "\<not> list_ex (\<lambda>n. n < 0) shp"
    using assms(1) by (induction shp) auto
  then show ?thesis
    using assms(2) by (simp add: generate_fractal_noise_2d_def np_zeros_def)
qed

lemma valid_3dE:
  assumes "valid_3d shp res tileable"
  obtains r0 r1 r2 d0 d1 d2 where "shp = [int (r0 * d0), int (r1 * d1), int (r2 * d2)]"
    "res = [int r0, int r1, int r2]"
    "0 < r0" "0 < r1" "0 < r2" "0 < d0" "0 < d1" "0 < d2" "length tileable = 3"
proof -
  from assms obtain s0 s1 s2 q0 q1 q2 where sr: "shp = [s0, s1, s2]" "res = [q0, q1, q2]"
    and pos: "0 < s0" "0 < q0" "0 < s1" "0 < q1" "0 < s2" "0 < q2"
    and dv: "q0 dvd s0" "q1 dvd s1" "q2 dvd s2"
    and tl: "length tileable = 3"
    by (auto simp: valid_3d_def list_all2_Cons1 list_all2_Cons2 length_Suc_conv numeral_3_eq_3)
  from dv obtain e0 e1 e2 where e: "s0 = q0 * e0" "s1 = q1 * e1" "s2 = q2 * e2"
    by (auto simp: dvd_def)
  with pos have epos: "0 < e0" "0 < e1" "0 < e2" by (auto simp: zero_less_mult_iff)
  show ?thesis
  proof (rule that [of "nat q0" "nat e0" "nat q1" "nat e1" "nat q2" "nat e2"])
    show "shp = [int (nat q0 * nat e0), int (nat q1 * nat e1), int (nat q2 * nat e2)]"
      using pos epos by (simp add: sr e)
    show "res = [int (nat q0), int (nat q1), int (nat q2)]" using pos by (simp add: sr)
  qed (use pos epos tl in simp_all)
qed

lemma perlin_3d_valid:
  assumes "valid_3d shp res tileable" "exact_grid shp res"
  shows "generate_perlin_noise_3d shp res tileable f g =
     Inr (noise_field_3d shp res tileable f g, g\<lparr>pos := pos g + draw_count_3d res\<rparr>)"
proof -
  from assms(1) obtain r0 r1 r2 d0 d1 d2 where
    *: "shp = [int (r0 * d0), int (r1 * d1), int (r2 * d2)]" "res = [int r0, int r1, int r2]"
    "0 < r0" "0 < r1" "0 < r2" "0 < d0" "0 < d1" "0 < d2" "length tileable = 3"
    by (rule valid_3dE)
  have "3 \<le> length tileable" using * by simp
  moreover have "nat (int (r0 * d0) div int r0) = d0" "nat (int (r1 * d1) div int r1) = d1"
      "nat (int (r2 * d2) div int r2) = d2"
    using *(3,4,5) by (simp_all add: zdiv_int [symmetric] del: of_nat_mult)
  moreover have "nat (int r0 + 1) * (nat (int r1 + 1) * nat (int r2 + 1)) = Suc r0 * (Suc r1 * Suc r2)"
    by (simp add: nat_add_distrib)
  moreover have "sample_count (int r0) (int (r0 * d0)) = int (r0 * d0)"
      "sample_count (int r1) (int (r1 * d1)) = int (r1 * d1)"
      "sample_count (int r2) (int (r2 * d2)) = int (r2 * d2)"
    using assms(2) unfolding * exact_grid_def by simp_all
  ultimately show ?thesis
    using generate_perlin_noise_3d_arr [OF *(3-8), of tileable f g]
    unfolding * noise_field_3d_def draw_count_3d_def Let_def
    by (simp del: of_nat_mult mult_Suc mult_Suc_right)
qed

lemma perlin_3d_inexact:
  assumes "valid_3d shp res tileable" "\<not> exact_grid shp res"
  shows "generate_perlin_noise_3d shp res tileable f g = Inl ValueError"
proof -
  from assms(1) obtain r0 r1 r2 d0 d1 d2 where
    *: "shp = [int (r0 * d0), int (r1 * d1), int (r2 * d2)]" "res = [int r0, int r1, int r2]"
    "0 < r0" "0 < r1" "0 < r2" "0 < d0" "0 < d1" "0 < d2" "length tileable = 3"
    by (rule valid_3dE)
  have tl: "3 \<le> length tileable" using * by simp
  from assms(2) have ne: "sample_count (int r0) (int (r0 * d0)) \<noteq> int (r0 * d0) \<or>
      sample_count (int r1) (int (r1 * d1)) \<noteq> int (r1 * d1) \<or>
      sample_count (int r2) (int (r2 * d2)) \<noteq> int (r2 * d2)"
    unfolding * exact_grid_def by simp
  obtain c0 where c0: "sample_count (int r0) (int (r0 * d0)) = int c0"
      "c0 = r0 * d0 \<or> (c0 \<noteq> r0 * d0 \<and> 2 \<le> c0 \<and> 2 \<le> r0 * d0)"
    using sample_count_cases [OF *(3,6)] by metis
  obtain c1 where c1: "sample_count (int r1) (int (r1 * d1)) = int c1"
      "c1 = r1 * d1 \<or> (c1 \<noteq> r1 * d1 \<and> 2 \<le> c1 \<and> 2 \<le> r1 * d1)"
    using sample_count_cases [OF *(4,7)] by metis
  obtain c2 where c2: "sample_count (int r2) (int (r2 * d2)) = int c2"
      "c2 = r2 * d2 \<or> (c2 \<noteq> r2 * d2 \<and> 2 \<le> c2 \<and> 2 \<le> r2 * d2)"
    using sample_count_cases [OF *(5,8)] by metis
  have "(c0 \<noteq> r0 * d0 \<and> 2 \<le> c0 \<and> 2 \<le> r0 * d0) \<or> (c1 \<noteq> r1 * d1 \<and> 2 \<le> c1 \<and> 2 \<le> r1 * d1) \<or>
        (c2 \<noteq> r2 * d2 \<and> 2 \<le> c2 \<and> 2 \<le> r2 * d2)"
    using ne c0 c1 c2 by auto
  from generate_perlin_noise_3d_mismatch [OF *(3-8) tl c0(1) c1(1) c2(1) this]
  show ?thesis unfolding * .
qed

lemma valid_fractal_octave_3d:
  assumes "valid_fractal_3d shp res octaves lacunarity tileable" "k < nat octaves"
  shows "valid_3d shp (map (\<lambda>r. lacunarity ^ k * r) res) tileable"
proof -
  from assms(1) obtain s0 s1 s2 r0 r1 r2 where sr: "shp = [s0, s1, s2]" "res = [r0, r1, r2]"
    and pos: "0 < s0" "0 < r0" "0 < s1" "0 < r1" "0 < s2" "0 < r2" "1 \<le> lacunarity"
    and dv: "r0 * lacunarity ^ (nat octaves - 1) dvd s0" "r1 * lacunarity ^ (nat octaves - 1) dvd s1"
       "r2 * lacunarity ^ (nat octaves - 1) dvd s2"
    and tl: "length tileable = 3"
    by (auto simp: valid_fractal_3d_def list_all2_Cons1 list_all2_Cons2 length_Suc_conv numeral_3_eq_3)
  from assms(2) have "k \<le> nat octaves - 1" by simp
  then have "lacunarity ^ k dvd lacunarity ^ (nat octaves - 1)" by (rule le_imp_power_dvd)
  then have "lacunarity ^ k * r0 dvd r0 * lacunarity ^ (nat octaves - 1)"
     "lacunarity ^ k * r1 dvd r1 * lacunarity ^ (nat octaves - 1)"
     "lacunarity ^ k * r2 dvd r2 * lacunarity ^ (nat octaves - 1)"
    by (simp_all add: mult.commute mult_dvd_mono)
  with dv have "lacunarity ^ k * r0 dvd s0" "lacunarity ^ k * r1 dvd s1" "lacunarity ^ k * r2 dvd s2"
    by (blast intro: dvd_trans)+
  moreover have "0 < lacunarity ^ k" using pos by simp
  ultimately show ?thesis
    using pos tl by (simp add: valid_3d_def sr)
qed

lemma fractal_loop_3d_sum:
  assumes "\<And>k. k0 \<le> k \<Longrightarrow> k < k0 + n \<Longrightarrow>
             valid_3d shp (map (\<lambda>r. lacunarity ^ k * r) res) tileable \<and>
             exact_grid shp (map (\<lambda>r. lacunarity ^ k * r) res)"
    and "length res = 3" "length shp = 3" "nat (shp ! 0) = s0" "nat (shp ! 1) = s1" "nat (shp ! 2) = s2"
  shows "fractal_loop_3d n shp res persistence lacunarity tileable f (arr3 s0 s1 s2 N)
           (lacunarity ^ k0) (persistence ^ k0) (octave_rng_3d res lacunarity g k0) =
     Inr (arr3 s0 s1 s2 (\<lambda>i j l. N i j l + (\<Sum>k<n. persistence ^ (k0 + k) *
              item (fst (projr (octave_3d shp res lacunarity tileable f g (k0 + k)))) [i, j, l])),
          octave_rng_3d res lacunarity g (k0 + n))"
  using assms(1)
proof (induction n arbitrary: N k0)
  case 0
  show ?case by simp
next
  case (Suc n)
  from assms(2) obtain r0 r1 r2 where res: "res = [r0, r1, r2]"
    by (auto simp: length_Suc_conv numeral_3_eq_3)
  have v: "valid_3d shp (map (\<lambda>r. lacunarity ^ k0 * r) res) tileable"
    "exact_grid shp (map (\<lambda>r. lacunarity ^ k0 * r) res)"
    using Suc.prems [of k0] by simp_all
  have oct: "generate_perlin_noise_3d shp [lacunarity ^ k0 * r0, lacunarity ^ k0 * r1, lacunarity ^ k0 * r2]
        tileable f (octave_rng_3d res lacunarity g k0) = octave_3d shp res lacunarity tileable f g k0"
    by (simp add: octave_3d_def res)
  have val: "octave_3d shp res lacunarity tileable f g k0 =
      Inr (noise_field_3d shp (map (\<lambda>r. lacunarity ^ k0 * r) res) tileable f (octave_rng_3d res lacunarity g k0),
           octave_rng_3d res lacunarity g (Suc k0))"
    unfolding octave_3d_def perlin_3d_valid [OF v] by (simp add: Let_def)
  obtain F where F: "noise_field_3d shp (map (\<lambda>r. lacunarity ^ k0 * r) res) tileable f
       (octave_rng_3d res lacunarity g k0) = arr3 s0 s1 s2 F"
    unfolding noise_field_3d_def Let_def assms(4,5,6) by blast
  have IH: "fractal_loop_3d n shp res persistence lacunarity tileable f
       (arr3 s0 s1 s2 (\<lambda>i j l. N i j l + persistence ^ k0 * F i j l))
       (lacunarity ^ Suc k0) (persistence ^ Suc k0) (octave_rng_3d res lacunarity g (Suc k0)) =
     Inr (arr3 s0 s1 s2 (\<lambda>i j l. (N i j l + persistence ^ k0 * F i j l) +
              (\<Sum>k<n. persistence ^ (Suc k0 + k) *
              item (fst (projr (octave_3d shp res lacunarity tileable f g (Suc k0 + k)))) [i, j, l])),
          octave_rng_3d res lacunarity g (Suc k0 + n))"
    by (rule Suc.IH) (rule Suc.prems; simp)
  have step: "fractal_loop_3d (Suc n) shp res persistence lacunarity tileable f (arr3 s0 s1 s2 N)
           (lacunarity ^ k0) (persistence ^ k0) (octave_rng_3d res lacunarity g k0) =
      fractal_loop_3d n shp res persistence lacunarity tileable f
       (arr3 s0 s1 s2 (\<lambda>i j l. N i j l + persistence ^ k0 * F i j l))
       (lacunarity ^ Suc k0) (persistence ^ Suc k0) (octave_rng_3d res lacunarity g (Suc k0))"
  proof -
    have call: "generate_perlin_noise_3d shp
        [lacunarity ^ k0 * r0, lacunarity ^ k0 * r1, lacunarity ^ k0 * r2] tileable f
        (octave_rng_3d res lacunarity g k0) =
        Inr (arr3 s0 s1 s2 F, octave_rng_3d res lacunarity g (Suc k0))"
      unfolding oct val F ..
    have tg: "tuple_get res 0 = Inr r0" "tuple_get res 1 = Inr r1" "tuple_get res 2 = Inr r2"
      by (simp_all add: res tuple_get_def)
    have pw: "lacunarity ^ k0 * lacunarity = lacunarity ^ Suc k0"
       "persistence ^ k0 * persistence = persistence ^ Suc k0"
      by simp_all
    show ?thesis
      unfolding fractal_loop_3d.simps tg pbind_Inr call prod.case pw
      by (simp del: octave_rng_3d.simps power_Suc)
  qed
  show ?case
    unfolding step IH
    by (simp add: sum.lessThan_Suc_shift val F add.assoc del: octave_rng_3d.simps sum.lessThan_Suc)
qed

lemma fractal_3d_sum:
  assumes "valid_fractal_3d shp res octaves lacunarity tileable"
    and "\<And>k. k < nat octaves \<Longrightarrow> exact_grid shp (map (\<lambda>r. lacunarity ^ k * r) res)"
  shows "generate_fractal_noise_3d shp res octaves persistence lacunarity tileable f g =
     Inr (arr3 (nat (shp ! 0)) (nat (shp ! 1)) (nat (shp ! 2))
            (\<lambda>i j l. \<Sum>k<nat octaves. persistence ^ k *
                item (fst (projr (octave_3d shp res lacunarity tileable f g k))) [i, j, l]),
          octave_rng_3d res lacunarity g (nat octaves))"
proof -
  from assms(1) obtain s0 s1 s2 where shp: "shp = [s0, s1, s2]" and pos: "0 < s0" "0 < s1" "0 < s2"
    and len: "length res = 3"
    by (auto simp: valid_fractal_3d_def list_all2_Cons1 length_Suc_conv numeral_3_eq_3)
  have z: "np_zeros shp = Inr (arr3 (nat (shp ! 0)) (nat (shp ! 1)) (nat (shp ! 2)) (\<lambda>i j l. 0))"
    using pos by (simp add: shp)
  have "fractal_loop_3d (nat octaves) shp res persistence lacunarity tileable f
          (arr3 (nat (shp ! 0)) (nat (shp ! 1)) (nat (shp ! 2)) (\<lambda>i j l. 0))
          (lacunarity ^ 0) (persistence ^ 0) (octave_rng_3d res lacunarity g 0) =
     Inr (arr3 (nat (shp ! 0)) (nat (shp ! 1)) (nat (shp ! 2))
           (\<lambda>i j l. 0 + (\<Sum>k<nat octaves. persistence ^ (0 + k) *
              item (fst (projr (octave_3d shp res lacunarity tileable f g (0 + k)))) [i, j, l])),
          octave_rng_3d res lacunarity g (0 + nat octaves))"
  proof (rule fractal_loop_3d_sum)
    show "valid_3d shp (map (\<lambda>r. lacunarity ^ k * r) res) tileable \<and>
          exact_grid shp (map (\<lambda>r. lacunarity ^ k * r) res)"
      if "0 \<le> k" "k < 0 + nat octaves" for k
      using valid_fractal_octave_3d [OF assms(1), of k] assms(2) [of k] that by simp
  qed (simp_all add: len shp)
  then show ?thesis
    unfolding generate_fractal_noise_3d_def z pbind_Inr by simp
qed

lemma fractal_3d_one_octave:
  assumes "valid_3d shp res tileable"
  shows "generate_fractal_noise_3d shp res 1 persistence lacunarity tileable f g =
         generate_perlin_noise_3d shp res tileable f g"
proof -
  from assms obtain s0 s1 s2 r0 r1 r2 where shp: "shp = [s0, s1, s2]" and res: "res = [r0, r1, r2]"
    and pos: "0 < s0" "0 < s1" "0 < s2"
    by (auto simp: valid_3d_def list_all2_Cons1 list_all2_Cons2 length_Suc_conv numeral_3_eq_3)
  have z: "np_zeros shp = Inr (arr3 (nat s0) (nat s1) (nat s2) (\<lambda>i j l. 0))"
    using pos by (simp add: shp)
  have tg: "tuple_get res 0 = Inr r0" "tuple_get res 1 = Inr r1" "tuple_get res 2 = Inr r2"
    by (simp_all add: res tuple_get_def)
  have one: "nat 1 = Suc 0" by simp
  show ?thesis
  proof (cases "exact_grid shp res")
    case True
    have e: "generate_perlin_noise_3d shp [1 * r0, 1 * r1, 1 * r2] tileable f g =
         Inr (noise_field_3d shp res tileable f g, g\<lparr>pos := pos g + draw_count_3d res\<rparr>)"
      using perlin_3d_valid [OF assms True] by (simp add: res)
    obtain F where F: "noise_field_3d shp res tileable f g = arr3 (nat s0) (nat s1) (nat s2) F"
      unfolding noise_field_3d_def Let_def shp by simp
    show ?thesis
      unfolding generate_fractal_noise_3d_def z pbind_Inr one fractal_loop_3d.simps tg e prod.case
      unfolding perlin_3d_valid [OF assms True] F
      by simp
  next
    case False
    have e: "generate_perlin_noise_3d shp [1 * r0, 1 * r1, 1 * r2] tileable f g = Inl ValueError"
      using perlin_3d_inexact [OF assms False] by (simp add: res)
    show ?thesis
      unfolding generate_fractal_noise_3d_def z pbind_Inr one fractal_loop_3d.simps tg e pbind_Inl
      unfolding perlin_3d_inexact [OF assms False] ..
  qed
qed

lemma fractal_3d_no_octaves:
  assumes "list_all (\<lambda>n. 0 \<le> n) shp" "octaves \<le> 0"
  shows "generate_fractal_noise_3d shp res octaves persistence lacunarity tileable f g =
         Inr (tabulate (map nat shp) (\<lambda>idx. 0), g)"
proof -
  have "\<not> list_ex (\<lambda>n. n < 0) shp"
    using assms(1) by (induction shp) auto
  then show ?thesis
    using assms(2) by (simp add: generate_fractal_noise_3d_def np_zeros_def)
qed

lemma item_arr2_zero: "item (arr2 n m (\<lambda>i j. 0)) idx = 0"
  by (simp add: arr2_def item_tabulate)

lemma item_arr3_zero: "item (arr3 n m k (\<lambda>i j l. 0)) idx = 0"
  by (simp add: arr3_def item_tabulate)

lemma interpolant_0: "interpolant 0 = 0"
  by (simp add: interpolant_def)

lemma sample_count_self_int:
  assumes "0 < s" "s \<le> 2 ^ 53"
  shows "sample_count s s = s"
proof -
  have "nat s \<le> 2 ^ 53" using assms by (simp add: nat_le_iff)
  moreover have "0 < nat s" using assms by simp
  ultimately have "sample_count (int (nat s)) (int (nat s)) = int (nat s)"
    by (intro sample_count_self)
  then show ?thesis using assms by simp
qed

lemma exact_grid_self: "list_all (\<lambda>n. 0 < n \<and> n \<le> 2 ^ 53) shp \<Longrightarrow> exact_grid shp shp"
  unfolding exact_grid_def by (induction shp) (simp_all add: sample_count_self_int)

lemma bilinear_2d_one_sample:
  "0 < r0 \<Longrightarrow> 0 < r1 \<Longrightarrow> i \<le> 2 ^ 53 \<Longrightarrow> j \<le> 2 ^ 53 \<Longrightarrow>
   bilinear_2d G interpolant r0 r1 (Suc 0) (Suc 0) i j = 0"
  by (simp add: bilinear_2d_def Let_def local_coord_one_sample interpolant_0 ramp2_def lerp_def)

lemma trilinear_3d_one_sample:
  "0 < r0 \<Longrightarrow> 0 < r1 \<Longrightarrow> 0 < r2 \<Longrightarrow> i \<le> 2 ^ 53 \<Longrightarrow> j \<le> 2 ^ 53 \<Longrightarrow> l \<le> 2 ^ 53 \<Longrightarrow>
   trilinear_3d G interpolant r0 r1 r2 (Suc 0) (Suc 0) (Suc 0) i j l = 0"
  by (simp add: trilinear_3d_def Let_def local_coord_one_sample interpolant_0 ramp3_def lerp_def)

lemma noise_field_2d_res_eq_shape:
  assumes "valid_2d shp shp tileable" "list_all (\<lambda>n. n \<le> 2 ^ 53) shp"
  shows "noise_field_2d shp shp tileable interpolant g = arr2 (nat (shp ! 0)) (nat (shp ! 1)) (\<lambda>i j. 0)"
proof -
  from assms obtain s0 s1 where shp: "shp = [s0, s1]" and pos: "0 < s0" "0 < s1"
    and bnd: "s0 \<le> 2 ^ 53" "s1 \<le> 2 ^ 53"
    by (auto simp: valid_2d_def list_all2_Cons1 length_Suc_conv numeral_2_eq_2)
  have nb: "nat s0 \<le> 2 ^ 53" "nat s1 \<le> 2 ^ 53"
    using bnd by (simp_all add: nat_le_iff)
  have z: "bilinear_2d G interpolant (nat s0) (nat s1) (Suc 0) (Suc 0) i j = 0"
    if "i < nat s0" "j < nat s1" for G i j
  proof (rule bilinear_2d_one_sample)
    show "i \<le> 2 ^ 53" using that(1) nb(1) by linarith
    show "j \<le> 2 ^ 53" using that(2) nb(2) by linarith
  qed (use pos in simp_all)
  show ?thesis
    using pos by (simp add: noise_field_2d_def shp Let_def z)
qed

lemma noise_field_3d_res_eq_shape:
  assumes "valid_3d shp shp tileable" "list_all (\<lambda>n. n \<le> 2 ^ 53) shp"
  shows "noise_field_3d shp shp tileable interpolant g =
           arr3 (nat (shp ! 0)) (nat (shp ! 1)) (nat (shp ! 2)) (\<lambda>i j l. 0)"
proof -
  from assms obtain s0 s1 s2 where shp: "shp = [s0, s1, s2]" and pos: "0 < s0" "0 < s1" "0 < s2"
    and bnd: "s0 \<le> 2 ^ 53" "s1 \<le> 2 ^ 53" "s2 \<le> 2 ^ 53"
    by (auto simp: valid_3d_def list_all2_Cons1 length_Suc_conv numeral_3_eq_3)
  have nb: "nat s0 \<le> 2 ^ 53" "nat s1 \<le> 2 ^ 53" "nat s2 \<le> 2 ^ 53"
    using bnd by (simp_all add: nat_le_iff)
  have z: "trilinear_3d G interpolant (nat s0) (nat s1) (nat s2) (Suc 0) (Suc 0) (Suc 0) i j l = 0"
    if "i < nat s0" "j < nat s1" "l < nat s2" for G i j l
  proof (rule trilinear_3d_one_sample)
    show "i \<le> 2 ^ 53" using that(1) nb(1) by linarith
    show "j \<le> 2 ^ 53" using that(2) nb(2) by linarith
    show "l \<le> 2 ^ 53" using that(3) nb(3) by linarith
  qed (use pos in simp_all)
  show ?thesis
    using pos by (simp add: noise_field_3d_def shp Let_def z)
qed






lemma with_rng_simps [simp]:
  "with_rng h (Inl e) = Inl e" "with_rng h (Inr (a, g')) = Inr (a, h\<lparr>pos := pos g'\<rparr>)"
  by (simp_all add: with_rng_def)

lemma flat_index_bound_aux:
  "in_bounds s idx \<Longrightarrow> foldl (\<lambda>acc (n, i). acc * n + i) a (zip s idx) < Suc a * prod_list s"
proof (induction s arbitrary: idx a)
  case Nil
  then show ?case by (simp add: in_bounds_def)
next
  case (Cons n s)
  from Cons.prems obtain i idx' where idx: "idx = i # idx'" and i: "i < n" and r: "in_bounds s idx'"
    by (auto simp: in_bounds_def list_all2_Cons2)
  have "foldl (\<lambda>acc (n, i). acc * n + i) (a * n + i) (zip s idx') < Suc (a * n + i) * prod_list s"
    by (rule Cons.IH [OF r])
  also have "Suc (a * n + i) \<le> Suc a * n" using i by simp
  then have "Suc (a * n + i) * prod_list s \<le> Suc a * n * prod_list s" by (rule mult_le_mono1)
  finally have "foldl (\<lambda>acc (n, i). acc * n + i) (a * n + i) (zip s idx') < Suc a * n * prod_list s" .
  moreover have "foldl (\<lambda>acc (n, i). acc * n + i) a (zip (n # s) idx) =
      foldl (\<lambda>acc (n, i). acc * n + i) (a * n + i) (zip s idx')"
    by (simp add: idx)
  moreover have "Suc a * prod_list (n # s) = Suc a * n * prod_list s"
    by (simp only: prod_list.Cons mult.assoc)
  ultimately show ?case by (simp only:)
qed

lemma flat_index_bound: "in_bounds s idx \<Longrightarrow> flat_index s idx < prod_list s"
  using flat_index_bound_aux [of s idx 0] by (simp add: flat_index_def)

lemma np_random_rand_same_draws:
  assumes "same_draws g h (prod_list (map nat dims))"
  shows "np_random_rand dims h = with_rng h (np_random_rand dims g)"
proof -
  have "tabulate (map nat dims) (\<lambda>idx. draws h (pos h + flat_index (map nat dims) idx)) =
        tabulate (map nat dims) (\<lambda>idx. draws g (pos g + flat_index (map nat dims) idx))"
  proof (rule tabulate_eqI)
    fix idx assume "in_bounds (map nat dims) idx"
    then have "flat_index (map nat dims) idx < prod_list (map nat dims)" by (rule flat_index_bound)
    with assms show "draws h (pos h + flat_index (map nat dims) idx) =
        draws g (pos g + flat_index (map nat dims) idx)"
      unfolding same_draws_def by metis
  qed
  then show ?thesis
    using assms by (simp add: np_random_rand_def same_draws_def Let_def)
qed

lemma np_random_rand_rng:
  "np_random_rand dims g = Inr (a, g') \<Longrightarrow> g' = g\<lparr>pos := pos g + prod_list (map nat dims)\<rparr>"
  by (auto simp: np_random_rand_def Let_def split: if_splits)

lemma gradient_lattice_2d_same_draws:
  assumes "same_draws g h (nat (res0 + 1) * nat (res1 + 1))"
  shows "gradient_lattice_2d res0 res1 tileable h = with_rng h (gradient_lattice_2d res0 res1 tileable g)"
proof -
  have "same_draws g h (prod_list (map nat [res0 + 1, res1 + 1]))"
    using assms by simp
  from np_random_rand_same_draws [OF this] show ?thesis
    unfolding gradient_lattice_2d_def
    by (auto simp: pbind_def Let_def split: sum.splits)
qed

lemma gradient_lattice_2d_rng:
  "gradient_lattice_2d res0 res1 tileable g = Inr (G, g') \<Longrightarrow>
   g' = g\<lparr>pos := pos g + nat (res0 + 1) * nat (res1 + 1)\<rparr>"
  unfolding gradient_lattice_2d_def
  by (auto simp: pbind_def Let_def split: sum.splits dest!: np_random_rand_rng)

lemma pbind_with_rng:
  "(\<And>x. k' x = with_rng h (k x)) \<Longrightarrow> pbind m k' = with_rng h (pbind m k)"
  by (cases m) simp_all

lemma perlin_2d_same_draws:
  assumes "same_draws g h (draw_count_2d res)"
  shows "generate_perlin_noise_2d shp res tileable f h =
         with_rng h (generate_perlin_noise_2d shp res tileable f g)"
proof -
  have lat: "gradient_lattice_2d (res ! 0) (res ! 1) tileable h =
      with_rng h (gradient_lattice_2d (res ! 0) (res ! 1) tileable g)"
    using assms by (intro gradient_lattice_2d_same_draws) (simp add: draw_count_2d_def)
  show ?thesis
  proof (cases "2 \<le> length res")
    case False
    then show ?thesis
      by (auto simp: generate_perlin_noise_2d_def tuple_get_def pbind_def split: sum.splits)
  next
    case True
    then have tg: "tuple_get res 0 = Inr (res ! 0)" "tuple_get res 1 = Inr (res ! 1)"
      by (auto simp: tuple_get_def)
    show ?thesis
      unfolding generate_perlin_noise_2d_def tg pbind_Inr Let_def
      apply (intro pbind_with_rng)
      apply (simp only: lat)
      apply (cases "gradient_lattice_2d (res ! 0) (res ! 1) tileable g")
       apply simp
      apply (simp only: with_rng_simps pbind_Inr split_paired_all prod.case)
      apply (intro pbind_with_rng)
      apply (simp only: split_paired_all prod.case)
      apply (intro pbind_with_rng)
      apply simp
      done
  qed
qed

lemma pbind_InrE:
  assumes "pbind m k = Inr r"
  obtains x where "m = Inr x" "k x = Inr r"
  using assms by (cases m) simp_all

lemma same_draws_mono: "same_draws g h (a + b) \<Longrightarrow> same_draws g h a"
  by (auto simp: same_draws_def)

lemma same_draws_shift:
  "same_draws g h (a + b) \<Longrightarrow> same_draws (g\<lparr>pos := pos g + a\<rparr>) (h\<lparr>pos := pos g + a\<rparr>) b"
  by (simp add: same_draws_def) (metis add.assoc add.commute nat_add_left_cancel_less)

lemma with_rng_idem [simp]: "with_rng (h\<lparr>pos := p\<rparr>) r = with_rng h r"
  by (cases r) (auto simp: with_rng_def)

lemma map_sum_with_rng [simp]: "map_sum id fst (with_rng h r) = map_sum id fst r"
  by (cases r) (auto simp: with_rng_def)

lemma perlin_2d_rng:
  assumes "generate_perlin_noise_2d shp res tileable f g = Inr (F, g')"
  shows "g' = g\<lparr>pos := pos g + draw_count_2d res\<rparr>"
  using assms unfolding generate_perlin_noise_2d_def Let_def
  apply (elim pbind_InrE)
  apply (simp only: split_paired_all prod.case)
  apply (elim pbind_InrE)
  apply (simp only: split_paired_all prod.case)
  apply (elim pbind_InrE)
  apply (auto simp: draw_count_2d_def tuple_get_def split: if_splits dest!: gradient_lattice_2d_rng)
  done

lemma fractal_loop_2d_same_draws:
  "same_draws g h (fractal_draw_count_2d n res lacunarity frequency) \<Longrightarrow>
   fractal_loop_2d n shp res persistence lacunarity tileable f noise frequency amplitude h =
   with_rng h (fractal_loop_2d n shp res persistence lacunarity tileable f noise frequency amplitude g)"
proof (induction n arbitrary: noise frequency amplitude g h)
  case 0
  then show ?case by (simp add: same_draws_def)
next
  case (Suc n)
  show ?case
  proof (cases "2 \<le> length res")
    case False
    then show ?thesis
      by (auto simp: tuple_get_def pbind_def split: sum.splits)
  next
    case True
    then have tg: "tuple_get res 0 = Inr (res ! 0)" "tuple_get res (Suc 0) = Inr (res ! Suc 0)"
      by (auto simp: tuple_get_def)
    let ?r = "[frequency * res ! 0, frequency * res ! Suc 0]"
    have sd: "same_draws g h (draw_count_2d ?r + fractal_draw_count_2d n res lacunarity (frequency * lacunarity))"
      using Suc.prems by simp
    have ev: "generate_perlin_noise_2d shp ?r tileable f h =
        with_rng h (generate_perlin_noise_2d shp ?r tileable f g)"
      by (rule perlin_2d_same_draws [OF same_draws_mono [OF sd]])
    show ?thesis
    proof (cases "generate_perlin_noise_2d shp ?r tileable f g")
      case (Inl e)
      then show ?thesis by (simp add: tg ev)
    next
      case (Inr p)
      obtain F g' where p: "p = (F, g')" by (cases p)
      have g': "g' = g\<lparr>pos := pos g + draw_count_2d ?r\<rparr>"
        using Inr unfolding p by (rule perlin_2d_rng)
      have "same_draws g' (h\<lparr>pos := pos g'\<rparr>) (fractal_draw_count_2d n res lacunarity (frequency * lacunarity))"
        using same_draws_shift [OF sd] by (simp add: g')
      from Suc.IH [OF this]
      have IH: "fractal_loop_2d n shp res persistence lacunarity tileable f noise' (frequency * lacunarity)
            amplitude' (h\<lparr>pos := pos g'\<rparr>) =
          with_rng h (fractal_loop_2d n shp res persistence lacunarity tileable f noise'
            (frequency * lacunarity) amplitude' g')" for noise' amplitude'
        by simp
      show ?thesis
        by (simp add: tg ev Inr p IH pbind_with_rng)
    qed
  qed
qed

lemma gradient_lattice_3d_rng:
  "gradient_lattice_3d res0 res1 res2 tileable g = Inr (G, g') \<Longrightarrow>
   g' = g\<lparr>pos := pos g + 2 * (nat (res0 + 1) * (nat (res1 + 1) * nat (res2 + 1)))\<rparr>"
  unfolding gradient_lattice_3d_def Let_def
  apply (elim pbind_InrE)
  apply (simp only: split_paired_all prod.case)
  apply (elim pbind_InrE)
  apply (simp only: split_paired_all prod.case)
  apply (elim pbind_InrE)
  apply (auto dest!: np_random_rand_rng)
  done

lemma gradient_lattice_3d_same_draws:
  assumes "same_draws g h (2 * (nat (res0 + 1) * (nat (res1 + 1) * nat (res2 + 1))))"
  shows "gradient_lattice_3d res0 res1 res2 tileable h =
         with_rng h (gradient_lattice_3d res0 res1 res2 tileable g)"
proof -
  let ?dims = "[res0 + 1, res1 + 1, res2 + 1]"
  let ?N = "nat (res0 + 1) * (nat (res1 + 1) * nat (res2 + 1))"
  have N: "prod_list (map nat ?dims) = ?N" by simp
  have sd: "same_draws g h (?N + ?N)" using assms by (simp only: mult_2)
  have r1: "np_random_rand ?dims h = with_rng h (np_random_rand ?dims g)"
    by (rule np_random_rand_same_draws) (use same_draws_mono [OF sd] N in simp)
  show ?thesis
  proof (cases "np_random_rand ?dims g")
    case (Inl e)
    then show ?thesis by (simp add: gradient_lattice_3d_def r1)
  next
    case (Inr p)
    obtain a g1 where p: "p = (a, g1)" by (cases p)
    have g1: "g1 = g\<lparr>pos := pos g + ?N\<rparr>"
      using np_random_rand_rng [OF Inr [unfolded p]] N by simp
    have "same_draws g1 (h\<lparr>pos := pos g1\<rparr>) (prod_list (map nat ?dims))"
      using same_draws_shift [OF sd] by (simp add: g1)
    from np_random_rand_same_draws [OF this]
    have r2: "np_random_rand ?dims (h\<lparr>pos := pos g1\<rparr>) = with_rng h (np_random_rand ?dims g1)"
      by simp
    show ?thesis
      unfolding gradient_lattice_3d_def r1 Inr p with_rng_simps pbind_Inr prod.case Let_def r2
      apply (cases "np_random_rand ?dims g1")
       apply simp
      apply (simp only: with_rng_simps pbind_Inr split_paired_all prod.case)
      apply (intro pbind_with_rng)
      apply simp
      done
  qed
qed

lemma perlin_3d_same_draws:
  assumes "same_draws g h (draw_count_3d res)"
  shows "generate_perlin_noise_3d shp res tileable f h =
         with_rng h (generate_perlin_noise_3d shp res tileable f g)"
proof -
  have lat: "gradient_lattice_3d (res ! 0) (res ! 1) (res ! 2) tileable h =
      with_rng h (gradient_lattice_3d (res ! 0) (res ! 1) (res ! 2) tileable g)"
    using assms by (intro gradient_lattice_3d_same_draws) (simp add: draw_count_3d_def)
  show ?thesis
  proof (cases "3 \<le> length res")
    case False
    then show ?thesis
      by (auto simp: generate_perlin_noise_3d_def tuple_get_def pbind_def split: sum.splits)
  next
    case True
    then have tg: "tuple_get res 0 = Inr (res ! 0)" "tuple_get res 1 = Inr (res ! 1)"
       "tuple_get res 2 = Inr (res ! 2)"
      by (auto simp: tuple_get_def)
    show ?thesis
      unfolding generate_perlin_noise_3d_def tg pbind_Inr Let_def
      apply (intro pbind_with_rng)
      apply (simp only: lat)
      apply (cases "gradient_lattice_3d (res ! 0) (res ! 1) (res ! 2) tileable g")
       apply simp
      apply (simp only: with_rng_simps pbind_Inr split_paired_all prod.case)
      apply (intro pbind_with_rng)
      apply simp
      done
  qed
qed

lemma perlin_3d_rng:
  assumes "generate_perlin_noise_3d shp res tileable f g = Inr (F, g')"
  shows "g' = g\<lparr>pos := pos g + draw_count_3d res\<rparr>"
  using assms unfolding generate_perlin_noise_3d_def Let_def
  apply (elim pbind_InrE)
  apply (simp only: split_paired_all prod.case)
  apply (elim pbind_InrE)
  apply (auto simp: draw_count_3d_def tuple_get_def split: if_splits dest!: gradient_lattice_3d_rng)
  done

lemma fractal_loop_3d_same_draws:
  "same_draws g h (fractal_draw_count_3d n res lacunarity frequency) \<Longrightarrow>
   fractal_loop_3d n shp res persistence lacunarity tileable f noise frequency amplitude h =
   with_rng h (fractal_loop_3d n shp res persistence lacunarity tileable f noise frequency amplitude g)"
proof (induction n arbitrary: noise frequency amplitude g h)
  case 0
  then show ?case by (simp add: same_draws_def)
next
  case (Suc n)
  show ?case
  proof (cases "3 \<le> length res")
    case False
    then show ?thesis
      by (auto simp: tuple_get_def pbind_def split: sum.splits)
  next
    case True
    then have tg: "tuple_get res 0 = Inr (res ! 0)" "tuple_get res (Suc 0) = Inr (res ! Suc 0)"
        "tuple_get res 2 = Inr (res ! 2)"
      by (auto simp: tuple_get_def)
    let ?r = "[frequency * res ! 0, frequency * res ! Suc 0, frequency * res ! 2]"
    have sd: "same_draws g h (draw_count_3d ?r + fractal_draw_count_3d n res lacunarity (frequency * lacunarity))"
      using Suc.prems by simp
    have ev: "generate_perlin_noise_3d shp ?r tileable f h =
        with_rng h (generate_perlin_noise_3d shp ?r tileable f g)"
      by (rule perlin_3d_same_draws [OF same_draws_mono [OF sd]])
    show ?thesis
    proof (cases "generate_perlin_noise_3d shp ?r tileable f g")
      case (Inl e)
      then show ?thesis by (simp add: tg ev)
    next
      case (Inr p)
      obtain F g' where p: "p = (F, g')" by (cases p)
      have g': "g' = g\<lparr>pos := pos g + draw_count_3d ?r\<rparr>"
        using Inr unfolding p by (rule perlin_3d_rng)
      have "same_draws g' (h\<lparr>pos := pos g'\<rparr>) (fractal_draw_count_3d n res lacunarity (frequency * lacunarity))"
        using same_draws_shift [OF sd] by (simp add: g')
      from Suc.IH [OF this]
      have IH: "fractal_loop_3d n shp res persistence lacunarity tileable f noise' (frequency * lacunarity)
            amplitude' (h\<lparr>pos := pos g'\<rparr>) =
          with_rng h (fractal_loop_3d n shp res persistence lacunarity tileable f noise'
            (frequency * lacunarity) amplitude' g')" for noise' amplitude'
        by simp
      show ?thesis
        by (simp add: tg ev Inr p IH pbind_with_rng)
    qed
  qed
qed

lemmas np_defs = np_zeros_def np_map_def np_binop_def np_mul_def np_add_def np_iadd_def np_mgrid_def
  np_transpose_def np_random_rand_def np_stack_last_def assign_last_from_first_def np_repeat_def
  np_slice_def np_select_last_def np_sum_last_def broadcast_shapes_def slice_range_def slice_bound_def
  tuple_get_def py_truediv_def py_floordiv_def

lemmas perlin_2d_defs = generate_perlin_noise_2d_def gradient_lattice_2d_def corner_gradients_2d_def
  ramp_2d_def blend_first_def blend_rest_def

lemmas perlin_3d_defs = generate_perlin_noise_3d_def gradient_lattice_3d_def corner_gradients_3d_def
  ramp_3d_def blend_first_def blend_rest_def

lemma np_zeros_ok: "list_all (\<lambda>n. 0 \<le> n) shp \<Longrightarrow> np_zeros shp = Inr (tabulate (map nat shp) (\<lambda>idx. 0))"
proof -
  assume "list_all (\<lambda>n. 0 \<le> n) shp"
  then have "\<not> list_ex (\<lambda>n. n < 0) shp" by (induction shp) auto
  then show ?thesis by (simp add: np_zeros_def)
qed

lemma perlin_2d_zero_res:
  assumes "length shp = 2" "list_all (\<lambda>n. 0 < n) shp" "length res = 2" "res ! 0 = 0 \<or> res ! 1 = 0"
  shows "generate_perlin_noise_2d shp res tileable f g = Inl ZeroDivisionError"
proof -
  from assms obtain s0 s1 r0 r1 where *: "shp = [s0, s1]" "res = [r0, r1]" "0 < s0" "0 < s1"
      "r0 = 0 \<or> r1 = 0"
    by (auto simp: length_Suc_conv numeral_2_eq_2)
  then show ?thesis
    by (auto simp: generate_perlin_noise_2d_def tuple_get_def py_truediv_def py_floordiv_def)
qed

lemma perlin_3d_zero_res:
  assumes "length shp = 3" "list_all (\<lambda>n. 0 < n) shp" "length res = 3"
    "res ! 0 = 0 \<or> res ! 1 = 0 \<or> res ! 2 = 0"
  shows "generate_perlin_noise_3d shp res tileable f g = Inl ZeroDivisionError"
proof -
  from assms obtain s0 s1 s2 r0 r1 r2 where *: "shp = [s0, s1, s2]" "res = [r0, r1, r2]"
      "0 < s0" "0 < s1" "0 < s2" "r0 = 0 \<or> r1 = 0 \<or> r2 = 0"
    by (auto simp: length_Suc_conv numeral_3_eq_3)
  then show ?thesis
    by (auto simp: generate_perlin_noise_3d_def tuple_get_def py_truediv_def py_floordiv_def)
qed

lemma fractal_2d_zero_res:
  assumes "0 < octaves" "length shp = 2" "list_all (\<lambda>n. 0 < n) shp" "length res = 2"
    "res ! 0 = 0 \<or> res ! 1 = 0"
  shows "generate_fractal_noise_2d shp res octaves persistence lacunarity tileable f g =
         Inl ZeroDivisionError"
proof -
  from assms(1) obtain n where n: "nat octaves = Suc n" by (cases "nat octaves") auto
  have z: "np_zeros shp = Inr (tabulate (map nat shp) (\<lambda>idx. 0))"
    using assms(3) by (intro np_zeros_ok) (induction shp, auto)
  from assms(4) obtain r0 r1 where res: "res = [r0, r1]"
    by (auto simp: length_Suc_conv numeral_2_eq_2)
  have "generate_perlin_noise_2d shp [1 * r0, 1 * r1] tileable f g = Inl ZeroDivisionError"
    using assms by (intro perlin_2d_zero_res) (simp_all add: res)
  then show ?thesis
    by (simp add: generate_fractal_noise_2d_def z n res tuple_get_def)
qed

lemma fractal_3d_zero_res:
  assumes "0 < octaves" "length shp = 3" "list_all (\<lambda>n. 0 < n) shp" "length res = 3"
    "res ! 0 = 0 \<or> res ! 1 = 0 \<or> res ! 2 = 0"
  shows "generate_fractal_noise_3d shp res octaves persistence lacunarity tileable f g =
         Inl ZeroDivisionError"
proof -
  from assms(1) obtain n where n: "nat octaves = Suc n" by (cases "nat octaves") auto
  have z: "np_zeros shp = Inr (tabulate (map nat shp) (\<lambda>idx. 0))"
    using assms(3) by (intro np_zeros_ok) (induction shp, auto)
  from assms(4) obtain r0 r1 r2 where res: "res = [r0, r1, r2]"
    by (auto simp: length_Suc_conv numeral_3_eq_3)
  have "generate_perlin_noise_3d shp [1 * r0, 1 * r1, 1 * r2] tileable f g = Inl ZeroDivisionError"
    using assms by (intro perlin_3d_zero_res) (simp_all add: res)
  then show ?thesis
    by (simp add: generate_fractal_noise_3d_def z n res tuple_get_def)
qed

lemma fractal_2d_short_res:
  assumes "0 < octaves" "list_all (\<lambda>n. 0 \<le> n) shp" "length res < 2"
  shows "generate_fractal_noise_2d shp res octaves persistence lacunarity tileable f g = Inl IndexError"
proof -
  from assms(1) obtain n where n: "nat octaves = Suc n" by (cases "nat octaves") auto
  show ?thesis
    using assms(3)
    by (auto simp: generate_fractal_noise_2d_def np_zeros_ok [OF assms(2)] n tuple_get_def)
qed

lemma fractal_3d_short_res:
  assumes "0 < octaves" "list_all (\<lambda>n. 0 \<le> n) shp" "length res < 3"
  shows "generate_fractal_noise_3d shp res octaves persistence lacunarity tileable f g = Inl IndexError"
proof -
  from assms(1) obtain n where n: "nat octaves = Suc n" by (cases "nat octaves") auto
  show ?thesis
    using assms(3)
    by (auto simp: generate_fractal_noise_3d_def np_zeros_ok [OF assms(2)] n tuple_get_def
          pbind_def split: sum.splits)
qed

lemma tuple_get_append: "i < length xs \<Longrightarrow> tuple_get (xs @ ys) i = tuple_get xs i"
  by (simp add: tuple_get_def nth_append)

lemma tuple_get_append_0: "Suc k \<le> length xs \<Longrightarrow> tuple_get (xs @ ys) 0 = tuple_get xs 0"
  by (rule tuple_get_append) auto

lemma gradient_lattice_2d_extra:
  "2 \<le> length tileable \<Longrightarrow>
   gradient_lattice_2d res0 res1 (tileable @ extra) g = gradient_lattice_2d res0 res1 tileable g"
  by (simp add: gradient_lattice_2d_def tuple_get_append tuple_get_append_0 [of 1])

lemma gradient_lattice_3d_extra:
  "3 \<le> length tileable \<Longrightarrow>
   gradient_lattice_3d res0 res1 res2 (tileable @ extra) g = gradient_lattice_3d res0 res1 res2 tileable g"
  by (simp add: gradient_lattice_3d_def tuple_get_append tuple_get_append_0 [of 2])

lemma perlin_2d_extra_tileable:
  "2 \<le> length tileable \<Longrightarrow>
   generate_perlin_noise_2d shp res (tileable @ extra) f g = generate_perlin_noise_2d shp res tileable f g"
  by (simp add: generate_perlin_noise_2d_def gradient_lattice_2d_extra)

lemma perlin_3d_extra_tileable:
  "3 \<le> length tileable \<Longrightarrow>
   generate_perlin_noise_3d shp res (tileable @ extra) f g = generate_perlin_noise_3d shp res tileable f g"
  by (simp add: generate_perlin_noise_3d_def gradient_lattice_3d_extra)

lemma fractal_loop_2d_extra:
  "2 \<le> length res \<Longrightarrow> 2 \<le> length tileable \<Longrightarrow>
   fractal_loop_2d n shp (res @ extra) persistence lacunarity (tileable @ extra') f noise frequency amplitude g =
   fractal_loop_2d n shp res persistence lacunarity tileable f noise frequency amplitude g"
  by (induction n arbitrary: noise frequency amplitude g)
     (simp_all add: tuple_get_append tuple_get_append_0 [of 1] perlin_2d_extra_tileable)

lemma fractal_loop_3d_extra:
  "3 \<le> length res \<Longrightarrow> 3 \<le> length tileable \<Longrightarrow>
   fractal_loop_3d n shp (res @ extra) persistence lacunarity (tileable @ extra') f noise frequency amplitude g =
   fractal_loop_3d n shp res persistence lacunarity tileable f noise frequency amplitude g"
  by (induction n arbitrary: noise frequency amplitude g)
     (simp_all add: tuple_get_append tuple_get_append_0 [of 2] perlin_3d_extra_tileable)

lemma fractal_2d_extra:
  "2 \<le> length res \<Longrightarrow> 2 \<le> length tileable \<Longrightarrow>
   generate_fractal_noise_2d shp (res @ extra) octaves persistence lacunarity (tileable @ extra') f g =
   generate_fractal_noise_2d shp res octaves persistence lacunarity tileable f g"
  by (simp add: generate_fractal_noise_2d_def fractal_loop_2d_extra)

lemma fractal_3d_extra:
  "3 \<le> length res \<Longrightarrow> 3 \<le> length tileable \<Longrightarrow>
   generate_fractal_noise_3d shp (res @ extra) octaves persistence lacunarity (tileable @ extra') f g =
   generate_fractal_noise_3d shp res octaves persistence lacunarity tileable f g"
  by (simp add: generate_fractal_noise_3d_def fractal_loop_3d_extra)

lemma perlin_2d_negative_res:
  assumes "length shp = 2" "list_all (\<lambda>n. 0 < n) shp" "length res = 2" "list_all (\<lambda>n. n \<noteq> 0) res"
    "res ! 0 < - 1 \<or> res ! 1 < - 1"
  shows "generate_perlin_noise_2d shp res tileable f g = Inl ValueError"
proof -
  from assms obtain s0 s1 r0 r1 where *: "shp = [s0, s1]" "res = [r0, r1]" "0 < s0" "0 < s1"
      "r0 \<noteq> 0" "r1 \<noteq> 0" "r0 < - 1 \<or> r1 < - 1"
    by (auto simp: length_Suc_conv numeral_2_eq_2)
  then have m: "\<exists>a. np_mgrid [(r0, int_truediv r0 s0), (r1, int_truediv r1 s1)] = Inr a"
    using np_mgrid_2 [of "int_truediv r0 s0" "int_truediv r1 s1" r0 r1]
    by (simp add: int_truediv_nonzero_gen mgrid_count_nonneg)
  have r: "gradient_lattice_2d r0 r1 tileable g = Inl ValueError"
    using * by (auto simp: gradient_lattice_2d_def np_random_rand_def pbind_def)
  from m obtain a where a: "np_mgrid [(r0, int_truediv r0 s0), (r1, int_truediv r1 s1)] = Inr a"
    by blast
  show ?thesis
    using * by (simp add: generate_perlin_noise_2d_def tuple_get_def py_truediv_def py_floordiv_def a r pbind_def Let_def)
qed

lemma perlin_3d_negative_res:
  assumes "length shp = 3" "list_all (\<lambda>n. 0 < n) shp" "length res = 3" "list_all (\<lambda>n. n \<noteq> 0) res"
    "res ! 0 < - 1 \<or> res ! 1 < - 1 \<or> res ! 2 < - 1"
  shows "generate_perlin_noise_3d shp res tileable f g = Inl ValueError"
proof -
  from assms obtain s0 s1 s2 r0 r1 r2 where *: "shp = [s0, s1, s2]" "res = [r0, r1, r2]"
      "0 < s0" "0 < s1" "0 < s2" "r0 \<noteq> 0" "r1 \<noteq> 0" "r2 \<noteq> 0" "r0 < - 1 \<or> r1 < - 1 \<or> r2 < - 1"
    by (auto simp: length_Suc_conv numeral_3_eq_3)
  then have m: "\<exists>a. np_mgrid [(r0, int_truediv r0 s0), (r1, int_truediv r1 s1),
                     (r2, int_truediv r2 s2)] = Inr a"
    using np_mgrid_3 [of "int_truediv r0 s0" "int_truediv r1 s1" "int_truediv r2 s2" r0 r1 r2]
    by (simp add: int_truediv_nonzero_gen mgrid_count_nonneg)
  have r: "gradient_lattice_3d r0 r1 r2 tileable g = Inl ValueError"
    using * by (auto simp: gradient_lattice_3d_def np_random_rand_def pbind_def)
  from m obtain a where a: "np_mgrid [(r0, int_truediv r0 s0), (r1, int_truediv r1 s1),
                     (r2, int_truediv r2 s2)] = Inr a"
    by blast
  show ?thesis
    using * by (simp add: generate_perlin_noise_3d_def tuple_get_def py_truediv_def py_floordiv_def a r pbind_def Let_def)
qed

lemma fractal_2d_negative_res:
  assumes "0 < octaves" "length shp = 2" "list_all (\<lambda>n. 0 < n) shp" "length res = 2"
    "list_all (\<lambda>n. n \<noteq> 0) res" "res ! 0 < - 1 \<or> res ! 1 < - 1"
  shows "generate_fractal_noise_2d shp res octaves persistence lacunarity tileable f g =
         Inl ValueError"
proof -
  from assms(1) obtain n where n: "nat octaves = Suc n" by (cases "nat octaves") auto
  have z: "np_zeros shp = Inr (tabulate (map nat shp) (\<lambda>idx. 0))"
    using assms(3) by (intro np_zeros_ok) (induction shp, auto)
  from assms(4) obtain r0 r1 where res: "res = [r0, r1]"
    by (auto simp: length_Suc_conv numeral_2_eq_2)
  have "generate_perlin_noise_2d shp [1 * r0, 1 * r1] tileable f g = Inl ValueError"
    using assms by (intro perlin_2d_negative_res) (simp_all add: res)
  then show ?thesis
    by (simp add: generate_fractal_noise_2d_def z n res tuple_get_def)
qed

lemma fractal_3d_negative_res:
  assumes "0 < octaves" "length shp = 3" "list_all (\<lambda>n. 0 < n) shp" "length res = 3"
    "list_all (\<lambda>n. n \<noteq> 0) res" "res ! 0 < - 1 \<or> res ! 1 < - 1 \<or> res ! 2 < - 1"
  shows "generate_fractal_noise_3d shp res octaves persistence lacunarity tileable f g =
         Inl ValueError"
proof -
  from assms(1) obtain n where n: "nat octaves = Suc n" by (cases "nat octaves") auto
  have z: "np_zeros shp = Inr (tabulate (map nat shp) (\<lambda>idx. 0))"
    using assms(3) by (intro np_zeros_ok) (induction shp, auto)
  from assms(4) obtain r0 r1 r2 where res: "res = [r0, r1, r2]"
    by (auto simp: length_Suc_conv numeral_3_eq_3)
  have "generate_perlin_noise_3d shp [1 * r0, 1 * r1, 1 * r2] tileable f g = Inl ValueError"
    using assms by (intro perlin_3d_negative_res) (simp_all add: res)
  then show ?thesis
    by (simp add: generate_fractal_noise_3d_def z n res tuple_get_def)
qed


section \<open>The claims\<close>

text \<open>
  C10. With \<open>octaves = 0\<close> the fractal generators of both dimensions raise no error and
  return the all-zero field of the given shape (any shape whose entries are not negative,
  as \<^verbatim>\<open>np.zeros\<close> requires); the loop body is never run, so the generator state is
  returned as it was passed in: no draw is consumed.
\<close>

theorem fractal_zero_octaves:
  assumes "list_all (\<lambda>n. 0 \<le> n) shp"
  shows "generate_fractal_noise_2d shp res 0 persistence lacunarity tileable f g =
           Inr (tabulate (map nat shp) (\<lambda>idx. 0), g) \<and>
         generate_fractal_noise_3d shp res 0 persistence lacunarity tileable f g =
           Inr (tabulate (map nat shp) (\<lambda>idx. 0), g)"
  using fractal_2d_no_octaves [OF assms, of 0] fractal_3d_no_octaves [OF assms, of 0] by simp

theorem fractal_zero_octaves_witness:
  "list_all (\<lambda>n. 0 \<le> n) [4, 4 :: int] \<and>
   generate_fractal_noise_2d [4, 4] [2, 2] 0 (1 / 2) 2 [False, False] interpolant
       \<lparr>draws = (\<lambda>k. 0), pos = 0\<rparr> =
     Inr (tabulate (map nat [4, 4]) (\<lambda>idx. 0), \<lparr>draws = (\<lambda>k. 0), pos = 0\<rparr>) \<and>
   generate_fractal_noise_3d [4, 4] [2, 2] 0 (1 / 2) 2 [False, False] interpolant
       \<lparr>draws = (\<lambda>k. 0), pos = 0\<rparr> =
     Inr (tabulate (map nat [4, 4]) (\<lambda>idx. 0), \<lparr>draws = (\<lambda>k. 0), pos = 0\<rparr>)"
proof -
  have h: "list_all (\<lambda>n. 0 \<le> n) [4, 4 :: int]" by simp
  show ?thesis
    using h fractal_zero_octaves [OF h, of "[2, 2]" "1 / 2" 2 "[False, False]" interpolant
        "\<lparr>draws = (\<lambda>k. 0), pos = 0\<rparr>"]
    by blast
qed

text \<open>
  C2. On valid input (every shape entry a positive multiple of its resolution entry) and
  from the same generator state, the fractal generator with \<open>octaves = 1\<close> returns exactly
  what a direct call of the evaluator returns: the same field and generator state, or the
  same exception; in two and in three dimensions.
\<close>

theorem fractal_one_octave:
  "(valid_2d shp res tileable \<longrightarrow>
      generate_fractal_noise_2d shp res 1 persistence lacunarity tileable f g =
      generate_perlin_noise_2d shp res tileable f g) \<and>
   (valid_3d shp3 res3 tileable3 \<longrightarrow>
      generate_fractal_noise_3d shp3 res3 1 persistence lacunarity tileable3 f g =
      generate_perlin_noise_3d shp3 res3 tileable3 f g)"
  by (simp add: fractal_2d_one_octave fractal_3d_one_octave)

theorem fractal_one_octave_witness:
  "valid_2d [4, 4] [2, 2] [False, False] \<and>
   generate_fractal_noise_2d [4, 4] [2, 2] 1 (1 / 2) 2 [False, False] interpolant \<lparr>draws = (\<lambda>k. 0), pos = 0\<rparr> =
   generate_perlin_noise_2d [4, 4] [2, 2] [False, False] interpolant \<lparr>draws = (\<lambda>k. 0), pos = 0\<rparr> \<and>
   \<not> isl (generate_perlin_noise_2d [4, 4] [2, 2] [False, False] interpolant \<lparr>draws = (\<lambda>k. 0), pos = 0\<rparr>) \<and>
   valid_3d [4, 4, 4] [2, 2, 2] [False, False, False] \<and>
   generate_fractal_noise_3d [4, 4, 4] [2, 2, 2] 1 (1 / 2) 2 [False, False, False] interpolant \<lparr>draws = (\<lambda>k. 0), pos = 0\<rparr> =
   generate_perlin_noise_3d [4, 4, 4] [2, 2, 2] [False, False, False] interpolant \<lparr>draws = (\<lambda>k. 0), pos = 0\<rparr> \<and>
   \<not> isl (generate_perlin_noise_3d [4, 4, 4] [2, 2, 2] [False, False, False] interpolant \<lparr>draws = (\<lambda>k. 0), pos = 0\<rparr>)"
proof -
  have v2: "valid_2d [4, 4] [2, 2] [False, False]" by (simp add: valid_2d_def)
  have v3: "valid_3d [4, 4, 4] [2, 2, 2] [False, False, False]" by (simp add: valid_3d_def)
  have e2: "exact_grid [4, 4] [2, 2]" by (simp add: exact_grid_def sample_count_2_4)
  have e3: "exact_grid [4, 4, 4] [2, 2, 2]" by (simp add: exact_grid_def sample_count_2_4)
  have n2: "\<not> isl (generate_perlin_noise_2d [4, 4] [2, 2] [False, False] interpolant \<lparr>draws = (\<lambda>k. 0), pos = 0\<rparr>)"
    by (simp add: perlin_2d_valid [OF v2 e2])
  have n3: "\<not> isl (generate_perlin_noise_3d [4, 4, 4] [2, 2, 2] [False, False, False] interpolant \<lparr>draws = (\<lambda>k. 0), pos = 0\<rparr>)"
    by (simp add: perlin_3d_valid [OF v3 e3])
  show ?thesis
    using v2 v3 n2 n3 fractal_one_octave [of "[4, 4]" "[2, 2]" "[False, False]" "1 / 2" 2 interpolant
        "\<lparr>draws = (\<lambda>k. 0), pos = 0\<rparr>" "[4, 4, 4]" "[2, 2, 2]" "[False, False, False]"]
    by blast
qed

text \<open>
  C1. The fractal generator does not return the sum of the octaves on every valid input.
  Its docstring promises \<^verbatim>\<open>ValueError\<close> only for a shape that is not a multiple of
  \<open>lacunarity ^ (octaves - 1) * res\<close>. For shape \<open>(49, 49)\<close>, resolution \<open>(1, 1)\<close> and one
  octave, and for shape \<open>(98, 98)\<close>, resolution \<open>(1, 1)\<close>, lacunarity \<open>2\<close> and two octaves,
  the input is valid, but the first octave raises \<^verbatim>\<open>ValueError\<close> and no field is returned:
  in double precision \<^verbatim>\<open>np.mgrid\<close> generates \<open>50\<close> samples for the step \<open>1 / 49\<close> and \<open>99\<close>
  for the step \<open>1 / 98\<close>, which do not broadcast against corner arrays of \<open>49\<close> and \<open>98\<close>
  entries. The same happens in three dimensions. (Where every octave has a sample grid of
  the size of the shape, the result is the sum of the octaves: \<open>fractal_2d_sum\<close>,
  \<open>fractal_3d_sum\<close>.)
\<close>

theorem fractal_raises_on_valid_input:
  "valid_fractal_2d [49, 49] [1, 1] 1 2 [False, False] \<and>
   generate_fractal_noise_2d [49, 49] [1, 1] 1 persistence 2 [False, False] f g = Inl ValueError \<and>
   valid_fractal_2d [98, 98] [1, 1] 2 2 [False, False] \<and>
   generate_fractal_noise_2d [98, 98] [1, 1] 2 persistence 2 [False, False] f g = Inl ValueError \<and>
   valid_fractal_3d [49, 49, 49] [1, 1, 1] 1 2 [False, False, False] \<and>
   generate_fractal_noise_3d [49, 49, 49] [1, 1, 1] 1 persistence 2 [False, False, False] f g =
     Inl ValueError"
proof -
  have v: "valid_2d [49, 49] [1, 1] [False, False]" by (simp add: valid_2d_def)
  have ne: "\<not> exact_grid [49, 49] [1, 1]" by (simp add: exact_grid_def sample_count_1_49)
  have v98: "valid_2d [98, 98] [1, 1] [False, False]" by (simp add: valid_2d_def)
  have ne98: "\<not> exact_grid [98, 98] [1, 1]" by (simp add: exact_grid_def sample_count_1_98)
  have v3: "valid_3d [49, 49, 49] [1, 1, 1] [False, False, False]" by (simp add: valid_3d_def)
  have ne3: "\<not> exact_grid [49, 49, 49] [1, 1, 1]" by (simp add: exact_grid_def sample_count_1_49)
  have 1: "generate_fractal_noise_2d [49, 49] [1, 1] 1 persistence 2 [False, False] f g = Inl ValueError"
    unfolding fractal_2d_one_octave [OF v] by (rule perlin_2d_inexact [OF v ne])
  have 2: "generate_fractal_noise_2d [98, 98] [1, 1] 2 persistence 2 [False, False] f g = Inl ValueError"
    by (simp add: generate_fractal_noise_2d_def np_zeros_def tuple_get_def numeral_2_eq_2
          perlin_2d_inexact [OF v98 ne98])
  have 3: "generate_fractal_noise_3d [49, 49, 49] [1, 1, 1] 1 persistence 2 [False, False, False] f g =
      Inl ValueError"
    unfolding fractal_3d_one_octave [OF v3] by (rule perlin_3d_inexact [OF v3 ne3])
  show ?thesis
    using 1 2 3 by (simp add: valid_fractal_2d_def valid_fractal_3d_def)
qed

text \<open>
  C6. The evaluator does not return the blended corner ramps on every valid input. Its
  docstring promises \<^verbatim>\<open>ValueError\<close> only for a shape that is not a multiple of the
  resolution. For shape \<open>(49, 49)\<close> and resolution \<open>(1, 1)\<close> the input is valid, but the
  evaluator raises \<^verbatim>\<open>ValueError\<close>: in double precision \<^verbatim>\<open>np.mgrid\<close> generates \<open>50\<close> samples
  for the step \<open>1 / 49\<close>; the same happens in three dimensions. For shape \<open>(147, 2)\<close> and
  resolution \<open>(3, 1)\<close> a field is returned, \<open>sqrt 2\<close> times the blend of the corner ramps of
  cell \<open>i div 49\<close> at the local coordinate of sample \<open>i\<close>; but sample \<open>49\<close>, the first one
  of cell \<open>1\<close>, has the local coordinate \<open>1 - 2\<^sup>-\<^sup>5\<^sup>3\<close> where the exact one is \<open>0\<close>, because
  \<open>49\<close> times the double nearest to \<open>3 / 147\<close> rounds to the double below \<open>1\<close>: its value is
  taken at the far end of cell \<open>1\<close>. (Where the sample grid has the size of the shape, the
  evaluator returns the blend of the corner ramps at these local coordinates, times
  \<open>sqrt 2\<close> in two dimensions and with no factor in three: \<open>perlin_2d_valid\<close>,
  \<open>perlin_3d_valid\<close>.)
\<close>

theorem evaluator_raises_on_valid_input:
  "valid_2d [49, 49] [1, 1] [False, False] \<and>
   generate_perlin_noise_2d [49, 49] [1, 1] [False, False] f g = Inl ValueError \<and>
   valid_3d [49, 49, 49] [1, 1, 1] [False, False, False] \<and>
   generate_perlin_noise_3d [49, 49, 49] [1, 1, 1] [False, False, False] f g = Inl ValueError \<and>
   valid_2d [147, 2] [3, 1] [False, False] \<and>
   generate_perlin_noise_2d [147, 2] [3, 1] [False, False] f g =
     Inr (arr2 147 2 (\<lambda>i j. sqrt 2 * bilinear_2d (lattice_2d g 3 1 [False, False]) f 3 1 49 2 i j),
          g\<lparr>pos := pos g + 8\<rparr>) \<and>
   local_coord 3 147 49 = 1 - 1 / 2 ^ 53 \<and>
   ideal_local_coord 3 147 49 = 0"
proof -
  have v: "valid_2d [49, 49] [1, 1] [False, False]" by (simp add: valid_2d_def)
  have ne: "\<not> exact_grid [49, 49] [1, 1]" by (simp add: exact_grid_def sample_count_1_49)
  have v3: "valid_3d [49, 49, 49] [1, 1, 1] [False, False, False]" by (simp add: valid_3d_def)
  have ne3: "\<not> exact_grid [49, 49, 49] [1, 1, 1]" by (simp add: exact_grid_def sample_count_1_49)
  have v147: "valid_2d [147, 2] [3, 1] [False, False]" by (simp add: valid_2d_def)
  have "generate_perlin_noise_2d [int (3 * 49), int (1 * 2)] [int 3, int 1] [False, False] f g =
     Inr (arr2 (3 * 49) (1 * 2)
            (\<lambda>i j. sqrt 2 * bilinear_2d (lattice_2d g 3 1 [False, False]) f 3 1 49 2 i j),
          g\<lparr>pos := pos g + Suc 3 * Suc 1\<rparr>)"
    by (rule generate_perlin_noise_2d_arr) (simp_all add: sample_count_3_147 sample_count_1_2)
  then have f147: "generate_perlin_noise_2d [147, 2] [3, 1] [False, False] f g =
     Inr (arr2 147 2 (\<lambda>i j. sqrt 2 * bilinear_2d (lattice_2d g 3 1 [False, False]) f 3 1 49 2 i j),
          g\<lparr>pos := pos g + 8\<rparr>)"
    by simp
  have i: "ideal_local_coord 3 147 49 = 0" by (simp add: ideal_local_coord_def)
  show ?thesis
    using v v3 v147 f147 i perlin_2d_inexact [OF v ne, of f g] perlin_3d_inexact [OF v3 ne3, of f g]
      local_coord_3_147_49
    by simp
qed

text \<open>
  C3. With \<open>res\<close> equal to \<open>shape\<close> every sample lies on a lattice corner, and with
  \<open>octaves = 1\<close> and the default interpolant the field that is returned is \<open>0\<close> at every
  sample, whatever the draws behind the corner gradients are; in two and in three
  dimensions. The step is the double \<open>1\<close>, and sample \<open>i\<close> has the coordinate \<open>i\<close>: the shape
  entries are integers that a double holds exactly, at most \<open>2\<^sup>5\<^sup>3\<close> (no array that numpy
  can allocate comes near this size).
\<close>

theorem lattice_corner_samples_zero:
  "(valid_2d shp shp tileable \<and> list_all (\<lambda>n. n \<le> 2 ^ 53) shp \<longrightarrow>
      (\<exists>F h. generate_fractal_noise_2d shp shp 1 persistence lacunarity tileable interpolant g = Inr (F, h) \<and>
             shape F = map nat shp \<and> (\<forall>idx. item F idx = 0))) \<and>
   (valid_3d shp3 shp3 tileable3 \<and> list_all (\<lambda>n. n \<le> 2 ^ 53) shp3 \<longrightarrow>
      (\<exists>F h. generate_fractal_noise_3d shp3 shp3 1 persistence lacunarity tileable3 interpolant g = Inr (F, h) \<and>
             shape F = map nat shp3 \<and> (\<forall>idx. item F idx = 0)))"
proof (intro conjI impI)
  assume "valid_2d shp shp tileable \<and> list_all (\<lambda>n. n \<le> 2 ^ 53) shp"
  then have v: "valid_2d shp shp tileable" and b: "list_all (\<lambda>n. n \<le> 2 ^ 53) shp" by simp_all
  from v have s: "shp = [shp ! 0, shp ! 1]" and p: "0 < shp ! 0" "0 < shp ! 1"
    by (auto simp: valid_2d_def length_Suc_conv numeral_2_eq_2)
  from s have "map nat shp = [nat (shp ! 0), nat (shp ! 1)]"
    by (metis list.simps(8,9))
  moreover have "list_all (\<lambda>n. 0 < n \<and> n \<le> 2 ^ 53) shp"
    using b p by (subst s, subst (asm) s) simp
  then have e: "exact_grid shp shp" by (rule exact_grid_self)
  ultimately show "\<exists>F h. generate_fractal_noise_2d shp shp 1 persistence lacunarity tileable interpolant g = Inr (F, h) \<and>
             shape F = map nat shp \<and> (\<forall>idx. item F idx = 0)"
    by (simp add: fractal_2d_one_octave [OF v] perlin_2d_valid [OF v e]
          noise_field_2d_res_eq_shape [OF v b] item_arr2_zero)
next
  assume "valid_3d shp3 shp3 tileable3 \<and> list_all (\<lambda>n. n \<le> 2 ^ 53) shp3"
  then have v: "valid_3d shp3 shp3 tileable3" and b: "list_all (\<lambda>n. n \<le> 2 ^ 53) shp3" by simp_all
  from v have s: "shp3 = [shp3 ! 0, shp3 ! 1, shp3 ! 2]" and p: "0 < shp3 ! 0" "0 < shp3 ! 1" "0 < shp3 ! 2"
    by (auto simp: valid_3d_def length_Suc_conv numeral_3_eq_3)
  from s have "map nat shp3 = [nat (shp3 ! 0), nat (shp3 ! 1), nat (shp3 ! 2)]"
    by (metis list.simps(8,9))
  moreover have "list_all (\<lambda>n. 0 < n \<and> n \<le> 2 ^ 53) shp3"
    using b p by (subst s, subst (asm) s) simp
  then have e: "exact_grid shp3 shp3" by (rule exact_grid_self)
  ultimately show "\<exists>F h. generate_fractal_noise_3d shp3 shp3 1 persistence lacunarity tileable3 interpolant g = Inr (F, h) \<and>
             shape F = map nat shp3 \<and> (\<forall>idx. item F idx = 0)"
    by (simp add: fractal_3d_one_octave [OF v] perlin_3d_valid [OF v e]
          noise_field_3d_res_eq_shape [OF v b] item_arr3_zero)
qed

theorem lattice_corner_samples_zero_witness:
  "valid_2d [4, 4] [4, 4] [False, False] \<and> list_all (\<lambda>n. n \<le> 2 ^ 53) [4, 4 :: int] \<and>
   (\<exists>F h. generate_fractal_noise_2d [4, 4] [4, 4] 1 (1 / 2) 2 [False, False] interpolant
              \<lparr>draws = (\<lambda>k. 1 / 8), pos = 0\<rparr> = Inr (F, h) \<and>
          shape F = map nat [4, 4] \<and> (\<forall>idx. item F idx = 0)) \<and>
   valid_3d [4, 4, 4] [4, 4, 4] [False, False, False] \<and> list_all (\<lambda>n. n \<le> 2 ^ 53) [4, 4, 4 :: int] \<and>
   (\<exists>F h. generate_fractal_noise_3d [4, 4, 4] [4, 4, 4] 1 (1 / 2) 2 [False, False, False] interpolant
              \<lparr>draws = (\<lambda>k. 1 / 8), pos = 0\<rparr> = Inr (F, h) \<and>
          shape F = map nat [4, 4, 4] \<and> (\<forall>idx. item F idx = 0))"
proof -
  have v2: "valid_2d [4, 4] [4, 4] [False, False]" by (simp add: valid_2d_def)
  have v3: "valid_3d [4, 4, 4] [4, 4, 4] [False, False, False]" by (simp add: valid_3d_def)
  have b2: "list_all (\<lambda>n. n \<le> 2 ^ 53) [4, 4 :: int]" by simp
  have b3: "list_all (\<lambda>n. n \<le> 2 ^ 53) [4, 4, 4 :: int]" by simp
  show ?thesis
    using v2 v3 b2 b3 lattice_corner_samples_zero [of "[4, 4]" "[False, False]" "1 / 2" 2
        "\<lparr>draws = (\<lambda>k. 1 / 8), pos = 0\<rparr>" "[4, 4, 4]" "[False, False, False]"]
    by blast
qed

text \<open>
  C4. After the Gradient Field Builder step, for every tileable axis the last slice of the
  lattice along that axis (index \<open>res[i]\<close> of \<open>res[i] + 1\<close> corners) is the first slice
  along that axis; in the two-dimensional and in the three-dimensional builder.
\<close>

theorem tileable_seam_gradients:
  "(length tileable = 2 \<longrightarrow>
      (\<exists>G h. gradient_lattice_2d (int r0) (int r1) tileable g = Inr (G, h) \<and>
         shape G = [r0 + 1, r1 + 1, 2] \<and>
         (tileable ! 0 \<longrightarrow> (\<forall>b c. item G [r0, b, c] = item G [0, b, c])) \<and>
         (tileable ! 1 \<longrightarrow> (\<forall>a c. item G [a, r1, c] = item G [a, 0, c])))) \<and>
   (length tileable3 = 3 \<longrightarrow>
      (\<exists>G h. gradient_lattice_3d (int r0) (int r1) (int r2) tileable3 g = Inr (G, h) \<and>
         shape G = [r0 + 1, r1 + 1, r2 + 1, 3] \<and>
         (tileable3 ! 0 \<longrightarrow> (\<forall>b c e. item G [r0, b, c, e] = item G [0, b, c, e])) \<and>
         (tileable3 ! 1 \<longrightarrow> (\<forall>a c e. item G [a, r1, c, e] = item G [a, 0, c, e])) \<and>
         (tileable3 ! 2 \<longrightarrow> (\<forall>a b e. item G [a, b, r2, e] = item G [a, b, 0, e]))))"
  by (simp add: gradient_lattice_2d_arr gradient_lattice_3d_arr lattice_2d_def lattice_angle_2d_def
        lattice_3d_def lattice_theta_3d_def lattice_phi_3d_def corner_index_3d_def)

theorem tileable_seam_gradients_witness:
  "length [True, True] = 2 \<and>
   (\<exists>G h. gradient_lattice_2d (int 2) (int 3) [True, True] \<lparr>draws = (\<lambda>k. real k / 16), pos = 0\<rparr> = Inr (G, h) \<and>
      shape G = [2 + 1, 3 + 1, 2] \<and>
      [True, True] ! 0 \<and> (\<forall>b c. item G [2, b, c] = item G [0, b, c]) \<and>
      [True, True] ! 1 \<and> (\<forall>a c. item G [a, 3, c] = item G [a, 0, c])) \<and>
   length [True, True, True] = 3 \<and>
   (\<exists>G h. gradient_lattice_3d (int 2) (int 3) (int 1) [True, True, True]
             \<lparr>draws = (\<lambda>k. real k / 16), pos = 0\<rparr> = Inr (G, h) \<and>
      shape G = [2 + 1, 3 + 1, 1 + 1, 3] \<and>
      [True, True, True] ! 0 \<and> (\<forall>b c e. item G [2, b, c, e] = item G [0, b, c, e]) \<and>
      [True, True, True] ! 1 \<and> (\<forall>a c e. item G [a, 3, c, e] = item G [a, 0, c, e]) \<and>
      [True, True, True] ! 2 \<and> (\<forall>a b e. item G [a, b, 1, e] = item G [a, b, 0, e]))"
  using tileable_seam_gradients [of "[True, True]" 2 3 "\<lparr>draws = (\<lambda>k. real k / 16), pos = 0\<rparr>"
      "[True, True, True]" 1]
  by (simp add: numeral_2_eq_2)



text \<open>
  C8. The field (or the error) a generator returns is a function of its parameters and of
  the draws it consumes: two calls with the same parameters, from generator states at the
  same position whose next draws agree (as many as the call can consume), return the same
  field or raise the same error. This holds for every parameter value, valid or not, and
  for all four generators.
\<close>

theorem same_seed_same_field:
  "(same_draws g h (draw_count_2d res) \<longrightarrow>
      map_sum id fst (generate_perlin_noise_2d shp res tileable f g) =
      map_sum id fst (generate_perlin_noise_2d shp res tileable f h)) \<and>
   (same_draws g h (draw_count_3d res3) \<longrightarrow>
      map_sum id fst (generate_perlin_noise_3d shp3 res3 tileable3 f g) =
      map_sum id fst (generate_perlin_noise_3d shp3 res3 tileable3 f h)) \<and>
   (same_draws g h (fractal_draw_count_2d (nat octaves) res lacunarity 1) \<longrightarrow>
      map_sum id fst (generate_fractal_noise_2d shp res octaves persistence lacunarity tileable f g) =
      map_sum id fst (generate_fractal_noise_2d shp res octaves persistence lacunarity tileable f h)) \<and>
   (same_draws g h (fractal_draw_count_3d (nat octaves) res3 lacunarity 1) \<longrightarrow>
      map_sum id fst (generate_fractal_noise_3d shp3 res3 octaves persistence lacunarity tileable3 f g) =
      map_sum id fst (generate_fractal_noise_3d shp3 res3 octaves persistence lacunarity tileable3 f h))"
proof (intro conjI impI)
  assume "same_draws g h (draw_count_2d res)"
  from perlin_2d_same_draws [OF this, of shp tileable f]
  show "map_sum id fst (generate_perlin_noise_2d shp res tileable f g) =
      map_sum id fst (generate_perlin_noise_2d shp res tileable f h)"
    by simp
next
  assume "same_draws g h (draw_count_3d res3)"
  from perlin_3d_same_draws [OF this, of shp3 tileable3 f]
  show "map_sum id fst (generate_perlin_noise_3d shp3 res3 tileable3 f g) =
      map_sum id fst (generate_perlin_noise_3d shp3 res3 tileable3 f h)"
    by simp
next
  assume "same_draws g h (fractal_draw_count_2d (nat octaves) res lacunarity 1)"
  from fractal_loop_2d_same_draws [OF this]
  show "map_sum id fst (generate_fractal_noise_2d shp res octaves persistence lacunarity tileable f g) =
      map_sum id fst (generate_fractal_noise_2d shp res octaves persistence lacunarity tileable f h)"
    by (cases "np_zeros shp") (simp_all add: generate_fractal_noise_2d_def)
next
  assume "same_draws g h (fractal_draw_count_3d (nat octaves) res3 lacunarity 1)"
  from fractal_loop_3d_same_draws [OF this]
  show "map_sum id fst (generate_fractal_noise_3d shp3 res3 octaves persistence lacunarity tileable3 f g) =
      map_sum id fst (generate_fractal_noise_3d shp3 res3 octaves persistence lacunarity tileable3 f h)"
    by (cases "np_zeros shp3") (simp_all add: generate_fractal_noise_3d_def)
qed

theorem same_seed_same_field_witness:
  "same_draws \<lparr>draws = (\<lambda>k. 1 / 8), pos = 0\<rparr> \<lparr>draws = (\<lambda>k. if k < 1000 then 1 / 8 else 1 / 2), pos = 0\<rparr> (draw_count_2d [2, 2]) \<and>
   map_sum id fst (generate_perlin_noise_2d [4, 4] [2, 2] [False, False] interpolant \<lparr>draws = (\<lambda>k. 1 / 8), pos = 0\<rparr>) =
   map_sum id fst (generate_perlin_noise_2d [4, 4] [2, 2] [False, False] interpolant \<lparr>draws = (\<lambda>k. if k < 1000 then 1 / 8 else 1 / 2), pos = 0\<rparr>) \<and>
   same_draws \<lparr>draws = (\<lambda>k. 1 / 8), pos = 0\<rparr> \<lparr>draws = (\<lambda>k. if k < 1000 then 1 / 8 else 1 / 2), pos = 0\<rparr> (draw_count_3d [2, 2, 2]) \<and>
   map_sum id fst (generate_perlin_noise_3d [4, 4, 4] [2, 2, 2] [False, False, False] interpolant \<lparr>draws = (\<lambda>k. 1 / 8), pos = 0\<rparr>) =
   map_sum id fst (generate_perlin_noise_3d [4, 4, 4] [2, 2, 2] [False, False, False] interpolant \<lparr>draws = (\<lambda>k. if k < 1000 then 1 / 8 else 1 / 2), pos = 0\<rparr>) \<and>
   same_draws \<lparr>draws = (\<lambda>k. 1 / 8), pos = 0\<rparr> \<lparr>draws = (\<lambda>k. if k < 1000 then 1 / 8 else 1 / 2), pos = 0\<rparr> (fractal_draw_count_2d (nat 2) [2, 2] 2 1) \<and>
   map_sum id fst (generate_fractal_noise_2d [4, 4] [2, 2] 2 (1 / 2) 2 [False, False] interpolant \<lparr>draws = (\<lambda>k. 1 / 8), pos = 0\<rparr>) =
   map_sum id fst (generate_fractal_noise_2d [4, 4] [2, 2] 2 (1 / 2) 2 [False, False] interpolant \<lparr>draws = (\<lambda>k. if k < 1000 then 1 / 8 else 1 / 2), pos = 0\<rparr>) \<and>
   same_draws \<lparr>draws = (\<lambda>k. 1 / 8), pos = 0\<rparr> \<lparr>draws = (\<lambda>k. if k < 1000 then 1 / 8 else 1 / 2), pos = 0\<rparr> (fractal_draw_count_3d (nat 2) [2, 2, 2] 2 1) \<and>
   map_sum id fst (generate_fractal_noise_3d [4, 4, 4] [2, 2, 2] 2 (1 / 2) 2 [False, False, False] interpolant \<lparr>draws = (\<lambda>k. 1 / 8), pos = 0\<rparr>) =
   map_sum id fst (generate_fractal_noise_3d [4, 4, 4] [2, 2, 2] 2 (1 / 2) 2 [False, False, False] interpolant \<lparr>draws = (\<lambda>k. if k < 1000 then 1 / 8 else 1 / 2), pos = 0\<rparr>)"
proof -
  have s: "same_draws \<lparr>draws = (\<lambda>k. 1 / 8), pos = 0\<rparr> \<lparr>draws = (\<lambda>k. if k < 1000 then 1 / 8 else 1 / 2), pos = 0\<rparr> n" if "n \<le> 1000" for n
    using that by (simp add: same_draws_def)
  have a: "same_draws \<lparr>draws = (\<lambda>k. 1 / 8), pos = 0\<rparr> \<lparr>draws = (\<lambda>k. if k < 1000 then 1 / 8 else 1 / 2), pos = 0\<rparr> (draw_count_2d [2, 2])"
    by (rule s) (simp add: draw_count_2d_def)
  have b: "same_draws \<lparr>draws = (\<lambda>k. 1 / 8), pos = 0\<rparr> \<lparr>draws = (\<lambda>k. if k < 1000 then 1 / 8 else 1 / 2), pos = 0\<rparr> (fractal_draw_count_2d (nat 2) [2, 2] 2 1)"
    by (rule s) (simp add: draw_count_2d_def eval_nat_numeral)
  have c: "same_draws \<lparr>draws = (\<lambda>k. 1 / 8), pos = 0\<rparr> \<lparr>draws = (\<lambda>k. if k < 1000 then 1 / 8 else 1 / 2), pos = 0\<rparr> (draw_count_3d [2, 2, 2])"
    by (rule s) (simp add: draw_count_3d_def same_draws_def)
  have d: "same_draws \<lparr>draws = (\<lambda>k. 1 / 8), pos = 0\<rparr> \<lparr>draws = (\<lambda>k. if k < 1000 then 1 / 8 else 1 / 2), pos = 0\<rparr> (fractal_draw_count_3d (nat 2) [2, 2, 2] 2 1)"
    by (rule s) (simp add: draw_count_3d_def eval_nat_numeral)
  show ?thesis
    using a b c d
      same_seed_same_field [of "\<lparr>draws = (\<lambda>k. 1 / 8), pos = 0\<rparr>" "\<lparr>draws = (\<lambda>k. if k < 1000 then 1 / 8 else 1 / 2), pos = 0\<rparr>" "[2, 2]"
        "[4, 4]" "[False, False]" interpolant "[2, 2, 2]" "[4, 4, 4]" "[False, False, False]" 2 2 "1 / 2"]
    by blast
qed

text \<open>
  C5. The evaluator relies on numpy's broadcasting to reject a shape that is not a multiple
  of the resolution. For the example of the specification, shape \<open>(10, 10)\<close> and resolution
  \<open>(3, 3)\<close>, it does raise \<^verbatim>\<open>ValueError\<close>. For shape \<open>(1, 4)\<close> and resolution \<open>(2, 2)\<close>, where
  \<open>1\<close> is not a multiple of \<open>2\<close>, it raises nothing: \<open>d[0] = 1 // 2 = 0\<close> empties the corner
  arrays, an axis of size \<open>1\<close> broadcasts against an axis of size \<open>0\<close>, and an empty field
  of shape \<open>(0, 4)\<close> is returned. The same happens in three dimensions.
\<close>

theorem shape_mismatch_not_always_raised:
  "map_sum id (\<lambda>r. shape (fst r))
     (generate_perlin_noise_2d [10, 10] [3, 3] [False, False] f g) = Inl ValueError \<and>
   map_sum id (\<lambda>r. shape (fst r))
     (generate_perlin_noise_2d [1, 4] [2, 2] [False, False] f g) = Inr [0, 4] \<and>
   map_sum id (\<lambda>r. shape (fst r))
     (generate_perlin_noise_3d [10, 10, 10] [3, 3, 3] [False, False, False] f g) = Inl ValueError \<and>
   map_sum id (\<lambda>r. shape (fst r))
     (generate_perlin_noise_3d [1, 4, 4] [2, 2, 2] [False, False, False] f g) = Inr [0, 4, 4]"
proof (intro conjI)
  show "map_sum id (\<lambda>r. shape (fst r))
     (generate_perlin_noise_2d [10, 10] [3, 3] [False, False] f g) = Inl ValueError"
    by (simp add: perlin_2d_defs np_defs Let_def int_truediv_nonzero mgrid_count_3_10
          mgrid_count_2_1 mgrid_count_2_4)
  show "map_sum id (\<lambda>r. shape (fst r))
     (generate_perlin_noise_2d [1, 4] [2, 2] [False, False] f g) = Inr [0, 4]"
    by (simp add: perlin_2d_defs np_defs Let_def int_truediv_nonzero mgrid_count_3_10
          mgrid_count_2_1 mgrid_count_2_4)
  show "map_sum id (\<lambda>r. shape (fst r))
     (generate_perlin_noise_3d [10, 10, 10] [3, 3, 3] [False, False, False] f g) = Inl ValueError"
    by (simp add: perlin_3d_defs np_defs Let_def int_truediv_nonzero mgrid_count_3_10
          mgrid_count_2_1 mgrid_count_2_4)
  show "map_sum id (\<lambda>r. shape (fst r))
     (generate_perlin_noise_3d [1, 4, 4] [2, 2, 2] [False, False, False] f g) = Inr [0, 4, 4]"
    by (simp add: perlin_3d_defs np_defs Let_def int_truediv_nonzero mgrid_count_3_10
          mgrid_count_2_1 mgrid_count_2_4)
qed

text \<open>
  C9. The generators validate nothing, and there is no \<^verbatim>\<open>InvalidParameter\<close> error. As stated
  the claim fails: with \<open>octaves = 0\<close> and otherwise valid parameters the fractal generator
  returns a field of shape \<open>(4, 4)\<close> instead of failing.
\<close>

theorem invalid_octaves_not_rejected:
  "map_sum id (\<lambda>r. shape (fst r))
     (generate_fractal_noise_2d [4, 4] [2, 2] 0 (1 / 2) 2 [False, False] interpolant
        \<lparr>draws = (\<lambda>k. 0), pos = 0\<rparr>) = Inr [4, 4]"
  by (simp add: generate_fractal_noise_2d_def np_zeros_def)

text \<open>
  C9, as amended. What the code does with the parameters the claim names:
  \<^item> a non-positive \<open>octaves\<close> is not an error: the all-zero field of the shape is returned
    (for every shape \<^verbatim>\<open>np.zeros\<close> accepts);
  \<^item> with \<open>octaves \<ge> 1\<close> and a shape of positive integers, a resolution with a zero entry
    fails with \<^verbatim>\<open>ZeroDivisionError\<close> and no field;
  \<^item> with \<open>octaves \<ge> 1\<close> and a shape of positive integers, a resolution without zero
    entries and with an entry below \<open>-1\<close> fails with \<^verbatim>\<open>ValueError\<close> and no field: it is
    \<^verbatim>\<open>np.random.rand\<close> that refuses the negative dimension \<open>res[i] + 1\<close>;
  \<^item> with \<open>octaves \<ge> 1\<close>, a resolution with fewer entries than the dimension fails with
    \<^verbatim>\<open>IndexError\<close> and no field;
  \<^item> surplus entries of the resolution and of the tileable flags are not rejected: they
    are ignored.
\<close>

theorem parameter_errors:
  "(octaves0 \<le> 0 \<and> list_all (\<lambda>n. 0 \<le> n) shp0 \<longrightarrow>
      generate_fractal_noise_2d shp0 res0 octaves0 persistence lacunarity tileable0 f g =
        Inr (tabulate (map nat shp0) (\<lambda>idx. 0), g) \<and>
      generate_fractal_noise_3d shp0 res0 octaves0 persistence lacunarity tileable0 f g =
        Inr (tabulate (map nat shp0) (\<lambda>idx. 0), g)) \<and>
   (0 < octaves \<and> length shp = 2 \<and> list_all (\<lambda>n. 0 < n) shp \<and> length res = 2 \<and>
    (res ! 0 = 0 \<or> res ! 1 = 0) \<longrightarrow>
      generate_fractal_noise_2d shp res octaves persistence lacunarity tileable f g =
        Inl ZeroDivisionError) \<and>
   (0 < octaves \<and> length shp3 = 3 \<and> list_all (\<lambda>n. 0 < n) shp3 \<and> length res3 = 3 \<and>
    (res3 ! 0 = 0 \<or> res3 ! 1 = 0 \<or> res3 ! 2 = 0) \<longrightarrow>
      generate_fractal_noise_3d shp3 res3 octaves persistence lacunarity tileable3 f g =
        Inl ZeroDivisionError) \<and>
   (0 < octaves \<and> list_all (\<lambda>n. 0 \<le> n) shp1 \<and> length res1 < 2 \<longrightarrow>
      generate_fractal_noise_2d shp1 res1 octaves persistence lacunarity tileable1 f g = Inl IndexError) \<and>
   (0 < octaves \<and> list_all (\<lambda>n. 0 \<le> n) shp1 \<and> length res2 < 3 \<longrightarrow>
      generate_fractal_noise_3d shp1 res2 octaves persistence lacunarity tileable1 f g = Inl IndexError) \<and>
   (2 \<le> length res4 \<and> 2 \<le> length tileable4 \<longrightarrow>
      generate_fractal_noise_2d shp4 (res4 @ extra) octaves4 persistence lacunarity (tileable4 @ extra') f g =
      generate_fractal_noise_2d shp4 res4 octaves4 persistence lacunarity tileable4 f g) \<and>
   (3 \<le> length res5 \<and> 3 \<le> length tileable5 \<longrightarrow>
      generate_fractal_noise_3d shp5 (res5 @ extra) octaves4 persistence lacunarity (tileable5 @ extra') f g =
      generate_fractal_noise_3d shp5 res5 octaves4 persistence lacunarity tileable5 f g) \<and>
   (0 < octaves \<and> length shp = 2 \<and> list_all (\<lambda>n. 0 < n) shp \<and> length res6 = 2 \<and>
    list_all (\<lambda>n. n \<noteq> 0) res6 \<and> (res6 ! 0 < - 1 \<or> res6 ! 1 < - 1) \<longrightarrow>
      generate_fractal_noise_2d shp res6 octaves persistence lacunarity tileable f g =
        Inl ValueError) \<and>
   (0 < octaves \<and> length shp3 = 3 \<and> list_all (\<lambda>n. 0 < n) shp3 \<and> length res7 = 3 \<and>
    list_all (\<lambda>n. n \<noteq> 0) res7 \<and> (res7 ! 0 < - 1 \<or> res7 ! 1 < - 1 \<or> res7 ! 2 < - 1) \<longrightarrow>
      generate_fractal_noise_3d shp3 res7 octaves persistence lacunarity tileable3 f g =
        Inl ValueError)"
  by (simp add: fractal_2d_no_octaves fractal_3d_no_octaves fractal_2d_zero_res fractal_3d_zero_res
        fractal_2d_short_res fractal_3d_short_res fractal_2d_extra fractal_3d_extra
        fractal_2d_negative_res fractal_3d_negative_res)

theorem parameter_errors_witness:
  "(0 :: int) \<le> 0 \<and> list_all (\<lambda>n. 0 \<le> n) [4, 4 :: int] \<and>
   generate_fractal_noise_2d [4, 4] [2, 2] 0 (1 / 2) 2 [False, False] interpolant \<lparr>draws = (\<lambda>k. 0), pos = 0\<rparr> =
     Inr (tabulate (map nat [4, 4]) (\<lambda>idx. 0), \<lparr>draws = (\<lambda>k. 0), pos = 0\<rparr>) \<and>
   (0 :: int) < 1 \<and> length [4, 4 :: int] = 2 \<and> list_all (\<lambda>n. 0 < n) [4, 4 :: int] \<and>
   length [0, 2 :: int] = 2 \<and> [0, 2 :: int] ! 0 = 0 \<and>
   generate_fractal_noise_2d [4, 4] [0, 2] 1 (1 / 2) 2 [False, False] interpolant \<lparr>draws = (\<lambda>k. 0), pos = 0\<rparr> =
     Inl ZeroDivisionError \<and>
   length [4, 4, 4 :: int] = 3 \<and> list_all (\<lambda>n. 0 < n) [4, 4, 4 :: int] \<and>
   length [2, 2, 0 :: int] = 3 \<and> [2, 2, 0 :: int] ! 2 = 0 \<and>
   generate_fractal_noise_3d [4, 4, 4] [2, 2, 0] 1 (1 / 2) 2 [False, False, False] interpolant \<lparr>draws = (\<lambda>k. 0), pos = 0\<rparr> =
     Inl ZeroDivisionError \<and>
   length [2 :: int] < 2 \<and>
   generate_fractal_noise_2d [4, 4] [2] 1 (1 / 2) 2 [False, False] interpolant \<lparr>draws = (\<lambda>k. 0), pos = 0\<rparr> = Inl IndexError \<and>
   length [2, 2 :: int] < 3 \<and>
   generate_fractal_noise_3d [4, 4] [2, 2] 1 (1 / 2) 2 [False, False] interpolant \<lparr>draws = (\<lambda>k. 0), pos = 0\<rparr> = Inl IndexError \<and>
   2 \<le> length [2, 2 :: int] \<and> 2 \<le> length [False, False] \<and>
   generate_fractal_noise_2d [4, 4] ([2, 2] @ [7]) 1 (1 / 2) 2 ([False, False] @ [True]) interpolant \<lparr>draws = (\<lambda>k. 0), pos = 0\<rparr> =
   generate_fractal_noise_2d [4, 4] [2, 2] 1 (1 / 2) 2 [False, False] interpolant \<lparr>draws = (\<lambda>k. 0), pos = 0\<rparr> \<and>
   3 \<le> length [2, 2, 2 :: int] \<and> 3 \<le> length [False, False, False] \<and>
   generate_fractal_noise_3d [4, 4, 4] ([2, 2, 2] @ [7]) 1 (1 / 2) 2 ([False, False, False] @ [True]) interpolant \<lparr>draws = (\<lambda>k. 0), pos = 0\<rparr> =
   generate_fractal_noise_3d [4, 4, 4] [2, 2, 2] 1 (1 / 2) 2 [False, False, False] interpolant \<lparr>draws = (\<lambda>k. 0), pos = 0\<rparr> \<and>
   length [- 2, 2 :: int] = 2 \<and> list_all (\<lambda>n. n \<noteq> 0) [- 2, 2 :: int] \<and> [- 2, 2 :: int] ! 0 < - 1 \<and>
   generate_fractal_noise_2d [4, 4] [- 2, 2] 1 (1 / 2) 2 [False, False] interpolant \<lparr>draws = (\<lambda>k. 0), pos = 0\<rparr> =
     Inl ValueError \<and>
   length [2, 2, - 2 :: int] = 3 \<and> list_all (\<lambda>n. n \<noteq> 0) [2, 2, - 2 :: int] \<and> [2, 2, - 2 :: int] ! 2 < - 1 \<and>
   generate_fractal_noise_3d [4, 4, 4] [2, 2, - 2] 1 (1 / 2) 2 [False, False, False] interpolant \<lparr>draws = (\<lambda>k. 0), pos = 0\<rparr> =
     Inl ValueError"
proof -
  have h: "(0 :: int) \<le> 0" "list_all (\<lambda>n. 0 \<le> n) [4, 4 :: int]"
    "(0 :: int) < 1" "length [4, 4 :: int] = 2" "list_all (\<lambda>n. 0 < n) [4, 4 :: int]"
    "length [0, 2 :: int] = 2" "[0, 2 :: int] ! 0 = 0"
    "length [4, 4, 4 :: int] = 3" "list_all (\<lambda>n. 0 < n) [4, 4, 4 :: int]"
    "length [2, 2, 0 :: int] = 3" "[2, 2, 0 :: int] ! 2 = 0"
    "length [2 :: int] < 2" "length [2, 2 :: int] < 3"
    "2 \<le> length [2, 2 :: int]" "2 \<le> length [False, False]"
    "3 \<le> length [2, 2, 2 :: int]" "3 \<le> length [False, False, False]"
    "length [- 2, 2 :: int] = 2" "list_all (\<lambda>n. n \<noteq> 0) [- 2, 2 :: int]" "[- 2, 2 :: int] ! 0 < - 1"
    "length [2, 2, - 2 :: int] = 3" "list_all (\<lambda>n. n \<noteq> 0) [2, 2, - 2 :: int]" "[2, 2, - 2 :: int] ! 2 < - 1"
    by simp_all
  show ?thesis
    using h
      parameter_errors [of 0 "[4, 4]" "[2, 2]" "1 / 2" 2 "[False, False]" interpolant "\<lparr>draws = (\<lambda>k. 0), pos = 0\<rparr>"
        1 "[4, 4]" "[0, 2]" "[False, False]" "[4, 4, 4]" "[2, 2, 0]" "[False, False, False]"
        "[4, 4]" "[2]" "[False, False]" "[2, 2]" "[2, 2]" "[False, False]" "[4, 4]" "[7]" 1 "[True]"
        "[2, 2, 2]" "[False, False, False]" "[4, 4, 4]" "[- 2, 2]" "[2, 2, - 2]"]
    by blast
qed

end
